theory Spec2Isabelle
  imports Main "HOL-Library.Word"
begin

section \<open>RDMA userspace connection manager access (drivers/infiniband/core/ucma.c)\<close>

text \<open>
  A shallow embedding of the command handlers and of the engine callback of ucma.c.
  Kernel objects live in explicit stores (address to object); a handler takes the state
  and returns its return value together with the new state. A result \<open>None\<close> means
  that the call does not return: it follows a pointer to an object that is not there, or
  it sleeps and is never woken. What the environment decides (memory allocation, the
  copies from and to the client, the engine's answers) is read from a record of choices.
\<close>

subsection \<open>Error numbers\<close>

text \<open>The values of the errno headers; the handlers return them negated.\<close>

definition ENOENT :: int where "ENOENT = 2"
definition EIO :: int where "EIO = 5"
definition ENXIO :: int where "ENXIO = 6"
definition EAGAIN :: int where "EAGAIN = 11"
definition ENOMEM :: int where "ENOMEM = 12"
definition EACCES :: int where "EACCES = 13"
definition EFAULT :: int where "EFAULT = 14"
definition EINVAL :: int where "EINVAL = 22"
definition ENOSPC :: int where "ENOSPC = 28"
definition ENOSYS :: int where "ENOSYS = 38"
definition ERESTARTSYS :: int where "ERESTARTSYS = 512"

subsection \<open>Data model\<close>

type_synonym ctx_ptr = nat
type_synonym file_ptr = nat
type_synonym mc_ptr = nat
type_synonym cm_ptr = nat
type_synonym u8 = "8 word"
type_synonym u16 = "16 word"
type_synonym u32 = "32 word"
type_synonym u64 = "64 word"

text \<open>
  The event kinds of the engine (enum rdma_cm_event_type of rdma/rdma_cm.h). The four
  kinds that ucma.c tests by name are constructors of their own; every other kind is
  \<open>RDMA_CM_EVENT_OTHER\<close> with its number.
\<close>

datatype rdma_cm_event_type =
    RDMA_CM_EVENT_CONNECT_REQUEST
  | RDMA_CM_EVENT_DEVICE_REMOVAL
  | RDMA_CM_EVENT_MULTICAST_JOIN
  | RDMA_CM_EVENT_MULTICAST_ERROR
  | RDMA_CM_EVENT_OTHER nat

datatype ib_qp_type = IB_QPT_RC | IB_QPT_UD | IB_QPT_OTHER nat

datatype rdma_port_space =
  RDMA_PS_IPOIB | RDMA_PS_IB | RDMA_PS_TCP | RDMA_PS_UDP | RDMA_PS_OTHER nat

text \<open>The engine's connection object, as far as ucma.c reads and writes it.\<close>

record rdma_cm_id =
  cm_context :: ctx_ptr
  cm_device :: "nat option"
  cm_qp_type :: ib_qp_type

text \<open>
  An event as the engine hands it to the callback. \<open>ud_private_data\<close> is
  \<open>param.ud.private_data\<close>, which for the multicast events is the pointer that was
  given to rdma_join_multicast; \<open>param\<close> stands for the rest of the parameter union.
\<close>

record rdma_cm_event =
  event :: rdma_cm_event_type
  status :: u32
  ud_private_data :: mc_ptr
  param :: nat
  ece_vendor_id :: u32
  ece_attr_mod :: u32

datatype ucm_param = Ud_param nat | Conn_param nat

record rdma_ucm_event_resp =
  resp_uid :: u64
  resp_id :: u32
  resp_event :: rdma_cm_event_type
  resp_status :: u32
  resp_param :: ucm_param
  resp_ece_vendor_id :: u32
  resp_ece_attr_mod :: u32

record ucma_event =
  ev_ctx :: ctx_ptr
  ev_mc :: "mc_ptr option"
  ev_cm_id :: cm_ptr
  ev_resp :: rdma_ucm_event_resp

record sockaddr =
  sa_family :: nat
  sa_data :: nat

datatype join_state_bit = FULLMEMBER_JOIN | SENDONLY_FULLMEMBER_JOIN

record ucma_context =
  ctx_id :: u32
  ctx_comp :: nat
  ctx_ref :: nat
  ctx_events_reported :: u32
  ctx_backlog :: u32
  ctx_file :: file_ptr
  ctx_cm_id :: "cm_ptr option"
  ctx_uid :: u64
  ctx_mc_list :: "mc_ptr list"
  ctx_closing :: bool
  ctx_destroying :: bool

record ucma_multicast =
  mc_ctx :: ctx_ptr
  mc_id :: u32
  mc_events_reported :: u32
  mc_uid :: u64
  mc_join_state :: "join_state_bit option"
  mc_addr :: sockaddr

text \<open>Work items of a file's ordered close workqueue.\<close>

datatype close_work = Close_id ctx_ptr | Close_event_id ucma_event

text \<open>
  \<open>poll_wait\<close> counts the wake-ups of the file's wait queue; \<open>nonblock\<close> is
  \<open>filp->f_flags & O_NONBLOCK\<close>.
\<close>

record ucma_file =
  ctx_list :: "ctx_ptr list"
  event_list :: "ucma_event list"
  poll_wait :: nat
  close_wq :: "close_work list"
  nonblock :: bool

text \<open>
  Modelled from the spec: the connection-management engine (rdma_cm), an external
  collaborator that is not among the sources. The state records the calls made into it,
  in order; what a call returns is a choice of the environment. A connection object
  enters the store when __rdma_create_id returns it and leaves it with rdma_destroy_id.
\<close>

datatype engine_call =
    Rdma_create_id ctx_ptr rdma_port_space ib_qp_type
  | Rdma_destroy_id cm_ptr
  | Rdma_listen cm_ptr u32
  | Rdma_join_multicast cm_ptr sockaddr join_state_bit mc_ptr
  | Rdma_leave_multicast cm_ptr sockaddr

datatype fd_file = Ucma_fd file_ptr | Foreign_fd

text \<open>
  Modelled from the spec: the XArray of linux/xarray.h, which is not among the sources,
  as the spec's table from an integer id to an entry with allocation, lookup and erase.
  Each of the two XArrays is a map from an index to an entry: xa_load reads the map,
  xa_erase removes the index, xa_alloc stores the entry at a free index of its choice,
  xa_store overwrites. An index of \<open>multicast_table\<close> that is reserved but
  not yet published holds \<open>Some None\<close> (xa_alloc of a NULL entry), for which
  xa_load gives NULL as it does for a free index.
\<close>

record ucma_state =
  ctx_table :: "nat \<rightharpoonup> ctx_ptr"
  multicast_table :: "nat \<rightharpoonup> mc_ptr option"
  ctxs :: "ctx_ptr \<rightharpoonup> ucma_context"
  mcs :: "mc_ptr \<rightharpoonup> ucma_multicast"
  files :: "file_ptr \<rightharpoonup> ucma_file"
  cm_ids :: "cm_ptr \<rightharpoonup> rdma_cm_id"
  fd_table :: "u32 \<rightharpoonup> fd_file"
  max_backlog :: u32
  engine_calls :: "engine_call list"

text \<open>
  What the platform's headers fix: the width of unsigned long and the sizes of the
  structures of rdma/rdma_user_cm.h that the handlers compare lengths with.
\<close>

record abi =
  BITS_PER_LONG :: nat
  sizeof_hdr :: nat
  sizeof_event_resp :: nat
  sizeof_event_resp_reserved :: nat
  sizeof_event_resp_ece :: nat
  sizeof_create_id_resp :: nat
  sizeof_destroy_id_resp :: nat

text \<open>
  The environment's choices during one call: whether the copies from and to the client
  succeed, the address kzalloc returns (\<open>None\<close> for NULL), the index xa_alloc picks
  (\<open>None\<close> when it fails), whether a sleeping reader is interrupted by a signal, the
  value an engine call returns, and what __rdma_create_id returns (an error number or
  the address of the new connection object).
\<close>

record env =
  copy_from_ok :: bool
  copy_to_ok :: bool
  kzalloc :: "nat option"
  xa_alloc_id :: "u32 option"
  signal_pending :: bool
  engine_ret :: int
  rdma_create_id :: "int + cm_ptr"
  rdma_addr_size :: "sockaddr \<Rightarrow> nat"

subsection \<open>Reference counts and completions\<close>

text \<open>
  Modelled from the spec: the refcount_t operations of linux/refcount.h and complete()
  of linux/completion.h, which ucma.c calls and which are not among the sources. The
  count is a natural number: a lookup "increments refcount", a release "decrements
  refcount; if it reaches zero, signals the completion". refcount_dec_and_test is true
  when the count goes from one to zero; refcount_inc_not_zero leaves a count of zero
  alone and says so. The saturation of refcount_t on misuse is not modelled.
\<close>

definition refcount_inc :: "nat \<Rightarrow> nat" where
  [simp]: "refcount_inc r = r + 1"

definition refcount_dec_and_test :: "nat \<Rightarrow> nat \<times> bool" where
  [simp]: "refcount_dec_and_test r = (r - 1, r = 1)"

definition refcount_inc_not_zero :: "nat \<Rightarrow> nat \<times> bool" where
  [simp]: "refcount_inc_not_zero r = (if r = 0 then (r, False) else (r + 1, True))"

definition complete :: "nat \<Rightarrow> nat" where
  [simp]: "complete done = done + 1"

subsection \<open>Context lookup\<close>

text \<open>
  The handlers pass the 32-bit id of the command as an \<open>int\<close>, which xa_load widens to
  an unsigned long index: a value with the top bit set is sign-extended.
\<close>

definition xa_index :: "abi \<Rightarrow> u32 \<Rightarrow> nat" where
  "xa_index A i = nat (sint i mod 2 ^ BITS_PER_LONG A)"

definition ucma_find_context ::
  "abi \<Rightarrow> u32 \<Rightarrow> file_ptr \<Rightarrow> ucma_state \<Rightarrow> (int + ctx_ptr) option" where
  "ucma_find_context A i file s =
     (case ctx_table s (xa_index A i) of
        None \<Rightarrow> Some (Inl (- ENOENT))
      | Some p \<Rightarrow>
          (case ctxs s p of
             None \<Rightarrow> None
           | Some c \<Rightarrow>
               if ctx_file c \<noteq> file \<or> ctx_cm_id c = None then Some (Inl (- EINVAL))
               else Some (Inr p)))"

definition ucma_get_ctx ::
  "abi \<Rightarrow> file_ptr \<Rightarrow> u32 \<Rightarrow> ucma_state \<Rightarrow> ((int + ctx_ptr) \<times> ucma_state) option" where
  "ucma_get_ctx A file i s =
     (case ucma_find_context A i file s of
        None \<Rightarrow> None
      | Some (Inl e) \<Rightarrow> Some (Inl e, s)
      | Some (Inr p) \<Rightarrow>
          (case ctxs s p of
             None \<Rightarrow> None
           | Some c \<Rightarrow>
               if ctx_closing c then Some (Inl (- EIO), s)
               else Some (Inr p,
                      s\<lparr>ctxs := (ctxs s)(p \<mapsto> c\<lparr>ctx_ref := refcount_inc (ctx_ref c)\<rparr>)\<rparr>)))"

definition ucma_put_ctx :: "ctx_ptr \<Rightarrow> ucma_state \<Rightarrow> ucma_state option" where
  "ucma_put_ctx p s =
     (case ctxs s p of
        None \<Rightarrow> None
      | Some c \<Rightarrow>
          (case refcount_dec_and_test (ctx_ref c) of
             (r, zero) \<Rightarrow>
               Some (s\<lparr>ctxs := (ctxs s)(p \<mapsto>
                 c\<lparr>ctx_ref := r,
                   ctx_comp := (if zero then complete (ctx_comp c) else ctx_comp c)\<rparr>)\<rparr>)))"

definition ucma_get_ctx_dev ::
  "abi \<Rightarrow> file_ptr \<Rightarrow> u32 \<Rightarrow> ucma_state \<Rightarrow> ((int + ctx_ptr) \<times> ucma_state) option" where
  "ucma_get_ctx_dev A file i s =
     (case ucma_get_ctx A file i s of
        None \<Rightarrow> None
      | Some (Inl e, s1) \<Rightarrow> Some (Inl e, s1)
      | Some (Inr p, s1) \<Rightarrow>
          (case ctxs s1 p of
             None \<Rightarrow> None
           | Some c \<Rightarrow>
               (case ctx_cm_id c of
                  None \<Rightarrow> None
                | Some cm \<Rightarrow>
                    (case cm_ids s1 cm of
                       None \<Rightarrow> None
                     | Some ci \<Rightarrow>
                         if cm_device ci = None then
                           (case ucma_put_ctx p s1 of
                              None \<Rightarrow> None
                            | Some s2 \<Rightarrow> Some (Inl (- EINVAL), s2))
                         else Some (Inr p, s1)))))"

subsection \<open>Allocation\<close>

text \<open>
  kzalloc returns zeroed memory. xa_alloc stores the entry at the index it picked; the
  index is a 32-bit id, widened without sign.
\<close>

definition zeroed_ctx :: ucma_context where
  "zeroed_ctx = \<lparr>ctx_id = 0, ctx_comp = 0, ctx_ref = 0, ctx_events_reported = 0,
     ctx_backlog = 0, ctx_file = 0, ctx_cm_id = None, ctx_uid = 0, ctx_mc_list = [],
     ctx_closing = False, ctx_destroying = False\<rparr>"

definition zeroed_mc :: ucma_multicast where
  "zeroed_mc = \<lparr>mc_ctx = 0, mc_id = 0, mc_events_reported = 0, mc_uid = 0,
     mc_join_state = None, mc_addr = \<lparr>sa_family = 0, sa_data = 0\<rparr>\<rparr>"

definition zeroed_event :: ucma_event where
  "zeroed_event = \<lparr>ev_ctx = 0, ev_mc = None, ev_cm_id = 0,
     ev_resp = \<lparr>resp_uid = 0, resp_id = 0, resp_event = RDMA_CM_EVENT_OTHER 0,
       resp_status = 0, resp_param = Conn_param 0, resp_ece_vendor_id = 0,
       resp_ece_attr_mod = 0\<rparr>\<rparr>"

definition ucma_alloc_ctx ::
  "env \<Rightarrow> file_ptr \<Rightarrow> ucma_state \<Rightarrow> (ctx_ptr option \<times> ucma_state) option" where
  "ucma_alloc_ctx E file s =
     (case kzalloc E of
        None \<Rightarrow> Some (None, s)
      | Some p \<Rightarrow>
          (case xa_alloc_id E of
             None \<Rightarrow> Some (None, s)
           | Some i \<Rightarrow>
               (case files s file of
                  None \<Rightarrow> None
                | Some f \<Rightarrow>
                    Some (Some p,
                      s\<lparr>ctx_table := (ctx_table s)(unat i \<mapsto> p),
                        ctxs := (ctxs s)(p \<mapsto> zeroed_ctx\<lparr>ctx_ref := 1, ctx_file := file, ctx_id := i\<rparr>),
                        files := (files s)(file \<mapsto> f\<lparr>ctx_list := ctx_list f @ [p]\<rparr>)\<rparr>))))"

definition ucma_alloc_multicast ::
  "env \<Rightarrow> ctx_ptr \<Rightarrow> ucma_state \<Rightarrow> (mc_ptr option \<times> ucma_state) option" where
  "ucma_alloc_multicast E p s =
     (case kzalloc E of
        None \<Rightarrow> Some (None, s)
      | Some m \<Rightarrow>
          (case xa_alloc_id E of
             None \<Rightarrow> Some (None, s)
           | Some i \<Rightarrow>
               (case ctxs s p of
                  None \<Rightarrow> None
                | Some c \<Rightarrow>
                    Some (Some m,
                      s\<lparr>multicast_table := (multicast_table s)(unat i \<mapsto> None),
                        mcs := (mcs s)(m \<mapsto> zeroed_mc\<lparr>mc_ctx := p, mc_id := i\<rparr>),
                        ctxs := (ctxs s)(p \<mapsto> c\<lparr>ctx_mc_list := ctx_mc_list c @ [m]\<rparr>)\<rparr>))))"

definition rdma_destroy_id :: "cm_ptr \<Rightarrow> ucma_state \<Rightarrow> ucma_state" where
  "rdma_destroy_id cm s =
     s\<lparr>cm_ids := (cm_ids s)(cm := None), engine_calls := engine_calls s @ [Rdma_destroy_id cm]\<rparr>"

subsection \<open>The engine callback\<close>

definition ucma_set_event_context ::
  "ctx_ptr \<Rightarrow> rdma_cm_event \<Rightarrow> ucma_event \<Rightarrow> ucma_state \<Rightarrow> ucma_event option" where
  "ucma_set_event_context p ev uevent s =
     (if event ev = RDMA_CM_EVENT_MULTICAST_JOIN \<or> event ev = RDMA_CM_EVENT_MULTICAST_ERROR then
        (case mcs s (ud_private_data ev) of
           None \<Rightarrow> None
         | Some m \<Rightarrow>
             Some (uevent\<lparr>ev_ctx := p, ev_mc := Some (ud_private_data ev),
               ev_resp := (ev_resp uevent)\<lparr>resp_uid := mc_uid m, resp_id := mc_id m\<rparr>\<rparr>))
      else
        (case ctxs s p of
           None \<Rightarrow> None
         | Some c \<Rightarrow>
             Some (uevent\<lparr>ev_ctx := p,
               ev_resp := (ev_resp uevent)\<lparr>resp_uid := ctx_uid c, resp_id := ctx_id c\<rparr>\<rparr>)))"

text \<open>
  The search of ucma_removal_event_handler: the first queued connect request that
  carries the connection object, and the queue without it.
\<close>

fun find_con_req :: "cm_ptr \<Rightarrow> ucma_event list \<Rightarrow> (ucma_event \<times> ucma_event list) option" where
  "find_con_req cm [] = None"
| "find_con_req cm (e # es) =
     (if ev_cm_id e = cm \<and> resp_event (ev_resp e) = RDMA_CM_EVENT_CONNECT_REQUEST
      then Some (e, es)
      else (case find_con_req cm es of None \<Rightarrow> None | Some (x, r) \<Rightarrow> Some (x, e # r)))"

text \<open>queue_work does nothing when the work item is already pending.\<close>

definition queue_work :: "close_work \<Rightarrow> close_work list \<Rightarrow> close_work list" where
  "queue_work w q = (if w \<in> set q then q else q @ [w])"

definition ucma_removal_event_handler :: "cm_ptr \<Rightarrow> ucma_state \<Rightarrow> ucma_state option" where
  "ucma_removal_event_handler cm s =
     (case cm_ids s cm of
        None \<Rightarrow> None
      | Some ci \<Rightarrow>
          (case ctxs s (cm_context ci) of
             None \<Rightarrow> None
           | Some c \<Rightarrow>
               if ctx_destroying c then Some s
               else
                 (case files s (ctx_file c) of
                    None \<Rightarrow> None
                  | Some f \<Rightarrow>
                      if ctx_cm_id c = Some cm then
                        Some (s\<lparr>ctxs := (ctxs s)(cm_context ci \<mapsto> c\<lparr>ctx_closing := True\<rparr>),
                                files := (files s)(ctx_file c \<mapsto>
                                  f\<lparr>close_wq := queue_work (Close_id (cm_context ci)) (close_wq f)\<rparr>)\<rparr>)
                      else
                        (case find_con_req cm (event_list f) of
                           None \<Rightarrow> Some s
                         | Some (e, rest) \<Rightarrow>
                             Some (s\<lparr>files := (files s)(ctx_file c \<mapsto>
                               f\<lparr>event_list := rest,
                                 close_wq := close_wq f @ [Close_event_id e]\<rparr>)\<rparr>)))))"

text \<open>
  The event structure the callback fills in before it decides whether to queue it:
  ucma_set_event_context, then the kind, the status, the parameters (by the queue pair
  type of the connection object) and the ECE fields.
\<close>

definition ucma_fill_event ::
  "cm_ptr \<Rightarrow> rdma_cm_id \<Rightarrow> rdma_cm_event \<Rightarrow> ucma_state \<Rightarrow> ucma_event option" where
  "ucma_fill_event cm ci ev s =
     (case ucma_set_event_context (cm_context ci) ev (zeroed_event\<lparr>ev_cm_id := cm\<rparr>) s of
        None \<Rightarrow> None
      | Some u \<Rightarrow>
          Some (u\<lparr>ev_resp := (ev_resp u)\<lparr>
            resp_event := event ev,
            resp_status := status ev,
            resp_param := (if cm_qp_type ci = IB_QPT_UD then Ud_param (param ev)
                           else Conn_param (param ev)),
            resp_ece_vendor_id := ece_vendor_id ev,
            resp_ece_attr_mod := ece_attr_mod ev\<rparr>\<rparr>))"

text \<open>list_add_tail on the file's event list and wake_up_interruptible on its wait queue.\<close>

definition enqueue_event :: "ucma_event \<Rightarrow> ucma_file \<Rightarrow> ucma_file" where
  "enqueue_event u f = f\<lparr>event_list := event_list f @ [u], poll_wait := poll_wait f + 1\<rparr>"

definition ucma_event_handler ::
  "env \<Rightarrow> cm_ptr \<Rightarrow> rdma_cm_event \<Rightarrow> ucma_state \<Rightarrow> (int \<times> ucma_state) option" where
  "ucma_event_handler E cm ev s =
     (case cm_ids s cm of
        None \<Rightarrow> None
      | Some ci \<Rightarrow>
          if kzalloc E = None then
            Some (if event ev = RDMA_CM_EVENT_CONNECT_REQUEST then 1 else 0, s)
          else
            (case ctxs s (cm_context ci) of
               None \<Rightarrow> None
             | Some c \<Rightarrow>
                 (case files s (ctx_file c) of
                    None \<Rightarrow> None
                  | Some f \<Rightarrow>
                      (case ucma_fill_event cm ci ev s of
                         None \<Rightarrow> None
                       | Some uevent \<Rightarrow>
                           if event ev = RDMA_CM_EVENT_CONNECT_REQUEST then
                             (if ctx_backlog c = 0 then Some (- ENOMEM, s)
                              else
                                Some (0,
                                  s\<lparr>ctxs := (ctxs s)(cm_context ci \<mapsto> c\<lparr>ctx_backlog := ctx_backlog c - 1\<rparr>),
                                    files := (files s)(ctx_file c \<mapsto> enqueue_event uevent f)\<rparr>))
                           else if ctx_uid c = 0 \<or> ctx_cm_id c \<noteq> Some cm then
                             (if event ev = RDMA_CM_EVENT_DEVICE_REMOVAL then
                                (case ucma_removal_event_handler cm s of
                                   None \<Rightarrow> None
                                 | Some s1 \<Rightarrow> Some (0, s1))
                              else Some (0, s))
                           else
                             (let s1 = s\<lparr>files := (files s)(ctx_file c \<mapsto> enqueue_event uevent f)\<rparr>
                              in if event ev = RDMA_CM_EVENT_DEVICE_REMOVAL then
                                   (case ucma_removal_event_handler cm s1 of
                                      None \<Rightarrow> None
                                    | Some s2 \<Rightarrow> Some (0, s2))
                                 else Some (0, s1))))))"

text \<open>
  A run of the callback over a list of deliveries, each with its own allocation choice,
  and the number of connect requests of a listener that wait in a queue.
\<close>

fun deliver ::
  "(env \<times> cm_ptr \<times> rdma_cm_event) list \<Rightarrow> ucma_state \<Rightarrow> (int list \<times> ucma_state) option" where
  "deliver [] s = Some ([], s)"
| "deliver ((E, cm, ev) # ds) s =
     (case ucma_event_handler E cm ev s of
        None \<Rightarrow> None
      | Some (r, s1) \<Rightarrow>
          (case deliver ds s1 of
             None \<Rightarrow> None
           | Some (rs, s2) \<Rightarrow> Some (r # rs, s2)))"

definition pending_con_reqs :: "ctx_ptr \<Rightarrow> ucma_event list \<Rightarrow> nat" where
  "pending_con_reqs p q =
     length (filter (\<lambda>e. ev_ctx e = p \<and> resp_event (ev_resp e) = RDMA_CM_EVENT_CONNECT_REQUEST) q)"

subsection \<open>Reading events\<close>

text \<open>
  The lengths \<open>in_len\<close> and \<open>out_len\<close> of a handler are the 16-bit fields of the
  command header, so they are natural numbers here. A handler returns its return value,
  what the client received (\<open>None\<close> when nothing was copied out) and the new state.
\<close>

text \<open>
  The branch of ucma_get_event for a connect request at the head of the queue: a new
  context adopts the event's connection object and its id goes into the response.
\<close>

definition ucma_get_event_con_req ::
  "env \<Rightarrow> file_ptr \<Rightarrow> ucma_event \<Rightarrow> ucma_state \<Rightarrow> ((int + ucma_event) \<times> ucma_state) option" where
  "ucma_get_event_con_req E file uevent s =
     (case ucma_alloc_ctx E file s of
        None \<Rightarrow> None
      | Some (None, s1) \<Rightarrow> Some (Inl (- ENOMEM), s1)
      | Some (Some p, s1) \<Rightarrow>
          (case ctxs s1 (ev_ctx uevent) of
             None \<Rightarrow> None
           | Some parent \<Rightarrow>
               (let s2 = s1\<lparr>ctxs := (ctxs s1)(ev_ctx uevent \<mapsto>
                           parent\<lparr>ctx_backlog := ctx_backlog parent + 1\<rparr>)\<rparr>
                in case ctxs s2 p of
                     None \<Rightarrow> None
                   | Some c \<Rightarrow>
                       (case cm_ids s2 (ev_cm_id uevent) of
                          None \<Rightarrow> None
                        | Some ci \<Rightarrow>
                            Some (Inr (uevent\<lparr>ev_resp := (ev_resp uevent)\<lparr>resp_id := ctx_id c\<rparr>\<rparr>),
                              s2\<lparr>ctxs := (ctxs s2)(p \<mapsto> c\<lparr>ctx_cm_id := Some (ev_cm_id uevent)\<rparr>),
                                 cm_ids := (cm_ids s2)(ev_cm_id uevent \<mapsto> ci\<lparr>cm_context := p\<rparr>)\<rparr>)))))"

text \<open>
  The end of ucma_get_event after a successful copy: the event leaves the queue and the
  counters of its context and of its multicast group, if it has one, go up.
\<close>

definition ucma_get_event_reported ::
  "file_ptr \<Rightarrow> ucma_event \<Rightarrow> ucma_state \<Rightarrow> ucma_state option" where
  "ucma_get_event_reported file uevent s =
     (case files s file of
        None \<Rightarrow> None
      | Some f \<Rightarrow>
          (let s1 = s\<lparr>files := (files s)(file \<mapsto> f\<lparr>event_list := tl (event_list f)\<rparr>)\<rparr>
           in case ctxs s1 (ev_ctx uevent) of
                None \<Rightarrow> None
              | Some c \<Rightarrow>
                  (let s2 = s1\<lparr>ctxs := (ctxs s1)(ev_ctx uevent \<mapsto>
                              c\<lparr>ctx_events_reported := ctx_events_reported c + 1\<rparr>)\<rparr>
                   in case ev_mc uevent of
                        None \<Rightarrow> Some s2
                      | Some m \<Rightarrow>
                          (case mcs s2 m of
                             None \<Rightarrow> None
                           | Some g \<Rightarrow>
                               Some (s2\<lparr>mcs := (mcs s2)(m \<mapsto>
                                 g\<lparr>mc_events_reported := mc_events_reported g + 1\<rparr>)\<rparr>)))))"

definition ucma_get_event ::
  "abi \<Rightarrow> env \<Rightarrow> file_ptr \<Rightarrow> nat \<Rightarrow> nat \<Rightarrow> ucma_state \<Rightarrow>
     (int \<times> (rdma_ucm_event_resp \<times> nat) option \<times> ucma_state) option" where
  "ucma_get_event A E file in_len out_len s =
     (if out_len < sizeof_event_resp A - sizeof_event_resp_reserved A - sizeof_event_resp_ece A
      then Some (- ENOSPC, None, s)
      else if \<not> copy_from_ok E then Some (- EFAULT, None, s)
      else
        (case files s file of
           None \<Rightarrow> None
         | Some f \<Rightarrow>
             (case event_list f of
                [] \<Rightarrow>
                  if nonblock f then Some (- EAGAIN, None, s)
                  else if signal_pending E then Some (- ERESTARTSYS, None, s)
                  else None
              | uevent # rest \<Rightarrow>
                  (case (if resp_event (ev_resp uevent) = RDMA_CM_EVENT_CONNECT_REQUEST
                         then ucma_get_event_con_req E file uevent s
                         else Some (Inr uevent, s)) of
                     None \<Rightarrow> None
                   | Some (Inl e, s1) \<Rightarrow> Some (e, None, s1)
                   | Some (Inr uevent', s1) \<Rightarrow>
                       (case files s1 file of
                          None \<Rightarrow> None
                        | Some f1 \<Rightarrow>
                            (let s2 = s1\<lparr>files := (files s1)(file \<mapsto>
                                        f1\<lparr>event_list := uevent' # tl (event_list f1)\<rparr>)\<rparr>
                             in if \<not> copy_to_ok E then Some (- EFAULT, None, s2)
                                else
                                  (case ucma_get_event_reported file uevent' s2 of
                                     None \<Rightarrow> None
                                   | Some s3 \<Rightarrow>
                                       Some (0,
                                         Some (ev_resp uevent', min out_len (sizeof_event_resp A)),
                                         s3))))))))"

subsection \<open>Creating a context\<close>

record rdma_ucm_create_id =
  cid_uid :: u64
  cid_ps :: rdma_port_space
  cid_qp_type :: ib_qp_type

definition ucma_get_qp_type :: "rdma_ucm_create_id \<Rightarrow> int + ib_qp_type" where
  "ucma_get_qp_type cmd =
     (case cid_ps cmd of
        RDMA_PS_TCP \<Rightarrow> Inr IB_QPT_RC
      | RDMA_PS_UDP \<Rightarrow> Inr IB_QPT_UD
      | RDMA_PS_IPOIB \<Rightarrow> Inr IB_QPT_UD
      | RDMA_PS_IB \<Rightarrow> Inr (cid_qp_type cmd)
      | RDMA_PS_OTHER n \<Rightarrow> Inl (- EINVAL))"

text \<open>list_del takes the one node of the object out of the list it is on.\<close>

definition list_del :: "nat \<Rightarrow> nat list \<Rightarrow> nat list" where
  "list_del x xs = remove1 x xs"

text \<open>The labels err1 of ucma_create_id: erase the id, unlink from the file, free.\<close>

definition ucma_create_id_err1 ::
  "file_ptr \<Rightarrow> ctx_ptr \<Rightarrow> int \<Rightarrow> ucma_state \<Rightarrow> (int \<times> u32 option \<times> ucma_state) option" where
  "ucma_create_id_err1 file p ret s =
     (case ctxs s p of
        None \<Rightarrow> None
      | Some c \<Rightarrow>
          (case files s file of
             None \<Rightarrow> None
           | Some f \<Rightarrow>
               Some (ret, None,
                 s\<lparr>ctx_table := (ctx_table s)(unat (ctx_id c) := None),
                   files := (files s)(file \<mapsto> f\<lparr>ctx_list := list_del p (ctx_list f)\<rparr>),
                   ctxs := (ctxs s)(p := None)\<rparr>)))"

definition ucma_create_id ::
  "abi \<Rightarrow> env \<Rightarrow> file_ptr \<Rightarrow> rdma_ucm_create_id \<Rightarrow> nat \<Rightarrow> nat \<Rightarrow> ucma_state \<Rightarrow>
     (int \<times> u32 option \<times> ucma_state) option" where
  "ucma_create_id A E file cmd in_len out_len s =
     (if out_len < sizeof_create_id_resp A then Some (- ENOSPC, None, s)
      else if \<not> copy_from_ok E then Some (- EFAULT, None, s)
      else
        (case ucma_get_qp_type cmd of
           Inl e \<Rightarrow> Some (e, None, s)
         | Inr qpt \<Rightarrow>
             (case ucma_alloc_ctx E file s of
                None \<Rightarrow> None
              | Some (None, s1) \<Rightarrow> Some (- ENOMEM, None, s1)
              | Some (Some p, s1) \<Rightarrow>
                  (case ctxs s1 p of
                     None \<Rightarrow> None
                   | Some c \<Rightarrow>
                       (let s2 = s1\<lparr>ctxs := (ctxs s1)(p \<mapsto> c\<lparr>ctx_uid := cid_uid cmd\<rparr>),
                                    engine_calls := engine_calls s1 @ [Rdma_create_id p (cid_ps cmd) qpt]\<rparr>
                        in case rdma_create_id E of
                             Inl e \<Rightarrow> ucma_create_id_err1 file p e s2
                           | Inr cm \<Rightarrow>
                               (let s3 = s2\<lparr>cm_ids := (cm_ids s2)(cm \<mapsto>
                                           \<lparr>cm_context = p, cm_device = None, cm_qp_type = qpt\<rparr>)\<rparr>
                                in if \<not> copy_to_ok E then
                                     ucma_create_id_err1 file p (- EFAULT) (rdma_destroy_id cm s3)
                                   else
                                     Some (0, Some (ctx_id c),
                                       s3\<lparr>ctxs := (ctxs s3)(p \<mapsto>
                                         c\<lparr>ctx_uid := cid_uid cmd, ctx_cm_id := Some cm\<rparr>)\<rparr>)))))))"

subsection \<open>Multicast groups\<close>

datatype rdma_mc_join_flags =
    RDMA_MC_JOIN_FLAG_FULLMEMBER
  | RDMA_MC_JOIN_FLAG_SENDONLY_FULLMEMBER
  | RDMA_MC_JOIN_FLAG_OTHER nat

record rdma_ucm_join_mcast =
  jm_uid :: u64
  jm_id :: u32
  jm_addr_size :: nat
  jm_join_flags :: rdma_mc_join_flags
  jm_addr :: sockaddr

text \<open>The loop of ucma_cleanup_mc_events over the event list of the group's file.\<close>

fun cleanup_mc_events_loop :: "mc_ptr \<Rightarrow> ucma_event list \<Rightarrow> ucma_event list" where
  "cleanup_mc_events_loop m [] = []"
| "cleanup_mc_events_loop m (uevent # es) =
     (if ev_mc uevent \<noteq> Some m then uevent # cleanup_mc_events_loop m es
      else cleanup_mc_events_loop m es)"

definition ucma_cleanup_mc_events :: "mc_ptr \<Rightarrow> ucma_state \<Rightarrow> ucma_state option" where
  "ucma_cleanup_mc_events m s =
     (case mcs s m of
        None \<Rightarrow> None
      | Some g \<Rightarrow>
          (case ctxs s (mc_ctx g) of
             None \<Rightarrow> None
           | Some c \<Rightarrow>
               (case files s (ctx_file c) of
                  None \<Rightarrow> None
                | Some f \<Rightarrow>
                    Some (s\<lparr>files := (files s)(ctx_file c \<mapsto>
                      f\<lparr>event_list := cleanup_mc_events_loop m (event_list f)\<rparr>)\<rparr>))))"

text \<open>The label err2 of ucma_process_join, which runs on into err1.\<close>

definition ucma_process_join_err2 ::
  "ctx_ptr \<Rightarrow> mc_ptr \<Rightarrow> int \<Rightarrow> ucma_state \<Rightarrow> (int \<times> u32 option \<times> ucma_state) option" where
  "ucma_process_join_err2 p m ret s =
     (case mcs s m of
        None \<Rightarrow> None
      | Some g \<Rightarrow>
          (case ctxs s p of
             None \<Rightarrow> None
           | Some c \<Rightarrow>
               (case ucma_put_ctx p
                       (s\<lparr>multicast_table := (multicast_table s)(unat (mc_id g) := None),
                          ctxs := (ctxs s)(p \<mapsto> c\<lparr>ctx_mc_list := list_del m (ctx_mc_list c)\<rparr>),
                          mcs := (mcs s)(m := None)\<rparr>) of
                  None \<Rightarrow> None
                | Some s1 \<Rightarrow> Some (ret, None, s1))))"

definition ucma_process_join ::
  "abi \<Rightarrow> env \<Rightarrow> file_ptr \<Rightarrow> rdma_ucm_join_mcast \<Rightarrow> nat \<Rightarrow> ucma_state \<Rightarrow>
     (int \<times> u32 option \<times> ucma_state) option" where
  "ucma_process_join A E file cmd out_len s =
     (if out_len < sizeof_create_id_resp A then Some (- ENOSPC, None, s)
      else if jm_addr_size cmd \<noteq> rdma_addr_size E (jm_addr cmd) then Some (- EINVAL, None, s)
      else
        (case (case jm_join_flags cmd of
                 RDMA_MC_JOIN_FLAG_FULLMEMBER \<Rightarrow> Some FULLMEMBER_JOIN
               | RDMA_MC_JOIN_FLAG_SENDONLY_FULLMEMBER \<Rightarrow> Some SENDONLY_FULLMEMBER_JOIN
               | RDMA_MC_JOIN_FLAG_OTHER n \<Rightarrow> None) of
           None \<Rightarrow> Some (- EINVAL, None, s)
         | Some join_state \<Rightarrow>
             (case ucma_get_ctx_dev A file (jm_id cmd) s of
                None \<Rightarrow> None
              | Some (Inl e, s1) \<Rightarrow> Some (e, None, s1)
              | Some (Inr p, s1) \<Rightarrow>
                  (case ucma_alloc_multicast E p s1 of
                     None \<Rightarrow> None
                   | Some (None, s2) \<Rightarrow>
                       (case ucma_put_ctx p s2 of
                          None \<Rightarrow> None
                        | Some s3 \<Rightarrow> Some (- ENOMEM, None, s3))
                   | Some (Some m, s2) \<Rightarrow>
                       (case mcs s2 m of
                          None \<Rightarrow> None
                        | Some g0 \<Rightarrow>
                            (let g = g0\<lparr>mc_join_state := Some join_state, mc_uid := jm_uid cmd,
                                       mc_addr := jm_addr cmd\<rparr>
                             in case ctxs s2 p of
                                  None \<Rightarrow> None
                                | Some c \<Rightarrow>
                                    (case ctx_cm_id c of
                                       None \<Rightarrow> None
                                     | Some cm \<Rightarrow>
                                         (let s3 = s2\<lparr>mcs := (mcs s2)(m \<mapsto> g),
                                                      engine_calls := engine_calls s2 @
                                                        [Rdma_join_multicast cm (mc_addr g) join_state m]\<rparr>
                                          in if engine_ret E \<noteq> 0 then
                                               ucma_process_join_err2 p m (engine_ret E) s3
                                             else if \<not> copy_to_ok E then
                                               (case ucma_cleanup_mc_events m
                                                       (s3\<lparr>engine_calls := engine_calls s3 @
                                                          [Rdma_leave_multicast cm (mc_addr g)]\<rparr>) of
                                                  None \<Rightarrow> None
                                                | Some s4 \<Rightarrow> ucma_process_join_err2 p m (- EFAULT) s4)
                                             else
                                               (case ucma_put_ctx p
                                                       (s3\<lparr>multicast_table :=
                                                          (multicast_table s3)(unat (mc_id g) \<mapsto> Some m)\<rparr>) of
                                                  None \<Rightarrow> None
                                                | Some s4 \<Rightarrow> Some (0, Some (mc_id g), s4))))))))))"

text \<open>
  The validated lookup of ucma_leave_multicast under the lock of the multicast table:
  the group, or the error; on success the parent context is held and the id is erased.
\<close>

definition ucma_leave_lookup ::
  "file_ptr \<Rightarrow> u32 \<Rightarrow> ucma_state \<Rightarrow> ((int + mc_ptr) \<times> ucma_state) option" where
  "ucma_leave_lookup file i s =
     (case multicast_table s (unat i) of
        None \<Rightarrow> Some (Inl (- ENOENT), s)
      | Some None \<Rightarrow> Some (Inl (- ENOENT), s)
      | Some (Some m) \<Rightarrow>
          (case mcs s m of
             None \<Rightarrow> None
           | Some g \<Rightarrow>
               (case ctxs s (mc_ctx g) of
                  None \<Rightarrow> None
                | Some c \<Rightarrow>
                    if ctx_file c \<noteq> file then Some (Inl (- EINVAL), s)
                    else
                      (case refcount_inc_not_zero (ctx_ref c) of
                         (r, held) \<Rightarrow>
                           if \<not> held then Some (Inl (- ENXIO), s)
                           else
                             Some (Inr m,
                               s\<lparr>ctxs := (ctxs s)(mc_ctx g \<mapsto> c\<lparr>ctx_ref := r\<rparr>),
                                 multicast_table :=
                                   (multicast_table s)(unat (mc_id g) := None)\<rparr>)))))"

definition ucma_leave_multicast ::
  "abi \<Rightarrow> env \<Rightarrow> file_ptr \<Rightarrow> u32 \<Rightarrow> nat \<Rightarrow> nat \<Rightarrow> ucma_state \<Rightarrow>
     (int \<times> u32 option \<times> ucma_state) option" where
  "ucma_leave_multicast A E file cmd_id in_len out_len s =
     (if out_len < sizeof_destroy_id_resp A then Some (- ENOSPC, None, s)
      else if \<not> copy_from_ok E then Some (- EFAULT, None, s)
      else
        (case ucma_leave_lookup file cmd_id s of
           None \<Rightarrow> None
         | Some (Inl e, s1) \<Rightarrow> Some (e, None, s1)
         | Some (Inr m, s1) \<Rightarrow>
             (case mcs s1 m of
                None \<Rightarrow> None
              | Some g \<Rightarrow>
                  (case ctxs s1 (mc_ctx g) of
                     None \<Rightarrow> None
                   | Some c \<Rightarrow>
                       (case ctx_cm_id c of
                          None \<Rightarrow> None
                        | Some cm \<Rightarrow>
                            (case ucma_cleanup_mc_events m
                                    (s1\<lparr>engine_calls := engine_calls s1 @
                                       [Rdma_leave_multicast cm (mc_addr g)]\<rparr>) of
                               None \<Rightarrow> None
                             | Some s2 \<Rightarrow>
                                 (case ctxs s2 (mc_ctx g) of
                                    None \<Rightarrow> None
                                  | Some c2 \<Rightarrow>
                                      (case ucma_put_ctx (mc_ctx g)
                                              (s2\<lparr>ctxs := (ctxs s2)(mc_ctx g \<mapsto>
                                                 c2\<lparr>ctx_mc_list := list_del m (ctx_mc_list c2)\<rparr>)\<rparr>) of
                                         None \<Rightarrow> None
                                       | Some s3 \<Rightarrow>
                                           (let s4 = s3\<lparr>mcs := (mcs s3)(m := None)\<rparr>
                                            in if \<not> copy_to_ok E then Some (- EFAULT, None, s4)
                                               else Some (0, Some (mc_events_reported g), s4))))))))))"

subsection \<open>Migration between files\<close>

record rdma_ucm_migrate_id =
  mig_id :: u32
  mig_fd :: u32

text \<open>
  The loop of ucma_move_events: it walks the event list of the context's file and
  moves each event of the context to the tail of the other list. \<open>kept\<close> is the part
  of the source list already walked and left in place.
\<close>

fun move_events_loop ::
  "ctx_ptr \<Rightarrow> ucma_event list \<Rightarrow> ucma_event list \<Rightarrow> ucma_event list \<Rightarrow>
     ucma_event list \<times> ucma_event list" where
  "move_events_loop p [] kept dst = (kept, dst)"
| "move_events_loop p (uevent # es) kept dst =
     (if ev_ctx uevent = p then move_events_loop p es kept (dst @ [uevent])
      else move_events_loop p es (kept @ [uevent]) dst)"

definition ucma_move_events :: "ctx_ptr \<Rightarrow> file_ptr \<Rightarrow> ucma_state \<Rightarrow> ucma_state option" where
  "ucma_move_events p file s =
     (case ctxs s p of
        None \<Rightarrow> None
      | Some c \<Rightarrow>
          (case files s (ctx_file c) of
             None \<Rightarrow> None
           | Some src \<Rightarrow>
               (case files s file of
                  None \<Rightarrow> None
                | Some dst \<Rightarrow>
                    (case move_events_loop p (event_list src) [] (event_list dst) of
                       (kept, moved) \<Rightarrow>
                         Some (s\<lparr>files := (files s)
                           (ctx_file c \<mapsto> src\<lparr>event_list := kept\<rparr>,
                            file \<mapsto> dst\<lparr>event_list := moved\<rparr>)\<rparr>)))))"

text \<open>list_move_tail of the context's node onto the context list of another file.\<close>

definition move_ctx_tail :: "ctx_ptr \<Rightarrow> file_ptr \<Rightarrow> file_ptr \<Rightarrow> ucma_state \<Rightarrow> ucma_state option" where
  "move_ctx_tail p cur_file new_file s =
     (case files s cur_file of
        None \<Rightarrow> None
      | Some cur \<Rightarrow>
          (case files s new_file of
             None \<Rightarrow> None
           | Some new \<Rightarrow>
               Some (s\<lparr>files := (files s)
                 (cur_file \<mapsto> cur\<lparr>ctx_list := list_del p (ctx_list cur)\<rparr>,
                  new_file \<mapsto> new\<lparr>ctx_list := ctx_list new @ [p]\<rparr>)\<rparr>)))"

definition ucma_migrate_id ::
  "abi \<Rightarrow> env \<Rightarrow> file_ptr \<Rightarrow> rdma_ucm_migrate_id \<Rightarrow> nat \<Rightarrow> nat \<Rightarrow> ucma_state \<Rightarrow>
     (int \<times> u32 option \<times> ucma_state) option" where
  "ucma_migrate_id A E new_file cmd in_len out_len s =
     (if \<not> copy_from_ok E then Some (- EFAULT, None, s)
      else
        (case fd_table s (mig_fd cmd) of
           None \<Rightarrow> Some (- ENOENT, None, s)
         | Some Foreign_fd \<Rightarrow> Some (- EINVAL, None, s)
         | Some (Ucma_fd fp) \<Rightarrow>
             (case ucma_get_ctx A fp (mig_id cmd) s of
                None \<Rightarrow> None
              | Some (Inl e, s1) \<Rightarrow> Some (e, None, s1)
              | Some (Inr p, s1) \<Rightarrow>
                  (case ctxs s1 p of
                     None \<Rightarrow> None
                   | Some c \<Rightarrow>
                       (case (if ctx_file c = new_file then
                                (case files s1 (ctx_file c) of
                                   None \<Rightarrow> None
                                 | Some cur \<Rightarrow> Some (ctx_events_reported c, s1))
                              else
                                (case move_ctx_tail p (ctx_file c) new_file s1 of
                                   None \<Rightarrow> None
                                 | Some s2 \<Rightarrow>
                                     (case ucma_move_events p new_file s2 of
                                        None \<Rightarrow> None
                                      | Some s3 \<Rightarrow>
                                          (case ctxs s3 p of
                                             None \<Rightarrow> None
                                           | Some c3 \<Rightarrow>
                                               Some (ctx_events_reported c3,
                                                 s3\<lparr>ctxs := (ctxs s3)(p \<mapsto>
                                                   c3\<lparr>ctx_file := new_file\<rparr>)\<rparr>))))) of
                          None \<Rightarrow> None
                        | Some (events_reported, s4) \<Rightarrow>
                            (case ucma_put_ctx p s4 of
                               None \<Rightarrow> None
                             | Some s5 \<Rightarrow>
                                 if \<not> copy_to_ok E then Some (- EFAULT, None, s5)
                                 else Some (0, Some events_reported, s5)))))))"

subsection \<open>Listening\<close>

record rdma_ucm_listen =
  l_id :: u32
  l_backlog :: u32

text \<open>
  The value ucma_listen stores in \<open>ctx->backlog\<close>: both comparisons are between
  unsigned 32-bit values.
\<close>

definition listen_backlog :: "u32 \<Rightarrow> u32 \<Rightarrow> u32" where
  "listen_backlog m b = (if b > 0 \<and> b < m then b else m)"

definition ucma_listen ::
  "abi \<Rightarrow> env \<Rightarrow> file_ptr \<Rightarrow> rdma_ucm_listen \<Rightarrow> nat \<Rightarrow> nat \<Rightarrow> ucma_state \<Rightarrow>
     (int \<times> ucma_state) option" where
  "ucma_listen A E file cmd in_len out_len s =
     (if \<not> copy_from_ok E then Some (- EFAULT, s)
      else
        (case ucma_get_ctx A file (l_id cmd) s of
           None \<Rightarrow> None
         | Some (Inl e, s1) \<Rightarrow> Some (e, s1)
         | Some (Inr p, s1) \<Rightarrow>
             (case ctxs s1 p of
                None \<Rightarrow> None
              | Some c \<Rightarrow>
                  (let backlog = listen_backlog (max_backlog s1) (l_backlog cmd)
                   in case ctx_cm_id c of
                        None \<Rightarrow> None
                      | Some cm \<Rightarrow>
                          (case ucma_put_ctx p
                                  (s1\<lparr>ctxs := (ctxs s1)(p \<mapsto> c\<lparr>ctx_backlog := backlog\<rparr>),
                                      engine_calls := engine_calls s1 @ [Rdma_listen cm backlog]\<rparr>) of
                             None \<Rightarrow> None
                           | Some s2 \<Rightarrow> Some (engine_ret E, s2))))))"

subsection \<open>Command dispatch\<close>

record rdma_ucm_cmd_hdr =
  hdr_cmd :: u32
  hdr_in :: u16
  hdr_out :: u16

datatype cmd_handler =
    Ucma_create_id | Ucma_destroy_id | Ucma_bind_ip | Ucma_resolve_ip | Ucma_resolve_route
  | Ucma_query_route | Ucma_connect | Ucma_listen | Ucma_accept | Ucma_reject
  | Ucma_disconnect | Ucma_init_qp_attr | Ucma_get_event | Ucma_set_option | Ucma_notify
  | Ucma_join_ip_multicast | Ucma_leave_multicast | Ucma_migrate_id | Ucma_query
  | Ucma_bind | Ucma_resolve_addr | Ucma_join_multicast

text \<open>
  The table in the order of its initialisers, which is the order in which the enum of
  rdma/rdma_user_cm.h numbers the commands from 0 (RDMA_USER_CM_CMD_CREATE_ID) to 22
  (RDMA_USER_CM_CMD_JOIN_MCAST); entry 13, RDMA_USER_CM_CMD_GET_OPTION, is NULL.
\<close>

definition ucma_cmd_table :: "cmd_handler option list" where
  "ucma_cmd_table =
     [Some Ucma_create_id, Some Ucma_destroy_id, Some Ucma_bind_ip, Some Ucma_resolve_ip,
      Some Ucma_resolve_route, Some Ucma_query_route, Some Ucma_connect, Some Ucma_listen,
      Some Ucma_accept, Some Ucma_reject, Some Ucma_disconnect, Some Ucma_init_qp_attr,
      Some Ucma_get_event, None, Some Ucma_set_option, Some Ucma_notify,
      Some Ucma_join_ip_multicast, Some Ucma_leave_multicast, Some Ucma_migrate_id,
      Some Ucma_query, Some Ucma_bind, Some Ucma_resolve_addr, Some Ucma_join_multicast]"

text \<open>
  ucma_write. \<open>safe\<close> is the answer of ib_safe_file_access, \<open>copy_from_ok\<close> of the
  environment the outcome of copying the header in, and \<open>call\<close> runs a handler of the
  table on the payload that follows the header.
\<close>

definition ucma_write ::
  "abi \<Rightarrow> env \<Rightarrow> bool \<Rightarrow>
   (cmd_handler \<Rightarrow> file_ptr \<Rightarrow> nat \<Rightarrow> nat \<Rightarrow> ucma_state \<Rightarrow> (int \<times> ucma_state) option) \<Rightarrow>
   file_ptr \<Rightarrow> rdma_ucm_cmd_hdr \<Rightarrow> nat \<Rightarrow> ucma_state \<Rightarrow> (int \<times> ucma_state) option" where
  "ucma_write A E safe call file hdr len s =
     (if \<not> safe then Some (- EACCES, s)
      else if len < sizeof_hdr A then Some (- EINVAL, s)
      else if \<not> copy_from_ok E then Some (- EFAULT, s)
      else if unat (hdr_cmd hdr) \<ge> length ucma_cmd_table then Some (- EINVAL, s)
      else if unat (hdr_in hdr) + sizeof_hdr A > len then Some (- EINVAL, s)
      else
        (case ucma_cmd_table ! unat (hdr_cmd hdr) of
           None \<Rightarrow> Some (- ENOSYS, s)
         | Some h \<Rightarrow>
             (case call h file (unat (hdr_in hdr)) (unat (hdr_out hdr)) s of
                None \<Rightarrow> None
              | Some (ret, s1) \<Rightarrow> Some (if ret = 0 then int len else ret, s1))))"

subsection \<open>A small configuration for examples\<close>

text \<open>
  A 32-bit platform; file 1 owns a listening context (address 10, id 0, two free
  backlog slots) with a bound connection object 100, file 2 is empty, and connection
  object 101 is a new incoming connection that still points at the listener.
\<close>

definition abi0 :: abi where
  "abi0 = \<lparr>BITS_PER_LONG = 32, sizeof_hdr = 8, sizeof_event_resp = 336,
     sizeof_event_resp_reserved = 4, sizeof_event_resp_ece = 8,
     sizeof_create_id_resp = 4, sizeof_destroy_id_resp = 4\<rparr>"

definition env0 :: env where
  "env0 = \<lparr>copy_from_ok = True, copy_to_ok = True, kzalloc = Some 20, xa_alloc_id = Some 1,
     signal_pending = False, engine_ret = 0, rdma_create_id = Inr 102,
     rdma_addr_size = (\<lambda>a. 16)\<rparr>"

definition listener0 :: ucma_context where
  "listener0 = \<lparr>ctx_id = 0, ctx_comp = 0, ctx_ref = 1, ctx_events_reported = 0,
     ctx_backlog = 2, ctx_file = 1, ctx_cm_id = Some 100, ctx_uid = 7, ctx_mc_list = [],
     ctx_closing = False, ctx_destroying = False\<rparr>"

definition file0 :: ucma_file where
  "file0 = \<lparr>ctx_list = [], event_list = [], poll_wait = 0, close_wq = [], nonblock = True\<rparr>"

definition state0 :: ucma_state where
  "state0 = \<lparr>ctx_table = [0 \<mapsto> 10],
     multicast_table = Map.empty,
     ctxs = [10 \<mapsto> listener0],
     mcs = Map.empty,
     files = [1 \<mapsto> file0\<lparr>ctx_list := [10]\<rparr>, 2 \<mapsto> file0],
     cm_ids = [100 \<mapsto> \<lparr>cm_context = 10, cm_device = Some 1, cm_qp_type = IB_QPT_RC\<rparr>,
               101 \<mapsto> \<lparr>cm_context = 10, cm_device = Some 1, cm_qp_type = IB_QPT_RC\<rparr>],
     fd_table = [3 \<mapsto> Ucma_fd 1, 4 \<mapsto> Ucma_fd 2, 5 \<mapsto> Foreign_fd],
     max_backlog = 1024,
     engine_calls = []\<rparr>"

text \<open>
  A delivery of a connect request for listener \<open>l\<close>: the event structure can be
  allocated, and the new connection object still points at the listener.
\<close>

definition con_req_for :: "ctx_ptr \<Rightarrow> ucma_state \<Rightarrow> env \<times> cm_ptr \<times> rdma_cm_event \<Rightarrow> bool" where
  "con_req_for l s d =
     (case d of (E, cm, ev) \<Rightarrow>
        kzalloc E \<noteq> None \<and> event ev = RDMA_CM_EVENT_CONNECT_REQUEST \<and>
        (case cm_ids s cm of None \<Rightarrow> False | Some ci \<Rightarrow> cm_context ci = l))"

definition con_req0 :: rdma_cm_event where
  "con_req0 = \<lparr>event = RDMA_CM_EVENT_CONNECT_REQUEST, status = 0, ud_private_data = 0,
     param = 0, ece_vendor_id = 0, ece_attr_mod = 0\<rparr>"

definition established0 :: rdma_cm_event where
  "established0 = \<lparr>event = RDMA_CM_EVENT_OTHER 9, status = 0, ud_private_data = 0,
     param = 0, ece_vendor_id = 0, ece_attr_mod = 0\<rparr>"

text \<open>
  The same configuration after one connect request on connection object 101 has been
  queued for the listener.
\<close>

definition uevent0 :: ucma_event where
  "uevent0 = \<lparr>ev_ctx = 10, ev_mc = None, ev_cm_id = 101,
     ev_resp = \<lparr>resp_uid = 7, resp_id = 0, resp_event = RDMA_CM_EVENT_CONNECT_REQUEST,
       resp_status = 0, resp_param = Conn_param 0, resp_ece_vendor_id = 0,
       resp_ece_attr_mod = 0\<rparr>\<rparr>"

definition state1 :: ucma_state where
  "state1 = state0\<lparr>ctxs := [10 \<mapsto> listener0\<lparr>ctx_backlog := 1\<rparr>],
     files := [1 \<mapsto> file0\<lparr>ctx_list := [10], event_list := [uevent0]\<rparr>, 2 \<mapsto> file0]\<rparr>"

text \<open>
  A configuration with three events queued on file 1, the first and the last for the
  listener, the middle one for another context, and one event already queued on file 2.
\<close>

definition uevent1 :: ucma_event where
  "uevent1 = \<lparr>ev_ctx = 11, ev_mc = None, ev_cm_id = 103,
     ev_resp = \<lparr>resp_uid = 8, resp_id = 5, resp_event = RDMA_CM_EVENT_OTHER 9,
       resp_status = 0, resp_param = Conn_param 0, resp_ece_vendor_id = 0,
       resp_ece_attr_mod = 0\<rparr>\<rparr>"

definition state2 :: ucma_state where
  "state2 = state0\<lparr>files :=
     [1 \<mapsto> file0\<lparr>ctx_list := [10], event_list := [uevent0, uevent1, uevent0\<lparr>ev_cm_id := 104\<rparr>]\<rparr>,
      2 \<mapsto> file0\<lparr>event_list := [uevent1]\<rparr>]\<rparr>"

text \<open>
  A configuration in which the listener has joined a multicast group (address 30, id 4,
  three events reported); the queue of file 1 holds two events of that group, one event
  of the context itself and one event of another group.
\<close>

definition mc0 :: ucma_multicast where
  "mc0 = \<lparr>mc_ctx = 10, mc_id = 4, mc_events_reported = 3, mc_uid = 12,
     mc_join_state = Some FULLMEMBER_JOIN, mc_addr = \<lparr>sa_family = 2, sa_data = 1\<rparr>\<rparr>"

definition mc_event :: "mc_ptr \<Rightarrow> ucma_event" where
  "mc_event m = \<lparr>ev_ctx = 10, ev_mc = Some m, ev_cm_id = 100,
     ev_resp = \<lparr>resp_uid = 12, resp_id = 4, resp_event = RDMA_CM_EVENT_MULTICAST_JOIN,
       resp_status = 0, resp_param = Ud_param 0, resp_ece_vendor_id = 0,
       resp_ece_attr_mod = 0\<rparr>\<rparr>"

definition state3 :: ucma_state where
  "state3 = state0\<lparr>multicast_table := [4 \<mapsto> Some 30],
     ctxs := [10 \<mapsto> listener0\<lparr>ctx_mc_list := [30]\<rparr>],
     mcs := [30 \<mapsto> mc0],
     files := [1 \<mapsto> file0\<lparr>ctx_list := [10],
                    event_list := [mc_event 30, uevent0, mc_event 31, mc_event 30]\<rparr>,
               2 \<mapsto> file0]\<rparr>"

text \<open>
  A run on the first configuration: two connect requests are delivered to the listener,
  whose backlog counter is 2; a listen command with backlog 2 is issued again; two more
  connect requests are delivered. \<open>pending_of\<close> reads, from the result of a run,
  the number of connect requests that wait for a listener on a file.
\<close>

definition relisten_run :: "(int list \<times> ucma_state) option" where
  "relisten_run =
     (case deliver [(env0, 101, con_req0), (env0, 101, con_req0)] state0 of
        None \<Rightarrow> None
      | Some (r1, s1) \<Rightarrow>
          (case ucma_listen abi0 env0 1 \<lparr>l_id = 0, l_backlog = 2\<rparr> 8 0 s1 of
             None \<Rightarrow> None
           | Some (r2, s2) \<Rightarrow>
               (case deliver [(env0, 101, con_req0), (env0, 101, con_req0)] s2 of
                  None \<Rightarrow> None
                | Some (r3, s3) \<Rightarrow> Some (r1 @ r2 # r3, s3))))"

definition pending_of :: "ctx_ptr \<Rightarrow> file_ptr \<Rightarrow> (int list \<times> ucma_state) option \<Rightarrow> nat option" where
  "pending_of l file r =
     (case r of
        None \<Rightarrow> None
      | Some (rs, s) \<Rightarrow>
          (case files s file of
             None \<Rightarrow> None
           | Some f \<Rightarrow> Some (pending_con_reqs l (event_list f))))"

text \<open>
  The connect requests of listener \<open>l\<close> that wait on a file, and the slot
  invariant of a listener: the connect requests that wait for it on its own file and its
  backlog counter add up to at most \<open>N\<close>, and none waits on another file.
\<close>

definition waiting :: "ctx_ptr \<Rightarrow> ucma_state \<Rightarrow> file_ptr \<Rightarrow> nat" where
  "waiting l s fp =
     (case files s fp of None \<Rightarrow> 0 | Some f \<Rightarrow> pending_con_reqs l (event_list f))"

definition slots_inv :: "ctx_ptr \<Rightarrow> nat \<Rightarrow> ucma_state \<Rightarrow> bool" where
  "slots_inv l N s =
     (case ctxs s l of
        None \<Rightarrow> False
      | Some c \<Rightarrow>
          waiting l s (ctx_file c) + unat (ctx_backlog c) \<le> N \<and>
          (\<forall>fp. fp \<noteq> ctx_file c \<longrightarrow> waiting l s fp = 0))"

text \<open>
  Runs of the two operations that move a connect request: a delivery to the callback
  and a read on a file. \<open>reads_succeed\<close> says of a run that the response of
  every read is copied out and that kzalloc hands a read an address that is not in use.
\<close>

datatype step = Deliver env cm_ptr rdma_cm_event | Read env file_ptr nat nat

fun run :: "abi \<Rightarrow> step list \<Rightarrow> ucma_state \<Rightarrow> ucma_state option" where
  "run A [] s = Some s"
| "run A (Deliver E cm ev # steps) s =
     (case ucma_event_handler E cm ev s of
        None \<Rightarrow> None
      | Some (r, s1) \<Rightarrow> run A steps s1)"
| "run A (Read E file in_len out_len # steps) s =
     (case ucma_get_event A E file in_len out_len s of
        None \<Rightarrow> None
      | Some (r, out, s1) \<Rightarrow> run A steps s1)"

fun reads_succeed :: "abi \<Rightarrow> step list \<Rightarrow> ucma_state \<Rightarrow> bool" where
  "reads_succeed A [] s = True"
| "reads_succeed A (Deliver E cm ev # steps) s =
     (case ucma_event_handler E cm ev s of
        None \<Rightarrow> True
      | Some (r, s1) \<Rightarrow> reads_succeed A steps s1)"
| "reads_succeed A (Read E file in_len out_len # steps) s =
     (copy_to_ok E \<and> (case kzalloc E of None \<Rightarrow> True | Some p \<Rightarrow> ctxs s p = None) \<and>
      (case ucma_get_event A E file in_len out_len s of
         None \<Rightarrow> True
       | Some (r, out, s1) \<Rightarrow> reads_succeed A steps s1))"

text \<open>
  A run on the first configuration: three connect requests for the listener, then a read
  on its file.
\<close>

definition steps0 :: "step list" where
  "steps0 = [Deliver env0 101 con_req0, Deliver env0 101 con_req0, Deliver env0 101 con_req0,
     Read env0 1 8 336]"

section \<open>Properties\<close>

lemmas errno_defs = ENOENT_def EIO_def ENXIO_def EAGAIN_def ENOMEM_def EACCES_def
  EFAULT_def EINVAL_def ENOSPC_def ENOSYS_def ERESTARTSYS_def

lemma ucma_find_context_simps:
  "ctx_table s (xa_index A i) = None \<Longrightarrow> ucma_find_context A i file s = Some (Inl (- ENOENT))"
  "ctx_table s (xa_index A i) = Some p \<Longrightarrow> ctxs s p = Some c \<Longrightarrow>
     ucma_find_context A i file s =
       (if ctx_file c \<noteq> file \<or> ctx_cm_id c = None then Some (Inl (- EINVAL)) else Some (Inr p))"
  by (simp_all add: ucma_find_context_def)

lemma ucma_get_ctx_found:
  assumes "ctx_table s (xa_index A i) = Some p" and "ctxs s p = Some c"
  shows "ucma_get_ctx A file i s =
           (if ctx_file c \<noteq> file \<or> ctx_cm_id c = None then Some (Inl (- EINVAL), s)
            else if ctx_closing c then Some (Inl (- EIO), s)
            else Some (Inr p, s\<lparr>ctxs := (ctxs s)(p \<mapsto> c\<lparr>ctx_ref := ctx_ref c + 1\<rparr>)\<rparr>))"
  using assms by (simp add: ucma_get_ctx_def ucma_find_context_simps)

lemma ucma_get_ctx_unknown:
  "ctx_table s (xa_index A i) = None \<Longrightarrow> ucma_get_ctx A file i s = Some (Inl (- ENOENT), s)"
  by (simp add: ucma_get_ctx_def ucma_find_context_simps)

lemma ucma_put_ctx_upd:
  "ucma_put_ctx p (s\<lparr>ctxs := (ctxs s)(p \<mapsto> c)\<rparr>) =
     Some (s\<lparr>ctxs := (ctxs s)(p \<mapsto>
       c\<lparr>ctx_ref := ctx_ref c - 1,
         ctx_comp := (if ctx_ref c = 1 then ctx_comp c + 1 else ctx_comp c)\<rparr>)\<rparr>)"
  by (simp add: ucma_put_ctx_def)

lemma ctxs_upd_same: "ctxs s p = Some c \<Longrightarrow> s\<lparr>ctxs := (ctxs s)(p \<mapsto> c)\<rparr> = s"
  by (simp add: fun_upd_idem)

lemma put_after_get:
  assumes "ctxs s p = Some c"
  shows "ucma_put_ctx p (s\<lparr>ctxs := (ctxs s)(p \<mapsto> c\<lparr>ctx_ref := ctx_ref c + 1\<rparr>)\<rparr>) =
           Some (s\<lparr>ctxs := (ctxs s)(p \<mapsto> c\<lparr>ctx_comp := (if ctx_ref c = 0 then ctx_comp c + 1 else ctx_comp c)\<rparr>)\<rparr>)"
  by (simp add: ucma_put_ctx_upd)

lemma put_after_get_live:
  assumes "ctxs s p = Some c" and "0 < ctx_ref c"
  shows "ucma_put_ctx p (s\<lparr>ctxs := (ctxs s)(p \<mapsto> c\<lparr>ctx_ref := ctx_ref c + 1\<rparr>)\<rparr>) = Some s"
  using assms by (simp add: ucma_put_ctx_upd ctxs_upd_same)

text \<open>
  C7. Looking a context up by id for a calling file: an id with no entry in the context
  table gives -ENOENT (NotFound); a context of another file, or one with no connection
  object attached, gives -EINVAL (InvalidOwner); a context that is closing gives -EIO
  (the Busy of the error taxonomy); otherwise the reference count goes up by one and the
  context is returned. The variant that needs a bound device gives the same answers,
  and when the connection object has no device it drops the reference again and gives
  -EINVAL.
\<close>

theorem ucma_get_ctx_lookup:
  "(ctx_table s (xa_index A i) = None \<longrightarrow>
      ucma_get_ctx A file i s = Some (Inl (- ENOENT), s) \<and>
      ucma_get_ctx_dev A file i s = Some (Inl (- ENOENT), s)) \<and>
   (\<forall>p c. ctx_table s (xa_index A i) = Some p \<and> ctxs s p = Some c \<longrightarrow>
      ((ctx_file c \<noteq> file \<or> ctx_cm_id c = None) \<longrightarrow>
         ucma_get_ctx A file i s = Some (Inl (- EINVAL), s) \<and>
         ucma_get_ctx_dev A file i s = Some (Inl (- EINVAL), s)) \<and>
      (ctx_file c = file \<and> ctx_cm_id c \<noteq> None \<and> ctx_closing c \<longrightarrow>
         ucma_get_ctx A file i s = Some (Inl (- EIO), s) \<and>
         ucma_get_ctx_dev A file i s = Some (Inl (- EIO), s)) \<and>
      (ctx_file c = file \<and> ctx_cm_id c \<noteq> None \<and> \<not> ctx_closing c \<longrightarrow>
         ucma_get_ctx A file i s =
           Some (Inr p, s\<lparr>ctxs := (ctxs s)(p \<mapsto> c\<lparr>ctx_ref := ctx_ref c + 1\<rparr>)\<rparr>) \<and>
         (\<forall>cm ci. ctx_cm_id c = Some cm \<and> cm_ids s cm = Some ci \<longrightarrow>
            (cm_device ci \<noteq> None \<longrightarrow>
               ucma_get_ctx_dev A file i s =
                 Some (Inr p, s\<lparr>ctxs := (ctxs s)(p \<mapsto> c\<lparr>ctx_ref := ctx_ref c + 1\<rparr>)\<rparr>)) \<and>
            (cm_device ci = None \<longrightarrow>
               (\<exists>s' c'. ucma_get_ctx_dev A file i s = Some (Inl (- EINVAL), s') \<and>
                  ctx_table s' = ctx_table s \<and> ctxs s' p = Some c' \<and>
                  ctx_ref c' = ctx_ref c) \<and>
               (0 < ctx_ref c \<longrightarrow> ucma_get_ctx_dev A file i s = Some (Inl (- EINVAL), s))))))"
proof (intro conjI impI allI)
  assume "ctx_table s (xa_index A i) = None"
  then show "ucma_get_ctx A file i s = Some (Inl (- ENOENT), s)"
    and "ucma_get_ctx_dev A file i s = Some (Inl (- ENOENT), s)"
    by (simp_all add: ucma_get_ctx_dev_def ucma_get_ctx_unknown)
next
  fix p c
  assume h: "ctx_table s (xa_index A i) = Some p \<and> ctxs s p = Some c"
  then have g: "ucma_get_ctx A file i s =
           (if ctx_file c \<noteq> file \<or> ctx_cm_id c = None then Some (Inl (- EINVAL), s)
            else if ctx_closing c then Some (Inl (- EIO), s)
            else Some (Inr p, s\<lparr>ctxs := (ctxs s)(p \<mapsto> c\<lparr>ctx_ref := ctx_ref c + 1\<rparr>)\<rparr>))"
    by (simp add: ucma_get_ctx_found)
  {
    assume "ctx_file c \<noteq> file \<or> ctx_cm_id c = None"
    then show "ucma_get_ctx A file i s = Some (Inl (- EINVAL), s)"
      and "ucma_get_ctx_dev A file i s = Some (Inl (- EINVAL), s)"
      using g by (auto simp add: ucma_get_ctx_dev_def)
  }
  {
    assume "ctx_file c = file \<and> ctx_cm_id c \<noteq> None \<and> ctx_closing c"
    then show "ucma_get_ctx A file i s = Some (Inl (- EIO), s)"
      and "ucma_get_ctx_dev A file i s = Some (Inl (- EIO), s)"
      using g by (auto simp add: ucma_get_ctx_dev_def)
  }
  {
    assume ok: "ctx_file c = file \<and> ctx_cm_id c \<noteq> None \<and> \<not> ctx_closing c"
    then show g': "ucma_get_ctx A file i s =
           Some (Inr p, s\<lparr>ctxs := (ctxs s)(p \<mapsto> c\<lparr>ctx_ref := ctx_ref c + 1\<rparr>)\<rparr>)"
      using g by auto
    fix cm ci
    assume d: "ctx_cm_id c = Some cm \<and> cm_ids s cm = Some ci"
    {
      assume "cm_device ci \<noteq> None"
      then show "ucma_get_ctx_dev A file i s =
                 Some (Inr p, s\<lparr>ctxs := (ctxs s)(p \<mapsto> c\<lparr>ctx_ref := ctx_ref c + 1\<rparr>)\<rparr>)"
        using g' d by (auto simp add: ucma_get_ctx_dev_def)
    }
    {
      assume nd: "cm_device ci = None"
      then have r: "ucma_get_ctx_dev A file i s =
                 Some (Inl (- EINVAL),
                   s\<lparr>ctxs := (ctxs s)(p \<mapsto> c\<lparr>ctx_comp :=
                     (if ctx_ref c = 0 then ctx_comp c + 1 else ctx_comp c)\<rparr>)\<rparr>)"
        using g' d h put_after_get[of s p c] by (simp add: ucma_get_ctx_dev_def)
      show "\<exists>s' c'. ucma_get_ctx_dev A file i s = Some (Inl (- EINVAL), s') \<and>
                  ctx_table s' = ctx_table s \<and> ctxs s' p = Some c' \<and>
                  ctx_ref c' = ctx_ref c"
        unfolding r by simp
      assume "0 < ctx_ref c"
      then show "ucma_get_ctx_dev A file i s = Some (Inl (- EINVAL), s)"
        using g' d h nd put_after_get_live[of s p c] by (simp add: ucma_get_ctx_dev_def)
    }
  }
qed

theorem ucma_get_ctx_lookup_witness:
  "ctx_table state0 (xa_index abi0 5) = None \<and>
   ucma_get_ctx abi0 1 5 state0 = Some (Inl (- ENOENT), state0) \<and>
   ctx_table state0 (xa_index abi0 0) = Some 10 \<and> ctxs state0 10 = Some listener0 \<and>
   ctx_file listener0 = 1 \<and> ctx_cm_id listener0 \<noteq> None \<and> \<not> ctx_closing listener0 \<and>
   ucma_get_ctx abi0 1 0 state0 =
     Some (Inr 10, state0\<lparr>ctxs := (ctxs state0)(10 \<mapsto> listener0\<lparr>ctx_ref := ctx_ref listener0 + 1\<rparr>)\<rparr>) \<and>
   ucma_get_ctx abi0 2 0 state0 = Some (Inl (- EINVAL), state0)"
proof -
  have a: "ctx_table state0 (xa_index abi0 5) = None"
    by (simp add: state0_def xa_index_def abi0_def)
  have b: "ctx_table state0 (xa_index abi0 0) = Some 10 \<and> ctxs state0 10 = Some listener0"
    by (simp add: state0_def xa_index_def abi0_def)
  have c: "ctx_file listener0 = 1 \<and> ctx_cm_id listener0 \<noteq> None \<and> \<not> ctx_closing listener0"
    by (simp add: listener0_def)
  have d: "ctx_file listener0 \<noteq> 2" by (simp add: listener0_def)
  show ?thesis
    using a b c d ucma_get_ctx_lookup [of state0 abi0 5 1] ucma_get_ctx_lookup [of state0 abi0 0 1]
      ucma_get_ctx_lookup [of state0 abi0 0 2]
    by blast
qed

lemma ucma_fill_event_default:
  assumes "ctxs s (cm_context ci) = Some c"
    and "event ev \<noteq> RDMA_CM_EVENT_MULTICAST_JOIN" and "event ev \<noteq> RDMA_CM_EVENT_MULTICAST_ERROR"
  shows "\<exists>uevent. ucma_fill_event cm ci ev s = Some uevent \<and>
           ev_ctx uevent = cm_context ci \<and> ev_mc uevent = None \<and> ev_cm_id uevent = cm \<and>
           resp_event (ev_resp uevent) = event ev \<and> resp_status (ev_resp uevent) = status ev \<and>
           resp_id (ev_resp uevent) = ctx_id c \<and> resp_uid (ev_resp uevent) = ctx_uid c"
  using assms by (simp add: ucma_fill_event_def ucma_set_event_context_def zeroed_event_def)

lemma ucma_event_handler_con_req_full:
  assumes "cm_ids s cm = Some ci" and "ctxs s (cm_context ci) = Some c"
    and "files s (ctx_file c) = Some f"
    and "event ev = RDMA_CM_EVENT_CONNECT_REQUEST" and "kzalloc E \<noteq> None"
    and "ctx_backlog c = 0"
  shows "ucma_event_handler E cm ev s = Some (- ENOMEM, s)"
proof -
  obtain u where "ucma_fill_event cm ci ev s = Some u"
    using ucma_fill_event_default [of s ci c ev cm] assms by auto
  then show ?thesis using assms by (auto simp add: ucma_event_handler_def)
qed

lemma ucma_event_handler_con_req_admit:
  assumes "cm_ids s cm = Some ci" and "ctxs s (cm_context ci) = Some c"
    and "files s (ctx_file c) = Some f"
    and "event ev = RDMA_CM_EVENT_CONNECT_REQUEST" and "kzalloc E \<noteq> None"
    and "ctx_backlog c \<noteq> 0"
  shows "\<exists>uevent. ucma_fill_event cm ci ev s = Some uevent \<and>
           ev_ctx uevent = cm_context ci \<and> ev_mc uevent = None \<and> ev_cm_id uevent = cm \<and>
           resp_event (ev_resp uevent) = RDMA_CM_EVENT_CONNECT_REQUEST \<and>
           resp_id (ev_resp uevent) = ctx_id c \<and>
           ucma_event_handler E cm ev s =
             Some (0, s\<lparr>ctxs := (ctxs s)(cm_context ci \<mapsto> c\<lparr>ctx_backlog := ctx_backlog c - 1\<rparr>),
                        files := (files s)(ctx_file c \<mapsto>
                          f\<lparr>event_list := event_list f @ [uevent], poll_wait := poll_wait f + 1\<rparr>)\<rparr>)"
proof -
  obtain u where u: "ucma_fill_event cm ci ev s = Some u"
    "ev_ctx u = cm_context ci" "ev_mc u = None" "ev_cm_id u = cm"
    "resp_event (ev_resp u) = event ev" "resp_id (ev_resp u) = ctx_id c"
    using ucma_fill_event_default [of s ci c ev cm] assms by auto
  have "ucma_event_handler E cm ev s =
             Some (0, s\<lparr>ctxs := (ctxs s)(cm_context ci \<mapsto> c\<lparr>ctx_backlog := ctx_backlog c - 1\<rparr>),
                        files := (files s)(ctx_file c \<mapsto>
                          f\<lparr>event_list := event_list f @ [u], poll_wait := poll_wait f + 1\<rparr>)\<rparr>)"
    using assms u(1) by (auto simp add: ucma_event_handler_def enqueue_event_def)
  then show ?thesis using u assms(4) by auto
qed

lemma unat_backlog_dec: "(b::u32) \<noteq> 0 \<Longrightarrow> unat (b - 1) = unat b - 1"
  by (simp add: unat_minus_one)

lemma pending_con_reqs_append:
  "pending_con_reqs p (q @ [u]) =
     pending_con_reqs p q +
       (if ev_ctx u = p \<and> resp_event (ev_resp u) = RDMA_CM_EVENT_CONNECT_REQUEST then 1 else 0)"
  by (simp add: pending_con_reqs_def)

lemma deliver_con_reqs:
  assumes "list_all (con_req_for l s) ds"
    and "ctxs s l = Some c" and "files s (ctx_file c) = Some f"
  shows "\<exists>rets s' c' f'. deliver ds s = Some (rets, s') \<and>
           ctxs s' l = Some c' \<and> files s' (ctx_file c) = Some f' \<and>
           unat (ctx_backlog c') = unat (ctx_backlog c) - min (length ds) (unat (ctx_backlog c)) \<and>
           pending_con_reqs l (event_list f') =
             pending_con_reqs l (event_list f) + min (length ds) (unat (ctx_backlog c)) \<and>
           length (filter (\<lambda>r. r = 0) rets) = min (length ds) (unat (ctx_backlog c)) \<and>
           length (filter (\<lambda>r. r = - ENOMEM) rets) = length ds - min (length ds) (unat (ctx_backlog c))"
  using assms
proof (induction ds arbitrary: s c f)
  case Nil
  then show ?case by simp
next
  case (Cons d ds)
  obtain E cm ev where d: "d = (E, cm, ev)" by (cases d) auto
  from Cons.prems(1) d obtain ci where ci: "cm_ids s cm = Some ci" "cm_context ci = l"
    "kzalloc E \<noteq> None" "event ev = RDMA_CM_EVENT_CONNECT_REQUEST"
    by (auto simp add: con_req_for_def split: option.splits)
  have rest: "list_all (con_req_for l s) ds" using Cons.prems(1) by simp
  show ?case
  proof (cases "ctx_backlog c = 0")
    case True
    have h: "ucma_event_handler E cm ev s = Some (- ENOMEM, s)"
      using ucma_event_handler_con_req_full [of s cm ci c f ev E] ci Cons.prems True by simp
    obtain rets s' c' f' where ih: "deliver ds s = Some (rets, s')"
      "ctxs s' l = Some c'" "files s' (ctx_file c) = Some f'"
      "unat (ctx_backlog c') = unat (ctx_backlog c) - min (length ds) (unat (ctx_backlog c))"
      "pending_con_reqs l (event_list f') =
             pending_con_reqs l (event_list f) + min (length ds) (unat (ctx_backlog c))"
      "length (filter (\<lambda>r. r = 0) rets) = min (length ds) (unat (ctx_backlog c))"
      "length (filter (\<lambda>r. r = - ENOMEM) rets) = length ds - min (length ds) (unat (ctx_backlog c))"
      using Cons.IH [OF rest Cons.prems(2) Cons.prems(3)] by blast
    show ?thesis
      using h ih d True by (simp add: ENOMEM_def)
  next
    case False
    let ?c1 = "c\<lparr>ctx_backlog := ctx_backlog c - 1\<rparr>"
    obtain u where u: "ev_ctx u = l" "resp_event (ev_resp u) = RDMA_CM_EVENT_CONNECT_REQUEST"
      and h: "ucma_event_handler E cm ev s =
             Some (0, s\<lparr>ctxs := (ctxs s)(l \<mapsto> ?c1),
                        files := (files s)(ctx_file c \<mapsto>
                          f\<lparr>event_list := event_list f @ [u], poll_wait := poll_wait f + 1\<rparr>)\<rparr>)"
      using ucma_event_handler_con_req_admit [of s cm ci c f ev E] ci Cons.prems False by auto
    let ?f1 = "f\<lparr>event_list := event_list f @ [u], poll_wait := poll_wait f + 1\<rparr>"
    let ?s1 = "s\<lparr>ctxs := (ctxs s)(l \<mapsto> ?c1), files := (files s)(ctx_file c \<mapsto> ?f1)\<rparr>"
    have "con_req_for l ?s1 = con_req_for l s"
      by (simp add: con_req_for_def fun_eq_iff)
    then have rest1: "list_all (con_req_for l ?s1) ds"
      using rest by simp
    have c1: "ctxs ?s1 l = Some ?c1" by simp
    have f1: "files ?s1 (ctx_file ?c1) = Some ?f1" by simp
    obtain rets s' c' f' where ih: "deliver ds ?s1 = Some (rets, s')"
      "ctxs s' l = Some c'" "files s' (ctx_file ?c1) = Some f'"
      "unat (ctx_backlog c') = unat (ctx_backlog ?c1) - min (length ds) (unat (ctx_backlog ?c1))"
      "pending_con_reqs l (event_list f') =
             pending_con_reqs l (event_list ?f1) + min (length ds) (unat (ctx_backlog ?c1))"
      "length (filter (\<lambda>r. r = 0) rets) = min (length ds) (unat (ctx_backlog ?c1))"
      "length (filter (\<lambda>r. r = - ENOMEM) rets) = length ds - min (length ds) (unat (ctx_backlog ?c1))"
      using Cons.IH [OF rest1 c1 f1] by blast
    have pos: "0 < unat (ctx_backlog c)" using False by (simp add: unat_gt_0)
    have dec: "unat (ctx_backlog ?c1) = unat (ctx_backlog c) - 1"
      using False by (simp add: unat_backlog_dec)
    define N where "N = unat (ctx_backlog c)"
    define k where "k = min (length ds) (N - 1)"
    have m: "min (length (d # ds)) N = Suc k"
      using pos unfolding N_def k_def by (cases "unat (ctx_backlog c)") auto
    have kle: "k \<le> N - 1" "k \<le> length ds" unfolding k_def by simp_all
    have Npos: "0 < N" using pos by (simp add: N_def)
    have ih': "unat (ctx_backlog c') = (N - 1) - k"
      "pending_con_reqs l (event_list f') = pending_con_reqs l (event_list ?f1) + k"
      "length (filter (\<lambda>r. r = 0) rets) = k"
      "length (filter (\<lambda>r. r = - ENOMEM) rets) = length ds - k"
      using ih(4-7) dec unfolding N_def k_def by simp_all
    have d1: "deliver (d # ds) s = Some (0 # rets, s')"
      using h ih(1) d by simp
    have p1: "pending_con_reqs l (event_list ?f1) = Suc (pending_con_reqs l (event_list f))"
      using u by (simp add: pending_con_reqs_append)
    have g1: "unat (ctx_backlog c') = N - Suc k" using ih'(1) by simp
    have g2: "pending_con_reqs l (event_list f') = pending_con_reqs l (event_list f) + Suc k"
      using ih'(2) p1 by simp
    have g3: "length (filter (\<lambda>r. r = 0) (0 # rets)) = Suc k" using ih'(3) by simp
    have g4: "length (filter (\<lambda>r. r = - ENOMEM) (0 # rets)) = length (d # ds) - Suc k"
      using ih'(4) by (simp add: ENOMEM_def)
    have f': "files s' (ctx_file c) = Some f'" using ih(3) by simp
    show ?thesis
      unfolding m N_def [symmetric]
      using d1 ih(2) f' g1 g2 g3 g4 by blast
  qed
qed

text \<open>
  A connect request that reaches the callback with the event structure allocated, and
  runs of such deliveries to one listener.
\<close>

lemma ucma_event_handler_con_req_runs:
  assumes "cm_ids s cm = Some ci" and "ctxs s (cm_context ci) = Some c"
    and "files s (ctx_file c) = Some f"
    and "event ev = RDMA_CM_EVENT_CONNECT_REQUEST" and "kzalloc E \<noteq> None"
  shows "(ctx_backlog c = 0 \<longrightarrow> ucma_event_handler E cm ev s = Some (- ENOMEM, s)) \<and>
         (ctx_backlog c \<noteq> 0 \<longrightarrow>
            (\<exists>uevent. ucma_fill_event cm ci ev s = Some uevent \<and>
               ev_ctx uevent = cm_context ci \<and> ev_cm_id uevent = cm \<and>
               resp_event (ev_resp uevent) = RDMA_CM_EVENT_CONNECT_REQUEST \<and>
               ucma_event_handler E cm ev s =
                 Some (0, s\<lparr>ctxs := (ctxs s)(cm_context ci \<mapsto> c\<lparr>ctx_backlog := ctx_backlog c - 1\<rparr>),
                            files := (files s)(ctx_file c \<mapsto>
                              f\<lparr>event_list := event_list f @ [uevent],
                                poll_wait := poll_wait f + 1\<rparr>)\<rparr>))) \<and>
         (\<forall>ds. list_all (con_req_for (cm_context ci) s) ds \<longrightarrow>
            (\<exists>rets s' c' f'. deliver ds s = Some (rets, s') \<and>
               ctxs s' (cm_context ci) = Some c' \<and> files s' (ctx_file c) = Some f' \<and>
               length (filter (\<lambda>r. r = 0) rets) = min (length ds) (unat (ctx_backlog c)) \<and>
               length (filter (\<lambda>r. r = - ENOMEM) rets) =
                 length ds - min (length ds) (unat (ctx_backlog c)) \<and>
               unat (ctx_backlog c') =
                 unat (ctx_backlog c) - min (length ds) (unat (ctx_backlog c)) \<and>
               pending_con_reqs (cm_context ci) (event_list f') =
                 pending_con_reqs (cm_context ci) (event_list f) +
                   min (length ds) (unat (ctx_backlog c)) \<and>
               pending_con_reqs (cm_context ci) (event_list f') \<le>
                 pending_con_reqs (cm_context ci) (event_list f) + unat (ctx_backlog c)))"
proof (intro conjI impI allI)
  assume "ctx_backlog c = 0"
  then show "ucma_event_handler E cm ev s = Some (- ENOMEM, s)"
    using assms by (rule_tac ucma_event_handler_con_req_full) auto
next
  assume "ctx_backlog c \<noteq> 0"
  then show "\<exists>uevent. ucma_fill_event cm ci ev s = Some uevent \<and>
               ev_ctx uevent = cm_context ci \<and> ev_cm_id uevent = cm \<and>
               resp_event (ev_resp uevent) = RDMA_CM_EVENT_CONNECT_REQUEST \<and>
               ucma_event_handler E cm ev s =
                 Some (0, s\<lparr>ctxs := (ctxs s)(cm_context ci \<mapsto> c\<lparr>ctx_backlog := ctx_backlog c - 1\<rparr>),
                            files := (files s)(ctx_file c \<mapsto>
                              f\<lparr>event_list := event_list f @ [uevent],
                                poll_wait := poll_wait f + 1\<rparr>)\<rparr>)"
    using ucma_event_handler_con_req_admit [OF assms] by blast
next
  fix ds
  assume "list_all (con_req_for (cm_context ci) s) ds"
  from deliver_con_reqs [OF this assms(2) assms(3)]
  obtain rets s' c' f' where r: "deliver ds s = Some (rets, s')"
    "ctxs s' (cm_context ci) = Some c'" "files s' (ctx_file c) = Some f'"
    "unat (ctx_backlog c') = unat (ctx_backlog c) - min (length ds) (unat (ctx_backlog c))"
    "pending_con_reqs (cm_context ci) (event_list f') =
       pending_con_reqs (cm_context ci) (event_list f) + min (length ds) (unat (ctx_backlog c))"
    "length (filter (\<lambda>r. r = 0) rets) = min (length ds) (unat (ctx_backlog c))"
    "length (filter (\<lambda>r. r = - ENOMEM) rets) = length ds - min (length ds) (unat (ctx_backlog c))"
    by blast
  have "pending_con_reqs (cm_context ci) (event_list f') \<le>
          pending_con_reqs (cm_context ci) (event_list f) + unat (ctx_backlog c)"
    using r(5) by simp
  then show "\<exists>rets s' c' f'. deliver ds s = Some (rets, s') \<and>
               ctxs s' (cm_context ci) = Some c' \<and> files s' (ctx_file c) = Some f' \<and>
               length (filter (\<lambda>r. r = 0) rets) = min (length ds) (unat (ctx_backlog c)) \<and>
               length (filter (\<lambda>r. r = - ENOMEM) rets) =
                 length ds - min (length ds) (unat (ctx_backlog c)) \<and>
               unat (ctx_backlog c') =
                 unat (ctx_backlog c) - min (length ds) (unat (ctx_backlog c)) \<and>
               pending_con_reqs (cm_context ci) (event_list f') =
                 pending_con_reqs (cm_context ci) (event_list f) +
                   min (length ds) (unat (ctx_backlog c)) \<and>
               pending_con_reqs (cm_context ci) (event_list f') \<le>
                 pending_con_reqs (cm_context ci) (event_list f) + unat (ctx_backlog c)"
    using r by blast
qed

lemma ucma_removal_event_handler_returns:
  assumes "cm_ids s cm = Some ci" and "ctxs s (cm_context ci) = Some c"
    and "files s (ctx_file c) = Some f"
  shows "\<exists>s'. ucma_removal_event_handler cm s = Some s'"
  using assms
  by (simp add: ucma_removal_event_handler_def split: option.splits prod.splits)

lemma ucma_fill_event_returns:
  assumes "ctxs s (cm_context ci) = Some c"
    and "event ev = RDMA_CM_EVENT_MULTICAST_JOIN \<or> event ev = RDMA_CM_EVENT_MULTICAST_ERROR
           \<longrightarrow> mcs s (ud_private_data ev) \<noteq> None"
  shows "\<exists>u. ucma_fill_event cm ci ev s = Some u"
  using assms
  by (auto simp add: ucma_fill_event_def ucma_set_event_context_def)

lemma ucma_event_handler_returns:
  assumes "cm_ids s cm = Some ci" and "ctxs s (cm_context ci) = Some c"
    and "files s (ctx_file c) = Some f"
    and "event ev = RDMA_CM_EVENT_MULTICAST_JOIN \<or> event ev = RDMA_CM_EVENT_MULTICAST_ERROR
           \<longrightarrow> mcs s (ud_private_data ev) \<noteq> None"
  shows "\<exists>r s'. ucma_event_handler E cm ev s = Some (r, s')"
proof -
  obtain u where u: "ucma_fill_event cm ci ev s = Some u"
    using ucma_fill_event_returns [OF assms(2) assms(4)] by blast
  obtain s1 where s1: "ucma_removal_event_handler cm s = Some s1"
    using ucma_removal_event_handler_returns [OF assms(1-3)] by blast
  let ?s2 = "s\<lparr>files := (files s)(ctx_file c \<mapsto> enqueue_event u f)\<rparr>"
  have "\<exists>s3. ucma_removal_event_handler cm ?s2 = Some s3"
    by (rule ucma_removal_event_handler_returns [where ci = ci and c = c]) (simp_all add: assms)
  then obtain s3 where s3: "ucma_removal_event_handler cm ?s2 = Some s3" by blast
  show ?thesis
    using assms(1-3) u s1 s3 by (simp add: ucma_event_handler_def Let_def)
qed

lemma ucma_event_handler_ret:
  assumes "ucma_event_handler E cm ev s = Some (r, s')"
    and "cm_ids s cm = Some ci" and "ctxs s (cm_context ci) = Some c"
  shows "r = (if event ev = RDMA_CM_EVENT_CONNECT_REQUEST \<and> kzalloc E = None then 1
              else if event ev = RDMA_CM_EVENT_CONNECT_REQUEST \<and> ctx_backlog c = 0
              then - ENOMEM else 0)"
  using assms
  by (auto simp add: ucma_event_handler_def Let_def split: option.splits if_splits)

lemma ucma_event_handler_refused_unchanged:
  assumes "ucma_event_handler E cm ev s = Some (r, s')" and "r \<noteq> 0 \<or> kzalloc E = None"
  shows "s' = s"
  using assms
  by (auto simp add: ucma_event_handler_def Let_def split: option.splits if_splits)

text \<open>
  C5, as the claim states it, fails: when the event structure cannot be allocated the
  callback returns 1 for a connect request, although the listener's backlog is not
  exhausted.
\<close>

theorem ucma_event_handler_alloc_failure_refuses:
  "cm_ids state0 101 = Some \<lparr>cm_context = 10, cm_device = Some 1, cm_qp_type = IB_QPT_RC\<rparr> \<and>
   ctxs state0 10 = Some listener0 \<and> ctx_backlog listener0 = 2 \<and>
   event con_req0 = RDMA_CM_EVENT_CONNECT_REQUEST \<and>
   ucma_event_handler (env0\<lparr>kzalloc := None\<rparr>) 101 con_req0 state0 = Some (1, state0)"
  by (simp add: ucma_event_handler_def state0_def listener0_def con_req0_def env0_def)

text \<open>
  C5, amended. The callback returns a non-zero value to the engine in exactly two cases,
  both for a connect request: the event structure cannot be allocated (it returns 1), or
  the listener's backlog counter is zero (it returns -ENOMEM). On every other path it
  returns 0. Whenever it returns non-zero, and whenever the allocation fails, the state
  is unchanged: an event of another kind whose structure cannot be allocated is dropped
  silently.
\<close>

theorem ucma_event_handler_return_value:
  assumes "cm_ids s cm = Some ci" and "ctxs s (cm_context ci) = Some c"
    and "files s (ctx_file c) = Some f"
    and "event ev = RDMA_CM_EVENT_MULTICAST_JOIN \<or> event ev = RDMA_CM_EVENT_MULTICAST_ERROR
           \<longrightarrow> mcs s (ud_private_data ev) \<noteq> None"
  shows "\<exists>r s'. ucma_event_handler E cm ev s = Some (r, s') \<and>
           r = (if event ev = RDMA_CM_EVENT_CONNECT_REQUEST \<and> kzalloc E = None then 1
                else if event ev = RDMA_CM_EVENT_CONNECT_REQUEST \<and> ctx_backlog c = 0
                then - ENOMEM else 0) \<and>
           (r \<noteq> 0 \<longleftrightarrow>
              event ev = RDMA_CM_EVENT_CONNECT_REQUEST \<and> (kzalloc E = None \<or> ctx_backlog c = 0)) \<and>
           (r \<noteq> 0 \<longrightarrow> s' = s) \<and>
           (kzalloc E = None \<longrightarrow> s' = s)"
proof -
  obtain r s' where h: "ucma_event_handler E cm ev s = Some (r, s')"
    using ucma_event_handler_returns [OF assms] by blast
  have r: "r = (if event ev = RDMA_CM_EVENT_CONNECT_REQUEST \<and> kzalloc E = None then 1
                else if event ev = RDMA_CM_EVENT_CONNECT_REQUEST \<and> ctx_backlog c = 0
                then - ENOMEM else 0)"
    by (rule ucma_event_handler_ret [OF h assms(1) assms(2)])
  have nz: "r \<noteq> 0 \<longleftrightarrow>
              event ev = RDMA_CM_EVENT_CONNECT_REQUEST \<and> (kzalloc E = None \<or> ctx_backlog c = 0)"
    unfolding r by (simp add: ENOMEM_def)
  have u1: "r \<noteq> 0 \<longrightarrow> s' = s" using ucma_event_handler_refused_unchanged [OF h] by blast
  have u2: "kzalloc E = None \<longrightarrow> s' = s" using ucma_event_handler_refused_unchanged [OF h] by blast
  show ?thesis
    by (rule exI [of _ r], rule exI [of _ s']) (intro conjI h r nz u1 u2)
qed

theorem ucma_event_handler_return_value_witness:
  "cm_ids state0 100 = Some \<lparr>cm_context = 10, cm_device = Some 1, cm_qp_type = IB_QPT_RC\<rparr> \<and>
   ctxs state0 10 = Some listener0 \<and> files state0 (ctx_file listener0) = Some (file0\<lparr>ctx_list := [10]\<rparr>) \<and>
   event established0 \<noteq> RDMA_CM_EVENT_MULTICAST_JOIN \<and>
   event established0 \<noteq> RDMA_CM_EVENT_MULTICAST_ERROR \<and>
   event established0 \<noteq> RDMA_CM_EVENT_CONNECT_REQUEST \<and>
   ucma_event_handler (env0\<lparr>kzalloc := None\<rparr>) 100 established0 state0 = Some (0, state0)"
proof -
  let ?ci = "\<lparr>cm_context = 10, cm_device = Some 1, cm_qp_type = IB_QPT_RC\<rparr>"
  let ?E = "env0\<lparr>kzalloc := None\<rparr>"
  have a: "cm_ids state0 100 = Some ?ci" by (simp add: state0_def)
  have b: "ctxs state0 (cm_context ?ci) = Some listener0" by (simp add: state0_def)
  have c: "files state0 (ctx_file listener0) = Some (file0\<lparr>ctx_list := [10]\<rparr>)"
    by (simp add: state0_def listener0_def)
  have d: "event established0 \<noteq> RDMA_CM_EVENT_MULTICAST_JOIN"
    "event established0 \<noteq> RDMA_CM_EVENT_MULTICAST_ERROR"
    "event established0 \<noteq> RDMA_CM_EVENT_CONNECT_REQUEST"
    by (simp_all add: established0_def)
  have e: "kzalloc ?E = None" by simp
  have m: "event established0 = RDMA_CM_EVENT_MULTICAST_JOIN \<or>
             event established0 = RDMA_CM_EVENT_MULTICAST_ERROR
           \<longrightarrow> mcs state0 (ud_private_data established0) \<noteq> None"
    using d by simp
  obtain r s' where hh: "ucma_event_handler ?E 100 established0 state0 = Some (r, s') \<and>
           r = (if event established0 = RDMA_CM_EVENT_CONNECT_REQUEST \<and> kzalloc ?E = None then 1
                else if event established0 = RDMA_CM_EVENT_CONNECT_REQUEST \<and> ctx_backlog listener0 = 0
                then - ENOMEM else 0) \<and>
           (r \<noteq> 0 \<longleftrightarrow>
              event established0 = RDMA_CM_EVENT_CONNECT_REQUEST \<and>
              (kzalloc ?E = None \<or> ctx_backlog listener0 = 0)) \<and>
           (r \<noteq> 0 \<longrightarrow> s' = state0) \<and>
           (kzalloc ?E = None \<longrightarrow> s' = state0)"
    using ucma_event_handler_return_value [OF a b c m, of ?E] by (elim exE) (rule that)
  have h: "ucma_event_handler ?E 100 established0 state0 = Some (r, s')"
    "r = (if event established0 = RDMA_CM_EVENT_CONNECT_REQUEST \<and> kzalloc ?E = None then 1
                else if event established0 = RDMA_CM_EVENT_CONNECT_REQUEST \<and> ctx_backlog listener0 = 0
                then - ENOMEM else 0)"
    "kzalloc ?E = None \<longrightarrow> s' = state0"
    using hh by (intro conjunct1 [OF hh] conjunct1 [OF conjunct2 [OF hh]]
      conjunct2 [OF conjunct2 [OF conjunct2 [OF conjunct2 [OF hh]]]])+
  have "r = 0" using h(2) d by simp
  moreover have "s' = state0" using h(3) e by blast
  ultimately have "ucma_event_handler ?E 100 established0 state0 = Some (0, state0)"
    using h(1) by simp
  then show ?thesis using a b c d by simp
qed

lemma files_upd_same: "files s file = Some f \<Longrightarrow> s\<lparr>files := (files s)(file \<mapsto> f)\<rparr> = s"
  by (simp add: fun_upd_idem)

lemma event_list_upd_same: "event_list f = q \<Longrightarrow> f\<lparr>event_list := q\<rparr> = f"
  by auto

lemma ucma_alloc_ctx_ok:
  assumes "kzalloc E = Some p" and "xa_alloc_id E = Some i" and "files s file = Some f"
  shows "ucma_alloc_ctx E file s =
           Some (Some p,
             s\<lparr>ctx_table := (ctx_table s)(unat i \<mapsto> p),
               ctxs := (ctxs s)(p \<mapsto> zeroed_ctx\<lparr>ctx_ref := 1, ctx_file := file, ctx_id := i\<rparr>),
               files := (files s)(file \<mapsto> f\<lparr>ctx_list := ctx_list f @ [p]\<rparr>)\<rparr>)"
  using assms by (simp add: ucma_alloc_ctx_def)

lemma ucma_get_event_con_req_ok:
  assumes "kzalloc E = Some p" and "xa_alloc_id E = Some i" and "files s file = Some f"
    and "ctxs s p = None" and "ctxs s (ev_ctx uevent) = Some parent"
    and "cm_ids s (ev_cm_id uevent) = Some ci"
  shows "ucma_get_event_con_req E file uevent s =
           Some (Inr (uevent\<lparr>ev_resp := (ev_resp uevent)\<lparr>resp_id := i\<rparr>\<rparr>),
             s\<lparr>ctx_table := (ctx_table s)(unat i \<mapsto> p),
               ctxs := (ctxs s)
                 (p \<mapsto> zeroed_ctx\<lparr>ctx_ref := 1, ctx_file := file, ctx_id := i,
                          ctx_cm_id := Some (ev_cm_id uevent)\<rparr>,
                  ev_ctx uevent \<mapsto> parent\<lparr>ctx_backlog := ctx_backlog parent + 1\<rparr>),
               files := (files s)(file \<mapsto> f\<lparr>ctx_list := ctx_list f @ [p]\<rparr>),
               cm_ids := (cm_ids s)(ev_cm_id uevent \<mapsto> ci\<lparr>cm_context := p\<rparr>)\<rparr>)"
proof -
  have ne: "ev_ctx uevent \<noteq> p" using assms(4,5) by auto
  show ?thesis
    using assms ne
    by (simp add: ucma_get_event_con_req_def ucma_alloc_ctx_ok Let_def fun_upd_twist)
qed


lemma ucma_get_event_con_req_copied:
  assumes "files s file = Some f" and "event_list f = uevent # rest"
    and "sizeof_event_resp A - sizeof_event_resp_reserved A - sizeof_event_resp_ece A \<le> out_len"
    and "copy_from_ok E" and "copy_to_ok E"
    and "resp_event (ev_resp uevent) = RDMA_CM_EVENT_CONNECT_REQUEST"
    and "kzalloc E = Some p" and "xa_alloc_id E = Some i"
    and "ctxs s p = None" and "ctxs s (ev_ctx uevent) = Some parent"
    and "cm_ids s (ev_cm_id uevent) = Some ci" and "ev_mc uevent = None"
  shows "ucma_get_event A E file in_len out_len s =
           Some (0, Some ((ev_resp uevent)\<lparr>resp_id := i\<rparr>, min out_len (sizeof_event_resp A)),
             s\<lparr>ctx_table := (ctx_table s)(unat i \<mapsto> p),
               ctxs := (ctxs s)
                 (p \<mapsto> zeroed_ctx\<lparr>ctx_ref := 1, ctx_file := file, ctx_id := i,
                          ctx_cm_id := Some (ev_cm_id uevent)\<rparr>,
                  ev_ctx uevent \<mapsto> parent\<lparr>ctx_backlog := ctx_backlog parent + 1,
                                          ctx_events_reported := ctx_events_reported parent + 1\<rparr>),
               files := (files s)(file \<mapsto> f\<lparr>ctx_list := ctx_list f @ [p], event_list := rest\<rparr>),
               cm_ids := (cm_ids s)(ev_cm_id uevent \<mapsto> ci\<lparr>cm_context := p\<rparr>)\<rparr>)"
  using assms
  by (simp add: ucma_get_event_def ucma_get_event_con_req_ok [where f = f and parent = parent and ci = ci]
      ucma_get_event_reported_def Let_def)

lemma ucma_get_event_con_req_fault:
  assumes "files s file = Some f" and "event_list f = uevent # rest"
    and "sizeof_event_resp A - sizeof_event_resp_reserved A - sizeof_event_resp_ece A \<le> out_len"
    and "copy_from_ok E" and "\<not> copy_to_ok E"
    and "resp_event (ev_resp uevent) = RDMA_CM_EVENT_CONNECT_REQUEST"
    and "kzalloc E = Some p" and "xa_alloc_id E = Some i"
    and "ctxs s p = None" and "ctxs s (ev_ctx uevent) = Some parent"
    and "cm_ids s (ev_cm_id uevent) = Some ci"
  shows "ucma_get_event A E file in_len out_len s =
           Some (- EFAULT, None,
             s\<lparr>ctx_table := (ctx_table s)(unat i \<mapsto> p),
               ctxs := (ctxs s)
                 (p \<mapsto> zeroed_ctx\<lparr>ctx_ref := 1, ctx_file := file, ctx_id := i,
                          ctx_cm_id := Some (ev_cm_id uevent)\<rparr>,
                  ev_ctx uevent \<mapsto> parent\<lparr>ctx_backlog := ctx_backlog parent + 1\<rparr>),
               files := (files s)(file \<mapsto>
                 f\<lparr>ctx_list := ctx_list f @ [p],
                   event_list := uevent\<lparr>ev_resp := (ev_resp uevent)\<lparr>resp_id := i\<rparr>\<rparr> # rest\<rparr>),
               cm_ids := (cm_ids s)(ev_cm_id uevent \<mapsto> ci\<lparr>cm_context := p\<rparr>)\<rparr>)"
  using assms
  by (simp add: ucma_get_event_def ucma_get_event_con_req_ok [where f = f and parent = parent and ci = ci]
      Let_def)

lemma ucma_get_event_other_fault:
  assumes "files s file = Some f" and "event_list f = uevent # rest"
    and "sizeof_event_resp A - sizeof_event_resp_reserved A - sizeof_event_resp_ece A \<le> out_len"
    and "copy_from_ok E" and "\<not> copy_to_ok E"
    and "resp_event (ev_resp uevent) \<noteq> RDMA_CM_EVENT_CONNECT_REQUEST"
  shows "ucma_get_event A E file in_len out_len s = Some (- EFAULT, None, s)"
proof -
  have "f\<lparr>event_list := uevent # rest\<rparr> = f" using assms(2) by (rule event_list_upd_same)
  then have "s\<lparr>files := (files s)(file \<mapsto> f\<lparr>event_list := uevent # rest\<rparr>)\<rparr> = s"
    using assms(1) by (simp add: files_upd_same)
  then show ?thesis
    using assms by (simp add: ucma_get_event_def Let_def)
qed

lemma ucma_get_event_other_copied:
  assumes "files s file = Some f" and "event_list f = uevent # rest"
    and "sizeof_event_resp A - sizeof_event_resp_reserved A - sizeof_event_resp_ece A \<le> out_len"
    and "copy_from_ok E" and "copy_to_ok E"
    and "resp_event (ev_resp uevent) \<noteq> RDMA_CM_EVENT_CONNECT_REQUEST"
    and "ctxs s (ev_ctx uevent) = Some c"
  shows "ev_mc uevent = None \<longrightarrow>
           ucma_get_event A E file in_len out_len s =
             Some (0, Some (ev_resp uevent, min out_len (sizeof_event_resp A)),
               s\<lparr>files := (files s)(file \<mapsto> f\<lparr>event_list := rest\<rparr>),
                  ctxs := (ctxs s)(ev_ctx uevent \<mapsto>
                    c\<lparr>ctx_events_reported := ctx_events_reported c + 1\<rparr>)\<rparr>)"
    and "\<forall>m g. ev_mc uevent = Some m \<and> mcs s m = Some g \<longrightarrow>
           ucma_get_event A E file in_len out_len s =
             Some (0, Some (ev_resp uevent, min out_len (sizeof_event_resp A)),
               s\<lparr>files := (files s)(file \<mapsto> f\<lparr>event_list := rest\<rparr>),
                  ctxs := (ctxs s)(ev_ctx uevent \<mapsto>
                    c\<lparr>ctx_events_reported := ctx_events_reported c + 1\<rparr>),
                  mcs := (mcs s)(m \<mapsto> g\<lparr>mc_events_reported := mc_events_reported g + 1\<rparr>)\<rparr>)"
  using assms
  by (simp_all add: ucma_get_event_def ucma_get_event_reported_def Let_def)

text \<open>
  C2. A read whose queue head is a connect request (which carries no multicast group:
  the callback sets none), with the new context allocated:
  when the response is copied out, the read returns 0, the new context is in the context
  table under its id and on the file's context list, it holds the event's connection
  object and the connection object points back at it, the response carries the new id
  in place of the listener's, the listener's backlog counter is one higher, and the event
  has left the queue. The events-reported counter of the event's context, and of its
  multicast group when it has one, goes up by one exactly when the copy succeeds: when
  the copy fails the read returns -EFAULT and no events-reported counter has changed.
\<close>

theorem ucma_get_event_pop:
  assumes "files s file = Some f" and "event_list f = uevent # rest"
    and "sizeof_event_resp A - sizeof_event_resp_reserved A - sizeof_event_resp_ece A \<le> out_len"
    and "copy_from_ok E"
  shows "(resp_event (ev_resp uevent) = RDMA_CM_EVENT_CONNECT_REQUEST \<and>
          kzalloc E = Some p \<and> xa_alloc_id E = Some i \<and> ctxs s p = None \<and>
          ctxs s (ev_ctx uevent) = Some parent \<and> cm_ids s (ev_cm_id uevent) = Some ci \<longrightarrow>
            (copy_to_ok E \<and> ev_mc uevent = None \<longrightarrow>
               ucma_get_event A E file in_len out_len s =
                 Some (0, Some ((ev_resp uevent)\<lparr>resp_id := i\<rparr>, min out_len (sizeof_event_resp A)),
                   s\<lparr>ctx_table := (ctx_table s)(unat i \<mapsto> p),
                     ctxs := (ctxs s)
                       (p \<mapsto> zeroed_ctx\<lparr>ctx_ref := 1, ctx_file := file, ctx_id := i,
                                ctx_cm_id := Some (ev_cm_id uevent)\<rparr>,
                        ev_ctx uevent \<mapsto> parent\<lparr>ctx_backlog := ctx_backlog parent + 1,
                          ctx_events_reported := ctx_events_reported parent + 1\<rparr>),
                     files := (files s)(file \<mapsto>
                       f\<lparr>ctx_list := ctx_list f @ [p], event_list := rest\<rparr>),
                     cm_ids := (cm_ids s)(ev_cm_id uevent \<mapsto> ci\<lparr>cm_context := p\<rparr>)\<rparr>)) \<and>
            (\<not> copy_to_ok E \<longrightarrow>
               ucma_get_event A E file in_len out_len s =
                 Some (- EFAULT, None,
                   s\<lparr>ctx_table := (ctx_table s)(unat i \<mapsto> p),
                     ctxs := (ctxs s)
                       (p \<mapsto> zeroed_ctx\<lparr>ctx_ref := 1, ctx_file := file, ctx_id := i,
                                ctx_cm_id := Some (ev_cm_id uevent)\<rparr>,
                        ev_ctx uevent \<mapsto> parent\<lparr>ctx_backlog := ctx_backlog parent + 1\<rparr>),
                     files := (files s)(file \<mapsto>
                       f\<lparr>ctx_list := ctx_list f @ [p],
                         event_list := uevent\<lparr>ev_resp := (ev_resp uevent)\<lparr>resp_id := i\<rparr>\<rparr> # rest\<rparr>),
                     cm_ids := (cm_ids s)(ev_cm_id uevent \<mapsto> ci\<lparr>cm_context := p\<rparr>)\<rparr>))) \<and>
         (resp_event (ev_resp uevent) \<noteq> RDMA_CM_EVENT_CONNECT_REQUEST \<and>
          ctxs s (ev_ctx uevent) = Some c \<longrightarrow>
            (\<not> copy_to_ok E \<longrightarrow>
               ucma_get_event A E file in_len out_len s = Some (- EFAULT, None, s)) \<and>
            (copy_to_ok E \<and> ev_mc uevent = None \<longrightarrow>
               ucma_get_event A E file in_len out_len s =
                 Some (0, Some (ev_resp uevent, min out_len (sizeof_event_resp A)),
                   s\<lparr>files := (files s)(file \<mapsto> f\<lparr>event_list := rest\<rparr>),
                      ctxs := (ctxs s)(ev_ctx uevent \<mapsto>
                        c\<lparr>ctx_events_reported := ctx_events_reported c + 1\<rparr>)\<rparr>)) \<and>
            (\<forall>m g. copy_to_ok E \<and> ev_mc uevent = Some m \<and> mcs s m = Some g \<longrightarrow>
               ucma_get_event A E file in_len out_len s =
                 Some (0, Some (ev_resp uevent, min out_len (sizeof_event_resp A)),
                   s\<lparr>files := (files s)(file \<mapsto> f\<lparr>event_list := rest\<rparr>),
                      ctxs := (ctxs s)(ev_ctx uevent \<mapsto>
                        c\<lparr>ctx_events_reported := ctx_events_reported c + 1\<rparr>),
                      mcs := (mcs s)(m \<mapsto>
                        g\<lparr>mc_events_reported := mc_events_reported g + 1\<rparr>)\<rparr>)))"
  using ucma_get_event_con_req_copied [OF assms(1-4), where p = p and i = i and parent = parent and ci = ci and in_len = in_len]
    ucma_get_event_con_req_fault [OF assms(1-4), where p = p and i = i and parent = parent and ci = ci and in_len = in_len]
    ucma_get_event_other_fault [OF assms(1-4), where in_len = in_len]
    ucma_get_event_other_copied [OF assms(1-4), where c = c and in_len = in_len]
  by blast

theorem ucma_get_event_pop_witness:
  "files state1 1 = Some (file0\<lparr>ctx_list := [10], event_list := [uevent0]\<rparr>) \<and>
   event_list (file0\<lparr>ctx_list := [10], event_list := [uevent0]\<rparr>) = [uevent0] \<and>
   sizeof_event_resp abi0 - sizeof_event_resp_reserved abi0 - sizeof_event_resp_ece abi0 \<le> 336 \<and>
   copy_from_ok env0 \<and> copy_to_ok env0 \<and>
   resp_event (ev_resp uevent0) = RDMA_CM_EVENT_CONNECT_REQUEST \<and>
   kzalloc env0 = Some 20 \<and> xa_alloc_id env0 = Some 1 \<and> ctxs state1 20 = None \<and>
   ctxs state1 (ev_ctx uevent0) = Some (listener0\<lparr>ctx_backlog := 1\<rparr>) \<and>
   cm_ids state1 (ev_cm_id uevent0) =
     Some \<lparr>cm_context = 10, cm_device = Some 1, cm_qp_type = IB_QPT_RC\<rparr> \<and>
   ev_mc uevent0 = None \<and>
   ucma_get_event abi0 env0 1 8 336 state1 =
     Some (0, Some ((ev_resp uevent0)\<lparr>resp_id := 1\<rparr>, 336),
       state1\<lparr>ctx_table := (ctx_table state1)(1 \<mapsto> 20),
         ctxs := (ctxs state1)
           (20 \<mapsto> zeroed_ctx\<lparr>ctx_ref := 1, ctx_file := 1, ctx_id := 1, ctx_cm_id := Some 101\<rparr>,
            10 \<mapsto> listener0\<lparr>ctx_backlog := 2, ctx_events_reported := 1\<rparr>),
         files := (files state1)(1 \<mapsto> file0\<lparr>ctx_list := [10, 20], event_list := []\<rparr>),
         cm_ids := (cm_ids state1)(101 \<mapsto>
           \<lparr>cm_context = 20, cm_device = Some 1, cm_qp_type = IB_QPT_RC\<rparr>)\<rparr>)"
proof -
  let ?f = "file0\<lparr>ctx_list := [10], event_list := [uevent0]\<rparr>"
  let ?ci = "\<lparr>cm_context = 10, cm_device = Some 1, cm_qp_type = IB_QPT_RC\<rparr>"
  have a: "files state1 1 = Some ?f" by (simp add: state1_def)
  have b: "event_list ?f = uevent0 # []" by simp
  have c: "sizeof_event_resp abi0 - sizeof_event_resp_reserved abi0 - sizeof_event_resp_ece abi0 \<le> 336"
    by (simp add: abi0_def)
  have d: "copy_from_ok env0" "copy_to_ok env0" "kzalloc env0 = Some 20" "xa_alloc_id env0 = Some 1"
    by (simp_all add: env0_def)
  have e: "resp_event (ev_resp uevent0) = RDMA_CM_EVENT_CONNECT_REQUEST" "ev_mc uevent0 = None"
    "ev_ctx uevent0 = 10" "ev_cm_id uevent0 = 101"
    by (simp_all add: uevent0_def)
  have g: "ctxs state1 20 = None" "ctxs state1 (ev_ctx uevent0) = Some (listener0\<lparr>ctx_backlog := 1\<rparr>)"
    "cm_ids state1 (ev_cm_id uevent0) = Some ?ci"
    by (simp_all add: state1_def state0_def e)
  have "ucma_get_event abi0 env0 1 8 336 state1 =
     Some (0, Some ((ev_resp uevent0)\<lparr>resp_id := 1\<rparr>, min 336 (sizeof_event_resp abi0)),
       state1\<lparr>ctx_table := (ctx_table state1)(unat (1::u32) \<mapsto> 20),
         ctxs := (ctxs state1)
           (20 \<mapsto> zeroed_ctx\<lparr>ctx_ref := 1, ctx_file := 1, ctx_id := 1,
                     ctx_cm_id := Some (ev_cm_id uevent0)\<rparr>,
            ev_ctx uevent0 \<mapsto> (listener0\<lparr>ctx_backlog := 1\<rparr>)\<lparr>ctx_backlog := ctx_backlog (listener0\<lparr>ctx_backlog := 1\<rparr>) + 1,
               ctx_events_reported := ctx_events_reported (listener0\<lparr>ctx_backlog := 1\<rparr>) + 1\<rparr>),
         files := (files state1)(1 \<mapsto> ?f\<lparr>ctx_list := ctx_list ?f @ [20], event_list := []\<rparr>),
         cm_ids := (cm_ids state1)(ev_cm_id uevent0 \<mapsto> ?ci\<lparr>cm_context := 20\<rparr>)\<rparr>)"
    using ucma_get_event_pop [OF a b c d(1), of 20 1 "listener0\<lparr>ctx_backlog := 1\<rparr>" ?ci] d e g
    by blast
  then have "ucma_get_event abi0 env0 1 8 336 state1 =
     Some (0, Some ((ev_resp uevent0)\<lparr>resp_id := 1\<rparr>, 336),
       state1\<lparr>ctx_table := (ctx_table state1)(1 \<mapsto> 20),
         ctxs := (ctxs state1)
           (20 \<mapsto> zeroed_ctx\<lparr>ctx_ref := 1, ctx_file := 1, ctx_id := 1, ctx_cm_id := Some 101\<rparr>,
            10 \<mapsto> listener0\<lparr>ctx_backlog := 2, ctx_events_reported := 1\<rparr>),
         files := (files state1)(1 \<mapsto> file0\<lparr>ctx_list := [10, 20], event_list := []\<rparr>),
         cm_ids := (cm_ids state1)(101 \<mapsto>
           \<lparr>cm_context = 20, cm_device = Some 1, cm_qp_type = IB_QPT_RC\<rparr>)\<rparr>)"
    by (simp add: e abi0_def listener0_def)
  then show ?thesis using a b c d e g by simp
qed

text \<open>
  C4, at the input where the code departs from it: a read of a queued connect request
  whose response cannot be copied to the client returns -EFAULT, and yet the context it
  allocated stays in the context table (id 1) and on the file's context list, holding
  connection object 101; the listener's backlog counter has gone up from 1 to 2 and the
  event is still at the head of the queue, now carrying the new id.
\<close>

theorem ucma_get_event_copy_fault_leaves_ctx:
  "ucma_get_event abi0 (env0\<lparr>copy_to_ok := False\<rparr>) 1 8 336 state1 =
     Some (- EFAULT, None,
       state1\<lparr>ctx_table := [0 \<mapsto> 10, 1 \<mapsto> 20],
         ctxs := [10 \<mapsto> listener0\<lparr>ctx_backlog := 2\<rparr>,
                  20 \<mapsto> zeroed_ctx\<lparr>ctx_ref := 1, ctx_file := 1, ctx_id := 1, ctx_cm_id := Some 101\<rparr>],
         files := [1 \<mapsto> file0\<lparr>ctx_list := [10, 20],
                       event_list := [uevent0\<lparr>ev_resp := (ev_resp uevent0)\<lparr>resp_id := 1\<rparr>\<rparr>]\<rparr>,
                   2 \<mapsto> file0],
         cm_ids := [100 \<mapsto> \<lparr>cm_context = 10, cm_device = Some 1, cm_qp_type = IB_QPT_RC\<rparr>,
                    101 \<mapsto> \<lparr>cm_context = 20, cm_device = Some 1, cm_qp_type = IB_QPT_RC\<rparr>]\<rparr>)"
proof -
  let ?f = "file0\<lparr>ctx_list := [10], event_list := [uevent0]\<rparr>"
  let ?ci = "\<lparr>cm_context = 10, cm_device = Some 1, cm_qp_type = IB_QPT_RC\<rparr>"
  let ?E = "env0\<lparr>copy_to_ok := False\<rparr>"
  have a: "files state1 1 = Some ?f" by (simp add: state1_def)
  have b: "event_list ?f = uevent0 # []" by simp
  have c: "sizeof_event_resp abi0 - sizeof_event_resp_reserved abi0 - sizeof_event_resp_ece abi0 \<le> 336"
    by (simp add: abi0_def)
  have d: "copy_from_ok ?E" "\<not> copy_to_ok ?E" "kzalloc ?E = Some 20" "xa_alloc_id ?E = Some 1"
    by (simp_all add: env0_def)
  have e: "resp_event (ev_resp uevent0) = RDMA_CM_EVENT_CONNECT_REQUEST"
    "ev_ctx uevent0 = 10" "ev_cm_id uevent0 = 101"
    by (simp_all add: uevent0_def)
  have g: "ctxs state1 20 = None" "ctxs state1 (ev_ctx uevent0) = Some (listener0\<lparr>ctx_backlog := 1\<rparr>)"
    "cm_ids state1 (ev_cm_id uevent0) = Some ?ci"
    by (simp_all add: state1_def state0_def e)
  show ?thesis
    using ucma_get_event_con_req_fault [OF a b c d(1) d(2) e(1) d(3) d(4) g, of 8]
    by (simp add: e state1_def state0_def fun_upd_twist listener0_def)
qed

lemma ucma_cmd_table_length: "length ucma_cmd_table = 23"
  by (simp add: ucma_cmd_table_def)

lemma ucma_cmd_table_null_map:
  "map (\<lambda>h. h = None) ucma_cmd_table = map (\<lambda>k. k = 13) [0..<23]"
  by code_simp

lemma ucma_cmd_table_null:
  assumes "n < 23"
  shows "ucma_cmd_table ! n = None \<longleftrightarrow> n = 13"
proof -
  have "(ucma_cmd_table ! n = None) = map (\<lambda>h. h = None) ucma_cmd_table ! n"
    using assms by (simp add: ucma_cmd_table_length)
  also have "\<dots> = map (\<lambda>k. k = 13) [0..<23] ! n"
    by (simp only: ucma_cmd_table_null_map)
  also have "\<dots> = (n = 13)"
    using assms by (simp del: upt_Suc)
  finally show ?thesis .
qed

text \<open>
  C6, as the claim states it, fails: an opcode beyond the end of the dispatch table is
  answered with -EINVAL (InvalidArgument), not with -ENOSYS (NotSupported).
\<close>

theorem ucma_write_unknown_opcode:
  "length ucma_cmd_table \<le> unat (23 :: u32) \<and>
   ucma_write abi0 env0 True (\<lambda>h file i out s. None) 1
     \<lparr>hdr_cmd = 23, hdr_in = 0, hdr_out = 0\<rparr> 8 state0 = Some (- EINVAL, state0) \<and>
   - EINVAL \<noteq> - ENOSYS"
  by (simp add: ucma_write_def ucma_cmd_table_length abi0_def env0_def EINVAL_def ENOSYS_def)

text \<open>
  C6, amended. Once the caller is allowed to write and the header has been copied in:
  an opcode outside the range of the dispatch table returns -EINVAL; a command whose
  declared input length plus the header exceeds the bytes supplied returns -EINVAL
  whatever its opcode, with the state unchanged and no handler run; an opcode in range
  whose entry is NULL returns -ENOSYS when the length fits; and the only NULL entry of
  the 23 is number 13, get-option.
\<close>

theorem ucma_write_dispatch_checks:
  assumes "safe" and "sizeof_hdr A \<le> len" and "copy_from_ok E"
  shows "(length ucma_cmd_table \<le> unat (hdr_cmd hdr) \<longrightarrow>
            ucma_write A E safe call file hdr len s = Some (- EINVAL, s)) \<and>
         (len < unat (hdr_in hdr) + sizeof_hdr A \<longrightarrow>
            ucma_write A E safe call file hdr len s = Some (- EINVAL, s)) \<and>
         (unat (hdr_cmd hdr) < length ucma_cmd_table \<and>
          unat (hdr_in hdr) + sizeof_hdr A \<le> len \<and>
          ucma_cmd_table ! unat (hdr_cmd hdr) = None \<longrightarrow>
            ucma_write A E safe call file hdr len s = Some (- ENOSYS, s)) \<and>
         (unat (hdr_cmd hdr) < length ucma_cmd_table \<longrightarrow>
            (ucma_cmd_table ! unat (hdr_cmd hdr) = None \<longleftrightarrow> hdr_cmd hdr = 13)) \<and>
         length ucma_cmd_table = 23"
proof -
  have n: "unat (hdr_cmd hdr) < length ucma_cmd_table \<longrightarrow>
            (ucma_cmd_table ! unat (hdr_cmd hdr) = None \<longleftrightarrow> hdr_cmd hdr = 13)"
  proof
    assume "unat (hdr_cmd hdr) < length ucma_cmd_table"
    then have "ucma_cmd_table ! unat (hdr_cmd hdr) = None \<longleftrightarrow> unat (hdr_cmd hdr) = 13"
      by (simp add: ucma_cmd_table_length ucma_cmd_table_null)
    also have "\<dots> \<longleftrightarrow> hdr_cmd hdr = 13"
      by (simp add: word_unat_eq_iff)
    finally show "ucma_cmd_table ! unat (hdr_cmd hdr) = None \<longleftrightarrow> hdr_cmd hdr = 13" .
  qed
  show ?thesis
    using assms n by (auto simp add: ucma_write_def ucma_cmd_table_length)
qed


theorem ucma_write_dispatch_checks_witness:
  "sizeof_hdr abi0 \<le> 8 \<and> copy_from_ok env0 \<and>
   unat (hdr_cmd \<lparr>hdr_cmd = 13, hdr_in = 0, hdr_out = 0\<rparr>) < length ucma_cmd_table \<and>
   unat (hdr_in \<lparr>hdr_cmd = 13, hdr_in = 0, hdr_out = 0\<rparr>) + sizeof_hdr abi0 \<le> 8 \<and>
   ucma_cmd_table ! unat (hdr_cmd \<lparr>hdr_cmd = 13, hdr_in = 0, hdr_out = 0\<rparr>) = None \<and>
   ucma_write abi0 env0 True (\<lambda>h file i out s. None) 1
     \<lparr>hdr_cmd = 13, hdr_in = 0, hdr_out = 0\<rparr> 8 state0 = Some (- ENOSYS, state0) \<and>
   8 < unat (hdr_in \<lparr>hdr_cmd = 7, hdr_in = 8, hdr_out = 0\<rparr>) + sizeof_hdr abi0 \<and>
   ucma_write abi0 env0 True (\<lambda>h file i out s. None) 1
     \<lparr>hdr_cmd = 7, hdr_in = 8, hdr_out = 0\<rparr> 8 state0 = Some (- EINVAL, state0)"
proof -
  let ?h = "\<lparr>hdr_cmd = 13, hdr_in = 0, hdr_out = 0\<rparr>"
  let ?g = "\<lparr>hdr_cmd = 7, hdr_in = 8, hdr_out = 0\<rparr>"
  have a: "sizeof_hdr abi0 \<le> 8" "copy_from_ok env0" by (simp_all add: abi0_def env0_def)
  have b: "unat (hdr_cmd ?h) < length ucma_cmd_table" "unat (hdr_in ?h) + sizeof_hdr abi0 \<le> 8"
    "ucma_cmd_table ! unat (hdr_cmd ?h) = None"
    by (simp_all add: ucma_cmd_table_def abi0_def)
  have c: "8 < unat (hdr_in ?g) + sizeof_hdr abi0" by (simp add: abi0_def)
  show ?thesis
    using a b c
      ucma_write_dispatch_checks [OF TrueI a, of ?h "\<lambda>h file i out s. None" 1 state0]
      ucma_write_dispatch_checks [OF TrueI a, of ?g "\<lambda>h file i out s. None" 1 state0]
    by blast
qed

lemma mod_once: "n \<le> x \<Longrightarrow> x < 2 * n \<Longrightarrow> x mod n = x - n" for x n :: int
proof -
  assume h: "n \<le> x" "x < 2 * n"
  have "x mod n = (x - n) mod n" by simp
  also have "\<dots> = x - n" using h by (intro mod_pos_pos_trivial) auto
  finally show ?thesis .
qed

lemma sint_neg_iff: "sint (w::u32) < 0 \<longleftrightarrow> 2 ^ 31 \<le> uint w"
proof -
  have e: "sint w = take_bit 32 (uint w + 2 ^ 31) - 2 ^ 31"
    by (simp add: sint_uint signed_take_bit_eq_take_bit_shift)
  have b: "0 \<le> uint w" "uint w < 2 ^ 32"
    using uint_lt2p [of w] by simp_all
  show ?thesis
  proof (cases "uint w < 2 ^ 31")
    case True
    then have "take_bit 32 (uint w + 2 ^ 31) = uint w + 2 ^ 31"
      using b by (simp add: take_bit_int_eq_self)
    then show ?thesis using e True by simp
  next
    case False
    have "(uint w + 2 ^ 31) mod 2 ^ 32 = uint w + 2 ^ 31 - 2 ^ 32"
      using False b by (intro mod_once) simp_all
    then have "take_bit 32 (uint w + 2 ^ 31) = uint w + 2 ^ 31 - 2 ^ 32"
      by (simp only: take_bit_eq_mod)
    then show ?thesis using e False b by simp
  qed
qed

lemma sint_neg_not_less:
  fixes b m :: u32
  assumes "sint b < 0" and "0 \<le> sint m"
  shows "\<not> b < m"
proof -
  have "2 ^ 31 \<le> uint b" using assms(1) by (simp add: sint_neg_iff)
  moreover have "uint m < 2 ^ 31" using assms(2) sint_neg_iff [of m] by simp
  ultimately show ?thesis by (simp add: word_less_def)
qed


lemma ucma_listen_found:
  assumes "copy_from_ok E" and "ctx_table s (xa_index A (l_id cmd)) = Some p"
    and "ctxs s p = Some c" and "ctx_file c = file" and "ctx_cm_id c = Some cm"
    and "\<not> ctx_closing c"
  shows "ucma_listen A E file cmd in_len out_len s =
           Some (engine_ret E,
             s\<lparr>ctxs := (ctxs s)(p \<mapsto>
                  c\<lparr>ctx_backlog := listen_backlog (max_backlog s) (l_backlog cmd),
                    ctx_comp := (if ctx_ref c = 0 then ctx_comp c + 1 else ctx_comp c)\<rparr>),
               engine_calls := engine_calls s @
                 [Rdma_listen cm (listen_backlog (max_backlog s) (l_backlog cmd))]\<rparr>)"
  using assms
  by (simp add: ucma_listen_def ucma_get_ctx_found ucma_put_ctx_def Let_def)

text \<open>
  C10, amended. A listen command on a context that the lookup finds: the backlog stored in the
  context is the requested value when that value is above zero and below max_backlog
  (both read as unsigned 32-bit numbers, as the comparison does), and max_backlog
  otherwise: for a request of zero and for a request at or above max_backlog. A request
  that is negative as an int is replaced by max_backlog when max_backlog itself is not
  negative as an int, as the default 1024 is; otherwise it is kept when it is below
  max_backlog. The same value is the one handed to rdma_listen.
\<close>

theorem ucma_listen_backlog:
  assumes "copy_from_ok E" and "ctx_table s (xa_index A (l_id cmd)) = Some p"
    and "ctxs s p = Some c" and "ctx_file c = file" and "ctx_cm_id c = Some cm"
    and "\<not> ctx_closing c"
  shows "\<exists>s' c'. ucma_listen A E file cmd in_len out_len s = Some (engine_ret E, s') \<and>
           ctxs s' p = Some c' \<and>
           ctx_backlog c' = listen_backlog (max_backlog s) (l_backlog cmd) \<and>
           engine_calls s' = engine_calls s @
             [Rdma_listen cm (listen_backlog (max_backlog s) (l_backlog cmd))] \<and>
           (0 < l_backlog cmd \<and> l_backlog cmd < max_backlog s \<longrightarrow>
              ctx_backlog c' = l_backlog cmd) \<and>
           (l_backlog cmd = 0 \<longrightarrow> ctx_backlog c' = max_backlog s) \<and>
           (max_backlog s \<le> l_backlog cmd \<longrightarrow> ctx_backlog c' = max_backlog s) \<and>
           (sint (l_backlog cmd) < 0 \<and> 0 \<le> sint (max_backlog s) \<longrightarrow>
              ctx_backlog c' = max_backlog s) \<and>
           (ctx_backlog c' \<noteq> max_backlog s \<longrightarrow>
              0 < l_backlog cmd \<and> l_backlog cmd < max_backlog s)"
proof -
  let ?B = "listen_backlog (max_backlog s) (l_backlog cmd)"
  let ?c' = "c\<lparr>ctx_backlog := ?B,
                ctx_comp := (if ctx_ref c = 0 then ctx_comp c + 1 else ctx_comp c)\<rparr>"
  let ?s' = "s\<lparr>ctxs := (ctxs s)(p \<mapsto> ?c'), engine_calls := engine_calls s @ [Rdma_listen cm ?B]\<rparr>"
  have r: "ucma_listen A E file cmd in_len out_len s = Some (engine_ret E, ?s')"
    using ucma_listen_found [OF assms] by simp
  have 1: "0 < l_backlog cmd \<and> l_backlog cmd < max_backlog s \<longrightarrow> ?B = l_backlog cmd"
    by (simp add: listen_backlog_def)
  have 2: "l_backlog cmd = 0 \<longrightarrow> ?B = max_backlog s" by (simp add: listen_backlog_def)
  have 3: "max_backlog s \<le> l_backlog cmd \<longrightarrow> ?B = max_backlog s"
    by (auto simp add: listen_backlog_def)
  have 4: "sint (l_backlog cmd) < 0 \<and> 0 \<le> sint (max_backlog s) \<longrightarrow> ?B = max_backlog s"
    using sint_neg_not_less [of "l_backlog cmd" "max_backlog s"] by (auto simp add: listen_backlog_def)
  have 5: "?B \<noteq> max_backlog s \<longrightarrow> 0 < l_backlog cmd \<and> l_backlog cmd < max_backlog s"
    by (auto simp add: listen_backlog_def)
  have c: "ctxs ?s' p = Some ?c'" by simp
  have bk: "ctx_backlog ?c' = ?B" by simp
  have ec: "engine_calls ?s' = engine_calls s @ [Rdma_listen cm ?B]" by simp
  show ?thesis
    apply (rule exI [of _ ?s'], rule exI [of _ ?c'])
    apply (intro conjI)
            apply (rule r)
           apply (rule c)
          apply (rule bk)
         apply (rule ec)
        apply (simp only: bk, rule 1)
       apply (simp only: bk, rule 2)
      apply (simp only: bk, rule 3)
     apply (simp only: bk, rule 4)
    apply (simp only: bk, rule 5)
    done
qed

theorem ucma_listen_backlog_witness:
  "copy_from_ok env0 \<and> ctx_table state0 (xa_index abi0 (l_id \<lparr>l_id = 0, l_backlog = 5000\<rparr>)) = Some 10 \<and>
   ctxs state0 10 = Some listener0 \<and> ctx_file listener0 = 1 \<and> ctx_cm_id listener0 = Some 100 \<and>
   \<not> ctx_closing listener0 \<and>
   max_backlog state0 \<le> l_backlog \<lparr>l_id = 0, l_backlog = 5000\<rparr> \<and>
   (\<exists>s' c'. ucma_listen abi0 env0 1 \<lparr>l_id = 0, l_backlog = 5000\<rparr> 8 0 state0 = Some (0, s') \<and>
      ctxs s' 10 = Some c' \<and> ctx_backlog c' = 1024 \<and>
      engine_calls s' = [Rdma_listen 100 1024])"
proof -
  let ?cmd = "\<lparr>l_id = 0, l_backlog = 5000\<rparr>"
  have a: "copy_from_ok env0" "engine_ret env0 = 0" by (simp_all add: env0_def)
  have b: "ctx_table state0 (xa_index abi0 (l_id ?cmd)) = Some 10" "ctxs state0 10 = Some listener0"
    "max_backlog state0 = 1024" "engine_calls state0 = []"
    by (simp_all add: state0_def xa_index_def abi0_def)
  have c: "ctx_file listener0 = 1" "ctx_cm_id listener0 = Some 100" "\<not> ctx_closing listener0"
    by (simp_all add: listener0_def)
  have d: "max_backlog state0 \<le> l_backlog ?cmd" by (simp add: b)
  obtain s' c' where r: "ucma_listen abi0 env0 1 ?cmd 8 0 state0 = Some (engine_ret env0, s')"
    "ctxs s' 10 = Some c'"
    "engine_calls s' = engine_calls state0 @
       [Rdma_listen 100 (listen_backlog (max_backlog state0) (l_backlog ?cmd))]"
    "max_backlog state0 \<le> l_backlog ?cmd \<longrightarrow> ctx_backlog c' = max_backlog state0"
    using ucma_listen_backlog [OF a(1) b(1) b(2) c(1) c(2) c(3), of 8 0] by blast
  have e: "listen_backlog (max_backlog state0) (l_backlog ?cmd) = 1024"
    by (simp add: listen_backlog_def b)
  have "ucma_listen abi0 env0 1 ?cmd 8 0 state0 = Some (0, s') \<and>
      ctxs s' 10 = Some c' \<and> ctx_backlog c' = 1024 \<and> engine_calls s' = [Rdma_listen 100 1024]"
    using r d e a(2) b(3,4) by simp
  then show ?thesis using a(1) b(1,2) c d by blast
qed

lemma list_del_appended: "x \<notin> set xs \<Longrightarrow> list_del x (xs @ [x]) = xs"
  by (simp add: list_del_def remove1_append)

lemma ucma_create_id_engine_fails:
  assumes "sizeof_create_id_resp A \<le> out_len" and "copy_from_ok E"
    and "ucma_get_qp_type cmd = Inr qpt"
    and "kzalloc E = Some p" and "xa_alloc_id E = Some i" and "files s file = Some f"
    and "ctxs s p = None" and "ctx_table s (unat i) = None" and "p \<notin> set (ctx_list f)"
    and "rdma_create_id E = Inl e"
  shows "ucma_create_id A E file cmd in_len out_len s =
           Some (e, None, s\<lparr>engine_calls := engine_calls s @ [Rdma_create_id p (cid_ps cmd) qpt]\<rparr>)"
proof -
  have a: "(ctx_table s)(unat i := None) = ctx_table s" using assms(8) by (simp add: fun_upd_idem)
  have b: "(ctxs s)(p := None) = ctxs s" using assms(7) by (simp add: fun_upd_idem)
  have c: "(files s)(file \<mapsto> f) = files s" using assms(6) by (simp add: fun_upd_idem)
  show ?thesis
    using assms(1-6,9,10) a b c
    by (simp add: ucma_create_id_def ucma_alloc_ctx_ok Let_def ucma_create_id_err1_def
        list_del_appended zeroed_ctx_def)
qed

lemma ucma_create_id_copy_fails:
  assumes "sizeof_create_id_resp A \<le> out_len" and "copy_from_ok E"
    and "ucma_get_qp_type cmd = Inr qpt"
    and "kzalloc E = Some p" and "xa_alloc_id E = Some i" and "files s file = Some f"
    and "ctxs s p = None" and "ctx_table s (unat i) = None" and "p \<notin> set (ctx_list f)"
    and "rdma_create_id E = Inr cm" and "cm_ids s cm = None" and "\<not> copy_to_ok E"
  shows "ucma_create_id A E file cmd in_len out_len s =
           Some (- EFAULT, None,
             s\<lparr>engine_calls := engine_calls s @
                [Rdma_create_id p (cid_ps cmd) qpt, Rdma_destroy_id cm]\<rparr>)"
proof -
  have a: "(ctx_table s)(unat i := None) = ctx_table s" using assms(8) by (simp add: fun_upd_idem)
  have b: "(ctxs s)(p := None) = ctxs s" using assms(7) by (simp add: fun_upd_idem)
  have c: "(files s)(file \<mapsto> f) = files s" using assms(6) by (simp add: fun_upd_idem)
  have d: "(cm_ids s)(cm := None) = cm_ids s" using assms(11) by (simp add: fun_upd_idem)
  show ?thesis
    using assms(1-6,9,10,12) a b c d
    by (simp add: ucma_create_id_def ucma_alloc_ctx_ok Let_def ucma_create_id_err1_def
        list_del_appended rdma_destroy_id_def zeroed_ctx_def)
qed

lemma ucma_create_id_ok:
  assumes "sizeof_create_id_resp A \<le> out_len" and "copy_from_ok E"
    and "ucma_get_qp_type cmd = Inr qpt"
    and "kzalloc E = Some p" and "xa_alloc_id E = Some i" and "files s file = Some f"
    and "rdma_create_id E = Inr cm" and "copy_to_ok E"
  shows "ucma_create_id A E file cmd in_len out_len s =
           Some (0, Some i,
             s\<lparr>ctx_table := (ctx_table s)(unat i \<mapsto> p),
               ctxs := (ctxs s)(p \<mapsto> zeroed_ctx\<lparr>ctx_ref := 1, ctx_file := file, ctx_id := i,
                 ctx_uid := cid_uid cmd, ctx_cm_id := Some cm\<rparr>),
               files := (files s)(file \<mapsto> f\<lparr>ctx_list := ctx_list f @ [p]\<rparr>),
               cm_ids := (cm_ids s)(cm \<mapsto> \<lparr>cm_context = p, cm_device = None, cm_qp_type = qpt\<rparr>),
               engine_calls := engine_calls s @ [Rdma_create_id p (cid_ps cmd) qpt]\<rparr>)"
  using assms
  by (simp add: ucma_create_id_def ucma_alloc_ctx_ok Let_def zeroed_ctx_def)

text \<open>
  C8. A create-context command that has put its context into the context table (the
  allocation gave an address and an id that were free) and then fails, because the
  engine cannot create the connection object or because the id cannot be copied to the
  client: it returns the error (the engine's, or -EFAULT) and the state is the one
  before the command but for the record of the engine calls: the id is erased from the
  table, the context is off the file's context list and freed, and a connection object
  that was created has been destroyed.
\<close>

theorem ucma_create_id_unwinds:
  assumes "sizeof_create_id_resp A \<le> out_len" and "copy_from_ok E"
    and "ucma_get_qp_type cmd = Inr qpt"
    and "kzalloc E = Some p" and "xa_alloc_id E = Some i" and "files s file = Some f"
    and "ctxs s p = None" and "ctx_table s (unat i) = None" and "p \<notin> set (ctx_list f)"
  shows "(\<forall>e. rdma_create_id E = Inl e \<longrightarrow>
            ucma_create_id A E file cmd in_len out_len s =
              Some (e, None,
                s\<lparr>engine_calls := engine_calls s @ [Rdma_create_id p (cid_ps cmd) qpt]\<rparr>)) \<and>
         (\<forall>cm. rdma_create_id E = Inr cm \<and> cm_ids s cm = None \<and> \<not> copy_to_ok E \<longrightarrow>
            ucma_create_id A E file cmd in_len out_len s =
              Some (- EFAULT, None,
                s\<lparr>engine_calls := engine_calls s @
                   [Rdma_create_id p (cid_ps cmd) qpt, Rdma_destroy_id cm]\<rparr>))"
  using ucma_create_id_engine_fails [OF assms] ucma_create_id_copy_fails [OF assms]
  by blast

theorem ucma_create_id_unwinds_witness:
  "sizeof_create_id_resp abi0 \<le> 4 \<and> copy_from_ok (env0\<lparr>copy_to_ok := False\<rparr>) \<and>
   ucma_get_qp_type \<lparr>cid_uid = 9, cid_ps = RDMA_PS_TCP, cid_qp_type = IB_QPT_RC\<rparr> = Inr IB_QPT_RC \<and>
   kzalloc (env0\<lparr>copy_to_ok := False\<rparr>) = Some 20 \<and>
   xa_alloc_id (env0\<lparr>copy_to_ok := False\<rparr>) = Some 1 \<and>
   files state0 1 = Some (file0\<lparr>ctx_list := [10]\<rparr>) \<and>
   ctxs state0 20 = None \<and> ctx_table state0 (unat (1::u32)) = None \<and>
   20 \<notin> set (ctx_list (file0\<lparr>ctx_list := [10]\<rparr>)) \<and>
   rdma_create_id (env0\<lparr>copy_to_ok := False\<rparr>) = Inr 102 \<and> cm_ids state0 102 = None \<and>
   \<not> copy_to_ok (env0\<lparr>copy_to_ok := False\<rparr>) \<and>
   ucma_create_id abi0 (env0\<lparr>copy_to_ok := False\<rparr>) 1
       \<lparr>cid_uid = 9, cid_ps = RDMA_PS_TCP, cid_qp_type = IB_QPT_RC\<rparr> 16 4 state0 =
     Some (- EFAULT, None,
       state0\<lparr>engine_calls := [Rdma_create_id 20 RDMA_PS_TCP IB_QPT_RC, Rdma_destroy_id 102]\<rparr>)"
proof -
  let ?E = "env0\<lparr>copy_to_ok := False\<rparr>"
  let ?cmd = "\<lparr>cid_uid = 9, cid_ps = RDMA_PS_TCP, cid_qp_type = IB_QPT_RC\<rparr>"
  let ?f = "file0\<lparr>ctx_list := [10]\<rparr>"
  have a: "sizeof_create_id_resp abi0 \<le> 4" by (simp add: abi0_def)
  have b: "copy_from_ok ?E" "kzalloc ?E = Some 20" "xa_alloc_id ?E = Some 1"
    "rdma_create_id ?E = Inr 102" "\<not> copy_to_ok ?E"
    by (simp_all add: env0_def)
  have c: "ucma_get_qp_type ?cmd = Inr IB_QPT_RC" by (simp add: ucma_get_qp_type_def)
  have d: "files state0 1 = Some ?f" "ctxs state0 20 = None"
    "ctx_table state0 (unat (1::u32)) = None" "cm_ids state0 102 = None"
    "engine_calls state0 = []"
    by (simp_all add: state0_def)
  have e: "20 \<notin> set (ctx_list ?f)" by simp
  have "ucma_create_id abi0 ?E 1 ?cmd 16 4 state0 =
     Some (- EFAULT, None,
       state0\<lparr>engine_calls := engine_calls state0 @
         [Rdma_create_id 20 (cid_ps ?cmd) IB_QPT_RC, Rdma_destroy_id 102]\<rparr>)"
    using ucma_create_id_unwinds [OF a b(1) c b(2) b(3) d(1) d(2) d(3) e, of 16] b(4,5) d(4)
    by blast
  then have "ucma_create_id abi0 ?E 1 ?cmd 16 4 state0 =
     Some (- EFAULT, None,
       state0\<lparr>engine_calls := [Rdma_create_id 20 RDMA_PS_TCP IB_QPT_RC, Rdma_destroy_id 102]\<rparr>)"
    by (simp add: d(5))
  then show ?thesis using a b c d(1-4) e by blast
qed

lemma ucma_fill_event_ctx:
  "ucma_fill_event cm ci ev s = Some u \<Longrightarrow> ev_ctx u = cm_context ci"
  by (auto simp add: ucma_fill_event_def ucma_set_event_context_def
      split: option.splits if_splits)

lemma move_events_loop_filter:
  "move_events_loop p es kept dst =
     (kept @ filter (\<lambda>e. ev_ctx e \<noteq> p) es, dst @ filter (\<lambda>e. ev_ctx e = p) es)"
  by (induction es arbitrary: kept dst) simp_all

lemma ucma_migrate_id_same:
  assumes "copy_from_ok E" and "fd_table s (mig_fd cmd) = Some (Ucma_fd new_file)"
    and "ctx_table s (xa_index A (mig_id cmd)) = Some p" and "ctxs s p = Some c"
    and "ctx_file c = new_file" and "ctx_cm_id c \<noteq> None" and "\<not> ctx_closing c"
    and "0 < ctx_ref c" and "files s new_file = Some src"
  shows "ucma_migrate_id A E new_file cmd in_len out_len s =
           Some (if copy_to_ok E then 0 else - EFAULT,
                 if copy_to_ok E then Some (ctx_events_reported c) else None, s)"
proof -
  have g: "ucma_get_ctx A new_file (mig_id cmd) s =
             Some (Inr p, s\<lparr>ctxs := (ctxs s)(p \<mapsto> c\<lparr>ctx_ref := ctx_ref c + 1\<rparr>)\<rparr>)"
    using assms by (simp add: ucma_get_ctx_found)
  have pt: "ucma_put_ctx p (s\<lparr>ctxs := (ctxs s)(p \<mapsto> c\<lparr>ctx_ref := ctx_ref c + 1\<rparr>)\<rparr>) = Some s"
    using assms(4,8) by (rule put_after_get_live)
  show ?thesis
    using assms(1,2,5,9) g pt by (simp add: ucma_migrate_id_def)
qed

lemma ucma_migrate_id_other:
  assumes "copy_from_ok E" and "fd_table s (mig_fd cmd) = Some (Ucma_fd cur_file)"
    and "ctx_table s (xa_index A (mig_id cmd)) = Some p" and "ctxs s p = Some c"
    and "ctx_file c = cur_file" and "ctx_cm_id c \<noteq> None" and "\<not> ctx_closing c"
    and "0 < ctx_ref c" and "files s cur_file = Some src"
    and "cur_file \<noteq> new_file" and "files s new_file = Some dst"
  shows "ucma_migrate_id A E new_file cmd in_len out_len s =
           Some (if copy_to_ok E then 0 else - EFAULT,
                 if copy_to_ok E then Some (ctx_events_reported c) else None,
                 s\<lparr>ctxs := (ctxs s)(p \<mapsto> c\<lparr>ctx_file := new_file\<rparr>),
                   files := (files s)
                     (cur_file \<mapsto> src\<lparr>ctx_list := list_del p (ctx_list src),
                        event_list := filter (\<lambda>e. ev_ctx e \<noteq> p) (event_list src)\<rparr>,
                      new_file \<mapsto> dst\<lparr>ctx_list := ctx_list dst @ [p],
                        event_list := event_list dst @ filter (\<lambda>e. ev_ctx e = p) (event_list src)\<rparr>)\<rparr>)"
proof -
  have g: "ucma_get_ctx A cur_file (mig_id cmd) s =
             Some (Inr p, s\<lparr>ctxs := (ctxs s)(p \<mapsto> c\<lparr>ctx_ref := ctx_ref c + 1\<rparr>)\<rparr>)"
    using assms by (simp add: ucma_get_ctx_found)
  show ?thesis
    using assms(1,2,4,5,8-11) g
    by (simp add: ucma_migrate_id_def move_ctx_tail_def ucma_move_events_def
        move_events_loop_filter ucma_put_ctx_def Let_def)
qed

text \<open>
  C3. A migration of a context that the lookup finds on the file the descriptor names
  (the file holding a reference, so the count is above zero). To another file: the
  events of the source file's queue whose context is the migrated one (the callback
  sets the context of an event for the context's own events and for those of its groups
  alike, lemma \<open>ucma_fill_event_ctx\<close>) are appended, in their order, to the queue of
  the destination file, the other events stay, in their order; the context moves to the
  tail of the destination's context list and its file becomes the destination. To the
  same file: the state is unchanged. In both cases the response is the context's count
  of reported events, and the command returns 0 when the response is copied out and
  -EFAULT when it is not.
\<close>

theorem ucma_migrate_id_moves_events:
  assumes "copy_from_ok E" and "fd_table s (mig_fd cmd) = Some (Ucma_fd cur_file)"
    and "ctx_table s (xa_index A (mig_id cmd)) = Some p" and "ctxs s p = Some c"
    and "ctx_file c = cur_file" and "ctx_cm_id c \<noteq> None" and "\<not> ctx_closing c"
    and "0 < ctx_ref c" and "files s cur_file = Some src"
  shows "(cur_file \<noteq> new_file \<and> files s new_file = Some dst \<longrightarrow>
            ucma_migrate_id A E new_file cmd in_len out_len s =
              Some (if copy_to_ok E then 0 else - EFAULT,
                    if copy_to_ok E then Some (ctx_events_reported c) else None,
                    s\<lparr>ctxs := (ctxs s)(p \<mapsto> c\<lparr>ctx_file := new_file\<rparr>),
                      files := (files s)
                        (cur_file \<mapsto> src\<lparr>ctx_list := list_del p (ctx_list src),
                           event_list := filter (\<lambda>e. ev_ctx e \<noteq> p) (event_list src)\<rparr>,
                         new_file \<mapsto> dst\<lparr>ctx_list := ctx_list dst @ [p],
                           event_list := event_list dst @
                             filter (\<lambda>e. ev_ctx e = p) (event_list src)\<rparr>)\<rparr>)) \<and>
         (cur_file = new_file \<longrightarrow>
            ucma_migrate_id A E new_file cmd in_len out_len s =
              Some (if copy_to_ok E then 0 else - EFAULT,
                    if copy_to_ok E then Some (ctx_events_reported c) else None, s))"
proof (intro conjI impI)
  assume "cur_file \<noteq> new_file \<and> files s new_file = Some dst"
  then show "ucma_migrate_id A E new_file cmd in_len out_len s =
              Some (if copy_to_ok E then 0 else - EFAULT,
                    if copy_to_ok E then Some (ctx_events_reported c) else None,
                    s\<lparr>ctxs := (ctxs s)(p \<mapsto> c\<lparr>ctx_file := new_file\<rparr>),
                      files := (files s)
                        (cur_file \<mapsto> src\<lparr>ctx_list := list_del p (ctx_list src),
                           event_list := filter (\<lambda>e. ev_ctx e \<noteq> p) (event_list src)\<rparr>,
                         new_file \<mapsto> dst\<lparr>ctx_list := ctx_list dst @ [p],
                           event_list := event_list dst @
                             filter (\<lambda>e. ev_ctx e = p) (event_list src)\<rparr>)\<rparr>)"
    using ucma_migrate_id_other [OF assms, of new_file dst] by blast
next
  assume "cur_file = new_file"
  then show "ucma_migrate_id A E new_file cmd in_len out_len s =
              Some (if copy_to_ok E then 0 else - EFAULT,
                    if copy_to_ok E then Some (ctx_events_reported c) else None, s)"
    using ucma_migrate_id_same [of E s cmd new_file A p c src] assms by blast
qed

theorem ucma_migrate_id_moves_events_witness:
  "copy_from_ok env0 \<and> copy_to_ok env0 \<and>
   fd_table state2 (mig_fd \<lparr>mig_id = 0, mig_fd = 3\<rparr>) = Some (Ucma_fd 1) \<and>
   ctx_table state2 (xa_index abi0 (mig_id \<lparr>mig_id = 0, mig_fd = 3\<rparr>)) = Some 10 \<and>
   ctxs state2 10 = Some listener0 \<and> ctx_file listener0 = 1 \<and> ctx_cm_id listener0 \<noteq> None \<and>
   \<not> ctx_closing listener0 \<and> 0 < ctx_ref listener0 \<and>
   files state2 1 =
     Some (file0\<lparr>ctx_list := [10], event_list := [uevent0, uevent1, uevent0\<lparr>ev_cm_id := 104\<rparr>]\<rparr>) \<and>
   (1::nat) \<noteq> 2 \<and> files state2 2 = Some (file0\<lparr>event_list := [uevent1]\<rparr>) \<and>
   ucma_migrate_id abi0 env0 2 \<lparr>mig_id = 0, mig_fd = 3\<rparr> 8 4 state2 =
     Some (0, Some 0,
       state2\<lparr>ctxs := (ctxs state2)(10 \<mapsto> listener0\<lparr>ctx_file := 2\<rparr>),
         files := (files state2)
           (1 \<mapsto> file0\<lparr>ctx_list := [], event_list := [uevent1]\<rparr>,
            2 \<mapsto> file0\<lparr>ctx_list := [10],
                  event_list := [uevent1, uevent0, uevent0\<lparr>ev_cm_id := 104\<rparr>]\<rparr>)\<rparr>)"
proof -
  let ?cmd = "\<lparr>mig_id = 0, mig_fd = 3\<rparr>"
  let ?src = "file0\<lparr>ctx_list := [10], event_list := [uevent0, uevent1, uevent0\<lparr>ev_cm_id := 104\<rparr>]\<rparr>"
  let ?dst = "file0\<lparr>event_list := [uevent1]\<rparr>"
  have a: "copy_from_ok env0" "copy_to_ok env0" by (simp_all add: env0_def)
  have b: "fd_table state2 (mig_fd ?cmd) = Some (Ucma_fd 1)"
    "ctx_table state2 (xa_index abi0 (mig_id ?cmd)) = Some 10"
    "ctxs state2 10 = Some listener0" "files state2 1 = Some ?src" "files state2 2 = Some ?dst"
    by (simp_all add: state2_def state0_def xa_index_def abi0_def)
  have c: "ctx_file listener0 = 1" "ctx_cm_id listener0 \<noteq> None" "\<not> ctx_closing listener0"
    "0 < ctx_ref listener0" "ctx_events_reported listener0 = 0"
    by (simp_all add: listener0_def)
  have d: "(1::nat) \<noteq> 2" by simp
  have "ucma_migrate_id abi0 env0 2 ?cmd 8 4 state2 =
              Some (if copy_to_ok env0 then 0 else - EFAULT,
                    if copy_to_ok env0 then Some (ctx_events_reported listener0) else None,
                    state2\<lparr>ctxs := (ctxs state2)(10 \<mapsto> listener0\<lparr>ctx_file := 2\<rparr>),
                      files := (files state2)
                        (1 \<mapsto> ?src\<lparr>ctx_list := list_del 10 (ctx_list ?src),
                           event_list := filter (\<lambda>e. ev_ctx e \<noteq> 10) (event_list ?src)\<rparr>,
                         2 \<mapsto> ?dst\<lparr>ctx_list := ctx_list ?dst @ [10],
                           event_list := event_list ?dst @
                             filter (\<lambda>e. ev_ctx e = 10) (event_list ?src)\<rparr>)\<rparr>)"
    using ucma_migrate_id_moves_events [OF a(1) b(1) b(2) b(3) c(1) c(2) c(3) c(4) b(4), of 2 ?dst 8 4]
      d b(5) by blast
  then have "ucma_migrate_id abi0 env0 2 ?cmd 8 4 state2 =
     Some (0, Some 0,
       state2\<lparr>ctxs := (ctxs state2)(10 \<mapsto> listener0\<lparr>ctx_file := 2\<rparr>),
         files := (files state2)
           (1 \<mapsto> file0\<lparr>ctx_list := [], event_list := [uevent1]\<rparr>,
            2 \<mapsto> file0\<lparr>ctx_list := [10],
                  event_list := [uevent1, uevent0, uevent0\<lparr>ev_cm_id := 104\<rparr>]\<rparr>)\<rparr>)"
    by (simp add: a c list_del_def uevent0_def uevent1_def file0_def)
  then show ?thesis using a b c d by blast
qed

lemma cleanup_mc_events_loop_filter:
  "cleanup_mc_events_loop m es = filter (\<lambda>e. ev_mc e \<noteq> Some m) es"
  by (induction es) simp_all

lemma ucma_leave_lookup_ok:
  assumes "multicast_table s (unat i) = Some (Some m)" and "mcs s m = Some g"
    and "ctxs s (mc_ctx g) = Some c" and "ctx_file c = file" and "0 < ctx_ref c"
  shows "ucma_leave_lookup file i s =
           Some (Inr m,
             s\<lparr>ctxs := (ctxs s)(mc_ctx g \<mapsto> c\<lparr>ctx_ref := ctx_ref c + 1\<rparr>),
               multicast_table := (multicast_table s)(unat (mc_id g) := None)\<rparr>)"
  using assms by (simp add: ucma_leave_lookup_def)

lemma ucma_leave_multicast_ok:
  assumes "sizeof_destroy_id_resp A \<le> out_len" and "copy_from_ok E"
    and "multicast_table s (unat i) = Some (Some m)" and "mcs s m = Some g"
    and "ctxs s (mc_ctx g) = Some c" and "ctx_file c = file" and "0 < ctx_ref c"
    and "ctx_cm_id c = Some cm" and "files s file = Some f"
  shows "ucma_leave_multicast A E file i in_len out_len s =
           Some (if copy_to_ok E then 0 else - EFAULT,
                 if copy_to_ok E then Some (mc_events_reported g) else None,
                 s\<lparr>multicast_table := (multicast_table s)(unat (mc_id g) := None),
                   ctxs := (ctxs s)(mc_ctx g \<mapsto> c\<lparr>ctx_mc_list := list_del m (ctx_mc_list c)\<rparr>),
                   mcs := (mcs s)(m := None),
                   files := (files s)(file \<mapsto>
                     f\<lparr>event_list := filter (\<lambda>e. ev_mc e \<noteq> Some m) (event_list f)\<rparr>),
                   engine_calls := engine_calls s @ [Rdma_leave_multicast cm (mc_addr g)]\<rparr>)"
  using assms
  by (simp add: ucma_leave_multicast_def ucma_leave_lookup_ok [where g = g and c = c]
      ucma_cleanup_mc_events_def cleanup_mc_events_loop_filter ucma_put_ctx_def Let_def)


lemma ucma_get_ctx_dev_ok:
  assumes "ctx_table s (xa_index A i) = Some p" and "ctxs s p = Some c"
    and "ctx_file c = file" and "ctx_cm_id c = Some cm" and "\<not> ctx_closing c"
    and "cm_ids s cm = Some ci" and "cm_device ci \<noteq> None"
  shows "ucma_get_ctx_dev A file i s =
           Some (Inr p, s\<lparr>ctxs := (ctxs s)(p \<mapsto> c\<lparr>ctx_ref := ctx_ref c + 1\<rparr>)\<rparr>)"
  using assms by (auto simp add: ucma_get_ctx_dev_def ucma_get_ctx_found)

lemma filter_id_conv: "(\<forall>e\<in>set es. P e) \<Longrightarrow> filter P es = es"
  by simp

text \<open>
  A join whose id cannot be copied to the client is undone: the engine group is left, the
  id is erased from the multicast table, the group is unlinked and freed, the reference
  on the context is dropped. What remains of the command is the record of the two
  engine calls.
\<close>

lemma ucma_process_join_copy_fault_unwinds:
  assumes "sizeof_create_id_resp A \<le> out_len"
    and "jm_addr_size cmd = rdma_addr_size E (jm_addr cmd)"
    and "jm_join_flags cmd = RDMA_MC_JOIN_FLAG_FULLMEMBER \<or>
         jm_join_flags cmd = RDMA_MC_JOIN_FLAG_SENDONLY_FULLMEMBER"
    and "ctx_table s (xa_index A (jm_id cmd)) = Some p" and "ctxs s p = Some c"
    and "ctx_file c = file" and "ctx_cm_id c = Some cm" and "\<not> ctx_closing c"
    and "cm_ids s cm = Some ci" and "cm_device ci \<noteq> None" and "0 < ctx_ref c"
    and "files s file = Some f"
    and "kzalloc E = Some m" and "xa_alloc_id E = Some i"
    and "mcs s m = None" and "multicast_table s (unat i) = None"
    and "m \<notin> set (ctx_mc_list c)" and "\<forall>e\<in>set (event_list f). ev_mc e \<noteq> Some m"
    and "engine_ret E = 0" and "\<not> copy_to_ok E"
  shows "ucma_process_join A E file cmd out_len s =
           Some (- EFAULT, None,
             s\<lparr>engine_calls := engine_calls s @
                [Rdma_join_multicast cm (jm_addr cmd)
                   (if jm_join_flags cmd = RDMA_MC_JOIN_FLAG_FULLMEMBER then FULLMEMBER_JOIN
                    else SENDONLY_FULLMEMBER_JOIN) m,
                 Rdma_leave_multicast cm (jm_addr cmd)]\<rparr>)"
proof -
  have a: "(multicast_table s)(unat i := None) = multicast_table s"
    using assms(16) by (simp add: fun_upd_idem)
  have b: "(mcs s)(m := None) = mcs s" using assms(15) by (simp add: fun_upd_idem)
  have c: "(ctxs s)(p \<mapsto> c) = ctxs s" using assms(5) by (simp add: fun_upd_idem)
  have d: "(files s)(file \<mapsto> f) = files s" using assms(12) by (simp add: fun_upd_idem)
  have e: "filter (\<lambda>e. ev_mc e \<noteq> Some m) (event_list f) = event_list f"
    using assms(18) by (rule filter_id_conv)
  have g: "ucma_get_ctx_dev A file (jm_id cmd) s =
           Some (Inr p, s\<lparr>ctxs := (ctxs s)(p \<mapsto> c\<lparr>ctx_ref := ctx_ref c + 1\<rparr>)\<rparr>)"
    using assms(4-10) by (rule ucma_get_ctx_dev_ok)
  show ?thesis
    using assms(1,2,3,6,7,11,12,13,14,17,19,20) a b c d e g
    by (auto simp add: ucma_process_join_def ucma_alloc_multicast_def Let_def
        ucma_cleanup_mc_events_def cleanup_mc_events_loop_filter ucma_process_join_err2_def
        ucma_put_ctx_def list_del_appended zeroed_mc_def)
qed

text \<open>
  C9. A leave-multicast command whose lookup succeeds: the id names a published group,
  the parent context of the group belongs to the calling file and its reference count is
  above zero. The lookup takes a reference on the parent context and erases the group's
  id from the multicast table in one step. The command then leaves the engine group,
  removes from the file's queue exactly the events whose group is this one (events of
  other groups and events with no group stay, in their order), unlinks and frees the
  group and drops the reference. The response is the group's count of reported events;
  the command returns 0 when the response is copied out and -EFAULT when it is not.
\<close>

theorem ucma_leave_multicast_events:
  assumes "sizeof_destroy_id_resp A \<le> out_len" and "copy_from_ok E"
    and "multicast_table s (unat i) = Some (Some m)" and "mcs s m = Some g"
    and "ctxs s (mc_ctx g) = Some c" and "ctx_file c = file" and "0 < ctx_ref c"
    and "ctx_cm_id c = Some cm" and "files s file = Some f"
  shows "ucma_leave_lookup file i s =
           Some (Inr m,
             s\<lparr>ctxs := (ctxs s)(mc_ctx g \<mapsto> c\<lparr>ctx_ref := ctx_ref c + 1\<rparr>),
               multicast_table := (multicast_table s)(unat (mc_id g) := None)\<rparr>) \<and>
         ucma_leave_multicast A E file i in_len out_len s =
           Some (if copy_to_ok E then 0 else - EFAULT,
                 if copy_to_ok E then Some (mc_events_reported g) else None,
                 s\<lparr>multicast_table := (multicast_table s)(unat (mc_id g) := None),
                   ctxs := (ctxs s)(mc_ctx g \<mapsto> c\<lparr>ctx_mc_list := list_del m (ctx_mc_list c)\<rparr>),
                   mcs := (mcs s)(m := None),
                   files := (files s)(file \<mapsto>
                     f\<lparr>event_list := filter (\<lambda>e. ev_mc e \<noteq> Some m) (event_list f)\<rparr>),
                   engine_calls := engine_calls s @ [Rdma_leave_multicast cm (mc_addr g)]\<rparr>)"
  using ucma_leave_lookup_ok [OF assms(3-7)] ucma_leave_multicast_ok [OF assms]
  by (intro conjI)

theorem ucma_leave_multicast_events_witness:
  "sizeof_destroy_id_resp abi0 \<le> 4 \<and> copy_from_ok env0 \<and> copy_to_ok env0 \<and>
   multicast_table state3 (unat (4::u32)) = Some (Some 30) \<and> mcs state3 30 = Some mc0 \<and>
   ctxs state3 (mc_ctx mc0) = Some (listener0\<lparr>ctx_mc_list := [30]\<rparr>) \<and>
   ctx_file (listener0\<lparr>ctx_mc_list := [30]\<rparr>) = 1 \<and>
   0 < ctx_ref (listener0\<lparr>ctx_mc_list := [30]\<rparr>) \<and>
   ctx_cm_id (listener0\<lparr>ctx_mc_list := [30]\<rparr>) = Some 100 \<and>
   files state3 1 =
     Some (file0\<lparr>ctx_list := [10],
             event_list := [mc_event 30, uevent0, mc_event 31, mc_event 30]\<rparr>) \<and>
   ucma_leave_multicast abi0 env0 1 4 8 4 state3 =
     Some (0, Some 3,
       state3\<lparr>multicast_table := Map.empty,
         ctxs := [10 \<mapsto> listener0],
         mcs := Map.empty,
         files := [1 \<mapsto> file0\<lparr>ctx_list := [10], event_list := [uevent0, mc_event 31]\<rparr>,
                   2 \<mapsto> file0],
         engine_calls := [Rdma_leave_multicast 100 \<lparr>sa_family = 2, sa_data = 1\<rparr>]\<rparr>)"
proof -
  let ?c = "listener0\<lparr>ctx_mc_list := [30]\<rparr>"
  let ?f = "file0\<lparr>ctx_list := [10], event_list := [mc_event 30, uevent0, mc_event 31, mc_event 30]\<rparr>"
  have a: "sizeof_destroy_id_resp abi0 \<le> 4" "copy_from_ok env0" "copy_to_ok env0"
    by (simp_all add: abi0_def env0_def)
  have b: "multicast_table state3 (unat (4::u32)) = Some (Some 30)" "mcs state3 30 = Some mc0"
    "ctxs state3 (mc_ctx mc0) = Some ?c" "files state3 1 = Some ?f"
    by (simp_all add: state3_def mc0_def)
  have c: "ctx_file ?c = 1" "0 < ctx_ref ?c" "ctx_cm_id ?c = Some 100"
    by (simp_all add: listener0_def)
  have r: "ucma_leave_multicast abi0 env0 1 4 8 4 state3 =
           Some (if copy_to_ok env0 then 0 else - EFAULT,
                 if copy_to_ok env0 then Some (mc_events_reported mc0) else None,
                 state3\<lparr>multicast_table := (multicast_table state3)(unat (mc_id mc0) := None),
                   ctxs := (ctxs state3)(mc_ctx mc0 \<mapsto> ?c\<lparr>ctx_mc_list := list_del 30 (ctx_mc_list ?c)\<rparr>),
                   mcs := (mcs state3)(30 := None),
                   files := (files state3)(1 \<mapsto>
                     ?f\<lparr>event_list := filter (\<lambda>e. ev_mc e \<noteq> Some 30) (event_list ?f)\<rparr>),
                   engine_calls := engine_calls state3 @ [Rdma_leave_multicast 100 (mc_addr mc0)]\<rparr>)"
    using ucma_leave_multicast_events [OF a(1) a(2) b(1) b(2) b(3) c(1) c(2) c(3) b(4), of 8]
    by (rule conjunct2)
  have "ucma_leave_multicast abi0 env0 1 4 8 4 state3 =
     Some (0, Some 3,
       state3\<lparr>multicast_table := Map.empty,
         ctxs := [10 \<mapsto> listener0],
         mcs := Map.empty,
         files := [1 \<mapsto> file0\<lparr>ctx_list := [10], event_list := [uevent0, mc_event 31]\<rparr>,
                   2 \<mapsto> file0],
         engine_calls := [Rdma_leave_multicast 100 \<lparr>sa_family = 2, sa_data = 1\<rparr>]\<rparr>)"
    unfolding r
    by (simp add: a state3_def state0_def mc0_def list_del_def mc_event_def uevent0_def
        listener0_def file0_def fun_upd_twist)
  then show ?thesis using a b c by blast
qed

text \<open>
  A read that pops a connect request gives the listener its slot back: the connect
  requests that wait for the listener and its free slots add up to what they were.
\<close>

lemma ucma_get_event_returns_slot:
  assumes "files s file = Some f" and "event_list f = uevent # rest"
    and "sizeof_event_resp A - sizeof_event_resp_reserved A - sizeof_event_resp_ece A \<le> out_len"
    and "copy_from_ok E" and "copy_to_ok E"
    and "resp_event (ev_resp uevent) = RDMA_CM_EVENT_CONNECT_REQUEST"
    and "kzalloc E = Some p" and "xa_alloc_id E = Some i"
    and "ctxs s p = None" and "ctxs s (ev_ctx uevent) = Some parent"
    and "cm_ids s (ev_cm_id uevent) = Some ci" and "ev_mc uevent = None"
    and "ctx_backlog parent + 1 \<noteq> 0"
  shows "\<exists>out s' c' f'. ucma_get_event A E file in_len out_len s = Some (0, out, s') \<and>
           ctxs s' (ev_ctx uevent) = Some c' \<and> files s' file = Some f' \<and>
           pending_con_reqs (ev_ctx uevent) (event_list f') + unat (ctx_backlog c') =
             pending_con_reqs (ev_ctx uevent) (event_list f) + unat (ctx_backlog parent)"
proof -
  have u: "unat (ctx_backlog parent + 1) = unat (ctx_backlog parent) + 1"
    using unatSuc [of "ctx_backlog parent"] assms(13) by (simp add: add.commute)
  show ?thesis
    using ucma_get_event_con_req_copied [OF assms(1-12), of in_len] assms(2,6) u
    by (simp add: pending_con_reqs_def)
qed

text \<open>
  C1, as the claim states it, fails: a listener with backlog 2 holds four connect
  requests that wait to be read, once a second listen command has set its backlog
  counter back to 2 while two were queued; the callback admits whenever the counter is
  not zero, and the counter is not the number of free slots after a listen command.
\<close>

theorem ucma_listen_again_admits_more:
  "ctx_backlog listener0 = 2 \<and> ctxs state0 10 = Some listener0 \<and>
   files state0 1 = Some (file0\<lparr>ctx_list := [10]\<rparr>) \<and>
   pending_con_reqs 10 (event_list (file0\<lparr>ctx_list := [10]\<rparr>)) = 0 \<and>
   map_option fst relisten_run = Some [0, 0, 0, 0, 0] \<and>
   pending_of 10 1 relisten_run = Some 4"
  by (simp add: relisten_run_def pending_of_def ucma_event_handler_def ucma_fill_event_def
      ucma_set_event_context_def zeroed_event_def enqueue_event_def ucma_listen_def
      ucma_get_ctx_def ucma_find_context_def ucma_put_ctx_def listen_backlog_def xa_index_def
      state0_def listener0_def file0_def env0_def abi0_def con_req0_def pending_con_reqs_def
      Let_def)

text \<open>
  C10, as the claim states it, fails: with max_backlog configured to 0xFFFFFFFF, a
  request of 0x80000000, which is negative as an int, is not replaced by the maximum; it
  is stored in the context and handed to rdma_listen.
\<close>

theorem ucma_listen_keeps_negative_request:
  "sint (0x80000000 :: u32) < 0 \<and>
   ucma_listen abi0 env0 1 \<lparr>l_id = 0, l_backlog = 0x80000000\<rparr> 8 0
       (state0\<lparr>max_backlog := 0xFFFFFFFF\<rparr>) =
     Some (0, state0\<lparr>max_backlog := 0xFFFFFFFF,
       ctxs := [10 \<mapsto> listener0\<lparr>ctx_backlog := 0x80000000\<rparr>],
       engine_calls := [Rdma_listen 100 0x80000000]\<rparr>) \<and>
   (0x80000000 :: u32) \<noteq> 0xFFFFFFFF"
  by (simp add: ucma_listen_def ucma_get_ctx_def ucma_find_context_def ucma_put_ctx_def
      listen_backlog_def xa_index_def state0_def listener0_def env0_def abi0_def Let_def)

lemma pending_con_reqs_Cons:
  "pending_con_reqs p (u # q) =
     (if ev_ctx u = p \<and> resp_event (ev_resp u) = RDMA_CM_EVENT_CONNECT_REQUEST then 1 else 0) +
       pending_con_reqs p q"
  by (simp add: pending_con_reqs_def)

lemma find_con_req_pending:
  "find_con_req cm es = Some (e, rest) \<Longrightarrow> pending_con_reqs l rest \<le> pending_con_reqs l es"
proof (induction es arbitrary: e rest)
  case Nil
  then show ?case by simp
next
  case (Cons a es)
  show ?case
  proof (cases "ev_cm_id a = cm \<and> resp_event (ev_resp a) = RDMA_CM_EVENT_CONNECT_REQUEST")
    case True
    then have "rest = es" using Cons.prems by simp
    then show ?thesis by (simp add: pending_con_reqs_Cons)
  next
    case False
    then obtain r where r: "find_con_req cm es = Some (e, r)" "rest = a # r"
      using Cons.prems by (auto split: option.splits)
    then show ?thesis using Cons.IH [OF r(1)] by (simp add: pending_con_reqs_Cons)
  qed
qed

lemma ucma_removal_event_handler_effect:
  assumes "ucma_removal_event_handler cm s = Some s1" and "ctxs s l = Some c"
  shows "\<exists>c'. ctxs s1 l = Some c' \<and> ctx_file c' = ctx_file c \<and>
           ctx_backlog c' = ctx_backlog c \<and> (\<forall>fp. waiting l s1 fp \<le> waiting l s fp)"
  using assms find_con_req_pending [of cm _ _ _ l]
  by (auto simp add: ucma_removal_event_handler_def waiting_def
      split: option.splits if_splits prod.splits)


lemma ucma_fill_event_kind:
  "ucma_fill_event cm ci ev s = Some u \<Longrightarrow> resp_event (ev_resp u) = event ev"
  by (auto simp add: ucma_fill_event_def ucma_set_event_context_def
      split: option.splits if_splits)

lemma waiting_enqueue:
  assumes "files s x = Some f"
  shows "waiting l (s\<lparr>files := (files s)(x \<mapsto> enqueue_event u f)\<rparr>) fp =
           (if fp = x \<and> ev_ctx u = l \<and> resp_event (ev_resp u) = RDMA_CM_EVENT_CONNECT_REQUEST
            then waiting l s fp + 1 else waiting l s fp)"
  using assms by (simp add: waiting_def enqueue_event_def pending_con_reqs_append)

lemma ucma_event_handler_effect:
  assumes "ucma_event_handler E cm ev s = Some (r, s1)" and "ctxs s l = Some c"
  shows "\<exists>c'. ctxs s1 l = Some c' \<and> ctx_file c' = ctx_file c \<and>
           ((ctx_backlog c' = ctx_backlog c \<and> (\<forall>fp. waiting l s1 fp \<le> waiting l s fp)) \<or>
            (ctx_backlog c \<noteq> 0 \<and> ctx_backlog c' = ctx_backlog c - 1 \<and>
             (\<forall>fp. waiting l s1 fp =
                (if fp = ctx_file c then waiting l s fp + 1 else waiting l s fp))))"
proof -
  obtain ci where ci: "cm_ids s cm = Some ci"
    using assms(1) by (auto simp add: ucma_event_handler_def split: option.splits)
  show ?thesis
  proof (cases "kzalloc E = None")
    case True
    then have "s1 = s" using assms(1) ci by (simp add: ucma_event_handler_def)
    then show ?thesis using assms(2) by simp
  next
    case False
    obtain c0 f0 u where h: "ctxs s (cm_context ci) = Some c0" "files s (ctx_file c0) = Some f0"
      "ucma_fill_event cm ci ev s = Some u"
      using assms(1) ci False by (auto simp add: ucma_event_handler_def split: option.splits)
    have u: "ev_ctx u = cm_context ci" "resp_event (ev_resp u) = event ev"
      using h(3) by (simp_all add: ucma_fill_event_ctx ucma_fill_event_kind)
    let ?sq = "s\<lparr>files := (files s)(ctx_file c0 \<mapsto> enqueue_event u f0)\<rparr>"
    show ?thesis
    proof (cases "event ev = RDMA_CM_EVENT_CONNECT_REQUEST")
      case True
      show ?thesis
      proof (cases "ctx_backlog c0 = 0")
        case True
        then have "s1 = s"
          using assms(1) ci False h \<open>event ev = RDMA_CM_EVENT_CONNECT_REQUEST\<close>
          by (simp add: ucma_event_handler_def)
        then show ?thesis using assms(2) by simp
      next
        case nz: False
        have s1: "s1 = s\<lparr>ctxs := (ctxs s)(cm_context ci \<mapsto> c0\<lparr>ctx_backlog := ctx_backlog c0 - 1\<rparr>),
                           files := (files s)(ctx_file c0 \<mapsto> enqueue_event u f0)\<rparr>"
          using assms(1) ci False h True nz by (auto simp add: ucma_event_handler_def)
        have w: "\<And>fp. waiting l s1 fp = waiting l ?sq fp"
          unfolding s1 by (simp add: waiting_def)
        show ?thesis
        proof (cases "cm_context ci = l")
          case True
          then have "c0 = c" using h(1) assms(2) by simp
          then show ?thesis
            using s1 w True nz u \<open>event ev = RDMA_CM_EVENT_CONNECT_REQUEST\<close>
              waiting_enqueue [OF h(2), of l u]
            by simp
        next
          case False
          then show ?thesis
            using s1 w assms(2) u waiting_enqueue [OF h(2), of l u] by simp
        qed
      qed
    next
      case nc: False
      have wq: "\<And>fp. waiting l ?sq fp = waiting l s fp"
        using waiting_enqueue [OF h(2), of l u] u nc by simp
      have cq: "ctxs ?sq l = Some c" using assms(2) by simp
      consider (same) "s1 = s" | (rem) "ucma_removal_event_handler cm s = Some s1"
        | (enq) "s1 = ?sq" | (enqrem) "ucma_removal_event_handler cm ?sq = Some s1"
        using assms(1) ci False h nc
        by (auto simp add: ucma_event_handler_def Let_def split: option.splits if_splits)
      then show ?thesis
      proof cases
        case same
        then show ?thesis using assms(2) by simp
      next
        case rem
        from ucma_removal_event_handler_effect [OF rem assms(2)] show ?thesis by blast
      next
        case enq
        then show ?thesis using cq wq by simp
      next
        case enqrem
        from ucma_removal_event_handler_effect [OF enqrem cq] wq show ?thesis by auto
      qed
    qed
  qed
qed


lemma ucma_get_event_con_req_Inl:
  "ucma_get_event_con_req E file uevent s = Some (Inl e, s') \<Longrightarrow> s' = s"
  by (auto simp add: ucma_get_event_con_req_def ucma_alloc_ctx_def Let_def
      split: option.splits prod.splits)

lemma ucma_get_event_con_req_Inr:
  assumes "ucma_get_event_con_req E file uevent s = Some (Inr u', s')"
  shows "\<exists>p f. kzalloc E = Some p \<and> files s file = Some f \<and>
           files s' = (files s)(file \<mapsto> f\<lparr>ctx_list := ctx_list f @ [p]\<rparr>) \<and>
           (\<forall>q. q \<noteq> p \<and> q \<noteq> ev_ctx uevent \<longrightarrow> ctxs s' q = ctxs s q) \<and>
           (p \<noteq> ev_ctx uevent \<longrightarrow>
              (\<exists>parent. ctxs s (ev_ctx uevent) = Some parent \<and>
                 ctxs s' (ev_ctx uevent) =
                   Some (parent\<lparr>ctx_backlog := ctx_backlog parent + 1\<rparr>))) \<and>
           ev_ctx u' = ev_ctx uevent \<and> ev_mc u' = ev_mc uevent \<and>
           resp_event (ev_resp u') = resp_event (ev_resp uevent)"
  using assms
  by (auto simp add: ucma_get_event_con_req_def ucma_alloc_ctx_def Let_def
      split: option.splits prod.splits if_splits)

lemma ucma_get_event_reported_effect:
  assumes "ucma_get_event_reported file u s = Some s1" and "files s file = Some f"
  shows "files s1 = (files s)(file \<mapsto> f\<lparr>event_list := tl (event_list f)\<rparr>) \<and>
         (\<exists>c0. ctxs s (ev_ctx u) = Some c0 \<and>
            ctxs s1 = (ctxs s)(ev_ctx u \<mapsto>
              c0\<lparr>ctx_events_reported := ctx_events_reported c0 + 1\<rparr>))"
  using assms
  by (auto simp add: ucma_get_event_reported_def Let_def split: option.splits)


lemma ucma_get_event_effect:
  assumes "ucma_get_event A E file il ol s = Some (r, out, s1)" and "copy_to_ok E"
    and "\<forall>p. kzalloc E = Some p \<longrightarrow> ctxs s p = None" and "ctxs s l = Some c"
  shows "s1 = s \<or>
         (\<exists>f uevent rest c'. files s file = Some f \<and> event_list f = uevent # rest \<and>
            ctxs s1 l = Some c' \<and> ctx_file c' = ctx_file c \<and>
            ctx_backlog c' =
              (if resp_event (ev_resp uevent) = RDMA_CM_EVENT_CONNECT_REQUEST \<and> ev_ctx uevent = l
               then ctx_backlog c + 1 else ctx_backlog c) \<and>
            (\<forall>fp. waiting l s1 fp =
               (if fp = file then pending_con_reqs l rest else waiting l s fp)))"
proof (cases "ol < sizeof_event_resp A - sizeof_event_resp_reserved A - sizeof_event_resp_ece A
              \<or> \<not> copy_from_ok E")
  case True
  then have "s1 = s" using assms(1) by (auto simp add: ucma_get_event_def split: if_splits)
  then show ?thesis by simp
next
  case ok: False
  then obtain f where f: "files s file = Some f"
    using assms(1) by (auto simp add: ucma_get_event_def split: option.splits)
  show ?thesis
  proof (cases "event_list f")
    case Nil
    then have "s1 = s"
      using assms(1) ok f by (auto simp add: ucma_get_event_def split: if_splits)
    then show ?thesis by simp
  next
    case (Cons uevent rest)
    show ?thesis
    proof (cases "resp_event (ev_resp uevent) = RDMA_CM_EVENT_CONNECT_REQUEST")
      case con: True
      obtain x s2 where x: "ucma_get_event_con_req E file uevent s = Some (x, s2)"
        using assms(1) ok f Cons con
        by (auto simp add: ucma_get_event_def split: option.splits)
      show ?thesis
      proof (cases x)
        case (Inl e)
        then have "s2 = s" using x ucma_get_event_con_req_Inl by blast
        moreover have "s1 = s2"
          using assms(1) ok f Cons con x Inl by (simp add: ucma_get_event_def)
        ultimately show ?thesis by simp
      next
        case (Inr u')
        from ucma_get_event_con_req_Inr [OF x [unfolded Inr]]
        obtain p where p: "kzalloc E = Some p"
          "files s2 = (files s)(file \<mapsto> f\<lparr>ctx_list := ctx_list f @ [p]\<rparr>)"
          "\<forall>q. q \<noteq> p \<and> q \<noteq> ev_ctx uevent \<longrightarrow> ctxs s2 q = ctxs s q"
          "p \<noteq> ev_ctx uevent \<longrightarrow>
              (\<exists>parent. ctxs s (ev_ctx uevent) = Some parent \<and>
                 ctxs s2 (ev_ctx uevent) =
                   Some (parent\<lparr>ctx_backlog := ctx_backlog parent + 1\<rparr>))"
          "ev_ctx u' = ev_ctx uevent"
          using f by auto
        have pl: "p \<noteq> l" using p(1) assms(3,4) by auto
        let ?f2 = "f\<lparr>ctx_list := ctx_list f @ [p]\<rparr>"
        let ?s3 = "s2\<lparr>files := (files s2)(file \<mapsto> ?f2\<lparr>event_list := u' # tl (event_list ?f2)\<rparr>)\<rparr>"
        have r: "ucma_get_event_reported file u' ?s3 = Some s1"
          using assms(1,2) ok f Cons con x Inr p(2)
          by (auto simp add: ucma_get_event_def Let_def split: option.splits)
        have f3: "files ?s3 file = Some (?f2\<lparr>event_list := u' # tl (event_list ?f2)\<rparr>)" by simp
        from ucma_get_event_reported_effect [OF r f3]
        obtain c0 where e: "files s1 = (files ?s3)(file \<mapsto> ?f2\<lparr>event_list := rest\<rparr>)"
          "ctxs ?s3 (ev_ctx u') = Some c0"
          "ctxs s1 = (ctxs ?s3)(ev_ctx u' \<mapsto> c0\<lparr>ctx_events_reported := ctx_events_reported c0 + 1\<rparr>)"
          using Cons by auto
        have w: "\<forall>fp. waiting l s1 fp = (if fp = file then pending_con_reqs l rest else waiting l s fp)"
          using e(1) p(2) by (simp add: waiting_def)
        show ?thesis
        proof (cases "ev_ctx uevent = l")
          case True
          then obtain parent where pa: "ctxs s l = Some parent"
            "ctxs s2 l = Some (parent\<lparr>ctx_backlog := ctx_backlog parent + 1\<rparr>)"
            using p(4) pl by auto
          then have "ctxs s1 l = Some (c\<lparr>ctx_backlog := ctx_backlog c + 1,
              ctx_events_reported := ctx_events_reported c + 1\<rparr>)"
            using e(2,3) p(5) True assms(4) by auto
          then show ?thesis using f Cons w True con by auto
        next
          case False
          then have "ctxs s1 l = Some c"
            using e(3) p(3,5) pl assms(4) by auto
          then show ?thesis using f Cons w False by auto
        qed
      qed
    next
      case nc: False
      let ?s3 = "s\<lparr>files := (files s)(file \<mapsto> f\<lparr>event_list := uevent # tl (event_list f)\<rparr>)\<rparr>"
      have r: "ucma_get_event_reported file uevent ?s3 = Some s1"
        using assms(1,2) ok f Cons nc
        by (auto simp add: ucma_get_event_def Let_def split: option.splits)
      have f3: "files ?s3 file = Some (f\<lparr>event_list := uevent # tl (event_list f)\<rparr>)" by simp
      from ucma_get_event_reported_effect [OF r f3]
      obtain c0 where e: "files s1 = (files ?s3)(file \<mapsto> f\<lparr>event_list := rest\<rparr>)"
        "ctxs ?s3 (ev_ctx uevent) = Some c0"
        "ctxs s1 = (ctxs ?s3)(ev_ctx uevent \<mapsto> c0\<lparr>ctx_events_reported := ctx_events_reported c0 + 1\<rparr>)"
        using Cons by auto
      have w: "\<forall>fp. waiting l s1 fp = (if fp = file then pending_con_reqs l rest else waiting l s fp)"
        using e(1) by (simp add: waiting_def)
      have "\<exists>c'. ctxs s1 l = Some c' \<and> ctx_file c' = ctx_file c \<and> ctx_backlog c' = ctx_backlog c"
        using e(2,3) assms(4) by auto
      then show ?thesis using f Cons w nc by auto
    qed
  qed
qed


lemma ucma_event_handler_slots:
  assumes "slots_inv l N s" and "ucma_event_handler E cm ev s = Some (r, s1)"
  shows "slots_inv l N s1"
proof -
  obtain c where c: "ctxs s l = Some c"
    "waiting l s (ctx_file c) + unat (ctx_backlog c) \<le> N"
    "\<forall>fp. fp \<noteq> ctx_file c \<longrightarrow> waiting l s fp = 0"
    using assms(1) by (auto simp add: slots_inv_def split: option.splits)
  from ucma_event_handler_effect [OF assms(2) c(1)]
  obtain c' where c': "ctxs s1 l = Some c'" "ctx_file c' = ctx_file c"
    "(ctx_backlog c' = ctx_backlog c \<and> (\<forall>fp. waiting l s1 fp \<le> waiting l s fp)) \<or>
     (ctx_backlog c \<noteq> 0 \<and> ctx_backlog c' = ctx_backlog c - 1 \<and>
      (\<forall>fp. waiting l s1 fp = (if fp = ctx_file c then waiting l s fp + 1 else waiting l s fp)))"
    by blast
  from c'(3) show ?thesis
  proof
    assume a: "ctx_backlog c' = ctx_backlog c \<and> (\<forall>fp. waiting l s1 fp \<le> waiting l s fp)"
    have b: "ctx_backlog c' = ctx_backlog c" using a by simp
    have w: "waiting l s1 (ctx_file c) \<le> waiting l s (ctx_file c)" using a by blast
    have le: "waiting l s1 (ctx_file c') + unat (ctx_backlog c') \<le> N"
      unfolding c'(2) b using w c(2) by linarith
    have z: "\<forall>fp. fp \<noteq> ctx_file c' \<longrightarrow> waiting l s1 fp = 0"
      using a c(3) c'(2) by (metis le_zero_eq)
    show ?thesis using c'(1) le z by (simp add: slots_inv_def)
  next
    assume a: "ctx_backlog c \<noteq> 0 \<and> ctx_backlog c' = ctx_backlog c - 1 \<and>
      (\<forall>fp. waiting l s1 fp = (if fp = ctx_file c then waiting l s fp + 1 else waiting l s fp))"
    then have u: "unat (ctx_backlog c') = unat (ctx_backlog c) - 1" "0 < unat (ctx_backlog c)"
      by (simp_all add: unat_backlog_dec unat_gt_0)
    have "waiting l s1 (ctx_file c) = waiting l s (ctx_file c) + 1" using a by simp
    then have le: "waiting l s1 (ctx_file c') + unat (ctx_backlog c') \<le> N"
      using c(2) c'(2) u by simp
    have z: "\<forall>fp. fp \<noteq> ctx_file c' \<longrightarrow> waiting l s1 fp = 0" using a c(3) c'(2) by simp
    show ?thesis using c'(1) le z by (simp add: slots_inv_def)
  qed
qed

lemma backlog_inc_nonzero:
  fixes b :: u32
  assumes "unat b < 2 ^ 32 - 1"
  shows "b + 1 \<noteq> 0"
proof
  assume "b + 1 = 0"
  then have "b = - 1" by (simp add: eq_neg_iff_add_eq_0)
  then have "unat b = 2 ^ 32 - 1" by (simp add: unsigned_minus_1_eq_mask mask_eq_exp_minus_1)
  then show False using assms by simp
qed

lemma ucma_get_event_slots:
  assumes "slots_inv l N s" and "N < 2 ^ 32"
    and "ucma_get_event A E file il ol s = Some (r, out, s1)" and "copy_to_ok E"
    and "\<forall>p. kzalloc E = Some p \<longrightarrow> ctxs s p = None"
  shows "slots_inv l N s1"
proof -
  obtain c where c: "ctxs s l = Some c"
    "waiting l s (ctx_file c) + unat (ctx_backlog c) \<le> N"
    "\<forall>fp. fp \<noteq> ctx_file c \<longrightarrow> waiting l s fp = 0"
    using assms(1) by (auto simp add: slots_inv_def split: option.splits)
  from ucma_get_event_effect [OF assms(3) assms(4) assms(5) c(1)]
  show ?thesis
  proof
    assume "s1 = s"
    then show ?thesis using assms(1) by simp
  next
    assume "\<exists>f uevent rest c'. files s file = Some f \<and> event_list f = uevent # rest \<and>
            ctxs s1 l = Some c' \<and> ctx_file c' = ctx_file c \<and>
            ctx_backlog c' =
              (if resp_event (ev_resp uevent) = RDMA_CM_EVENT_CONNECT_REQUEST \<and> ev_ctx uevent = l
               then ctx_backlog c + 1 else ctx_backlog c) \<and>
            (\<forall>fp. waiting l s1 fp =
               (if fp = file then pending_con_reqs l rest else waiting l s fp))"
    then obtain f uevent rest c' where e: "files s file = Some f" "event_list f = uevent # rest"
      "ctxs s1 l = Some c'" "ctx_file c' = ctx_file c"
      "ctx_backlog c' =
              (if resp_event (ev_resp uevent) = RDMA_CM_EVENT_CONNECT_REQUEST \<and> ev_ctx uevent = l
               then ctx_backlog c + 1 else ctx_backlog c)"
      "\<forall>fp. waiting l s1 fp = (if fp = file then pending_con_reqs l rest else waiting l s fp)"
      by blast
    have wf: "waiting l s file =
        (if ev_ctx uevent = l \<and> resp_event (ev_resp uevent) = RDMA_CM_EVENT_CONNECT_REQUEST
         then 1 else 0) + pending_con_reqs l rest"
      using e(1,2) by (simp add: waiting_def pending_con_reqs_Cons)
    show ?thesis
    proof (cases "resp_event (ev_resp uevent) = RDMA_CM_EVENT_CONNECT_REQUEST \<and> ev_ctx uevent = l")
      case True
      then have w1: "waiting l s file = Suc (pending_con_reqs l rest)" using wf by simp
      then have fl: "file = ctx_file c" using c(3) by (metis Zero_not_Suc)
      have "unat (ctx_backlog c) < 2 ^ 32 - 1" using c(2) w1 fl assms(2) by simp
      then have "ctx_backlog c + 1 \<noteq> 0" by (rule backlog_inc_nonzero)
      then have u: "unat (ctx_backlog c') = unat (ctx_backlog c) + 1"
        using True e(5) unatSuc [of "ctx_backlog c"] by (simp add: add.commute)
      have le: "waiting l s1 (ctx_file c') + unat (ctx_backlog c') \<le> N"
        using e(4,6) fl w1 u c(2) by simp
      have z: "\<forall>fp. fp \<noteq> ctx_file c' \<longrightarrow> waiting l s1 fp = 0"
        using e(4,6) fl c(3) by simp
      show ?thesis using e(3) le z by (simp add: slots_inv_def)
    next
      case False
      then have b: "ctx_backlog c' = ctx_backlog c" using e(5) by auto
      have le: "\<forall>fp. waiting l s1 fp \<le> waiting l s fp" using e(6) wf by simp
      have w: "waiting l s1 (ctx_file c) \<le> waiting l s (ctx_file c)" using le by blast
      have le': "waiting l s1 (ctx_file c') + unat (ctx_backlog c') \<le> N"
        unfolding e(4) b using w c(2) by linarith
      have z: "\<forall>fp. fp \<noteq> ctx_file c' \<longrightarrow> waiting l s1 fp = 0"
        using le c(3) e(4) by (metis le_zero_eq)
      show ?thesis using e(3) le' z by (simp add: slots_inv_def)
    qed
  qed
qed

lemma run_slots:
  assumes "slots_inv l N s" and "N < 2 ^ 32" and "reads_succeed A steps s"
    and "run A steps s = Some s'"
  shows "slots_inv l N s'"
  using assms
proof (induction steps arbitrary: s)
  case Nil
  then show ?case by simp
next
  case (Cons st steps)
  show ?case
  proof (cases st)
    case (Deliver E cm ev)
    then obtain r s1 where h: "ucma_event_handler E cm ev s = Some (r, s1)"
      "run A steps s1 = Some s'"
      using Cons.prems(4) by (auto split: option.splits)
    have "slots_inv l N s1" using ucma_event_handler_slots [OF Cons.prems(1) h(1)] .
    moreover have "reads_succeed A steps s1" using Cons.prems(3) Deliver h(1) by simp
    ultimately show ?thesis using Cons.IH Cons.prems(2) h(2) by blast
  next
    case (Read E fl il ol)
    then obtain r out s1 where h: "ucma_get_event A E fl il ol s = Some (r, out, s1)"
      "run A steps s1 = Some s'"
      using Cons.prems(4) by (auto split: option.splits)
    have e: "copy_to_ok E" "\<forall>p. kzalloc E = Some p \<longrightarrow> ctxs s p = None"
      "reads_succeed A steps s1"
      using Cons.prems(3) Read h(1) by (auto split: option.splits)
    have "slots_inv l N s1"
      using ucma_get_event_slots [OF Cons.prems(1) Cons.prems(2) h(1) e(1) e(2)] .
    then show ?thesis using Cons.IH Cons.prems(2) h(2) e(3) by blast
  qed
qed

lemma slots_inv_bound:
  assumes "slots_inv l N s"
  shows "waiting l s fp \<le> N"
proof -
  obtain c where c: "ctxs s l = Some c"
    "waiting l s (ctx_file c) + unat (ctx_backlog c) \<le> N"
    "\<forall>fp. fp \<noteq> ctx_file c \<longrightarrow> waiting l s fp = 0"
    using assms by (auto simp add: slots_inv_def split: option.splits)
  show ?thesis
  proof (cases "fp = ctx_file c")
    case True
    then show ?thesis using c(2) by simp
  next
    case False
    then show ?thesis using c(3) by simp
  qed
qed

lemma slots_inv_state0: "slots_inv 10 2 state0"
  by (auto simp add: slots_inv_def waiting_def state0_def listener0_def file0_def
      pending_con_reqs_def)

lemma reads_succeed_steps0: "reads_succeed abi0 steps0 state0"
  by (simp add: steps0_def ucma_event_handler_def ucma_fill_event_def
      ucma_set_event_context_def zeroed_event_def enqueue_event_def
      state0_def listener0_def file0_def env0_def abi0_def con_req0_def Let_def
      ucma_get_event_def ucma_get_event_con_req_def ucma_alloc_ctx_def
      ucma_get_event_reported_def zeroed_ctx_def)

lemma run_steps0: "\<exists>s'. run abi0 steps0 state0 = Some s'"
  by (simp add: steps0_def ucma_event_handler_def ucma_fill_event_def
      ucma_set_event_context_def zeroed_event_def enqueue_event_def
      state0_def listener0_def file0_def env0_def abi0_def con_req0_def Let_def
      ucma_get_event_def ucma_get_event_con_req_def ucma_alloc_ctx_def
      ucma_get_event_reported_def zeroed_ctx_def)

text \<open>
  C1, amended. A connect request that reaches the callback of a listening context, with
  the event structure allocated: when the backlog counter is zero the callback returns
  -ENOMEM (ResourceExhausted) and the state, so also the queue, is unchanged; when it is
  not zero the counter goes down by one, the event is appended to the event list of the
  context's file and the file's wait queue is woken, and the callback returns 0. Hence of
  any run of such deliveries to a listener whose backlog counter is N exactly the first
  min(k, N) are queued and the others are refused. And over any run of deliveries of any
  events and of reads whose response is copied out, the connect requests that wait for a
  listener and its backlog counter keep adding up to at most what they did: a listener
  that starts with none waiting and counter N holds at most N at a time. A listen
  command that is issued again is not part of such a run: it sets the counter whatever is
  queued.
\<close>

theorem ucma_event_handler_backlog:
  assumes "cm_ids s cm = Some ci" and "ctxs s (cm_context ci) = Some c"
    and "files s (ctx_file c) = Some f"
    and "event ev = RDMA_CM_EVENT_CONNECT_REQUEST" and "kzalloc E \<noteq> None"
  shows "((ctx_backlog c = 0 \<longrightarrow> ucma_event_handler E cm ev s = Some (- ENOMEM, s)) \<and>
         (ctx_backlog c \<noteq> 0 \<longrightarrow>
            (\<exists>uevent. ucma_fill_event cm ci ev s = Some uevent \<and>
               ev_ctx uevent = cm_context ci \<and> ev_cm_id uevent = cm \<and>
               resp_event (ev_resp uevent) = RDMA_CM_EVENT_CONNECT_REQUEST \<and>
               ucma_event_handler E cm ev s =
                 Some (0, s\<lparr>ctxs := (ctxs s)(cm_context ci \<mapsto> c\<lparr>ctx_backlog := ctx_backlog c - 1\<rparr>),
                            files := (files s)(ctx_file c \<mapsto>
                              f\<lparr>event_list := event_list f @ [uevent],
                                poll_wait := poll_wait f + 1\<rparr>)\<rparr>))) \<and>
         (\<forall>ds. list_all (con_req_for (cm_context ci) s) ds \<longrightarrow>
            (\<exists>rets s' c' f'. deliver ds s = Some (rets, s') \<and>
               ctxs s' (cm_context ci) = Some c' \<and> files s' (ctx_file c) = Some f' \<and>
               length (filter (\<lambda>r. r = 0) rets) = min (length ds) (unat (ctx_backlog c)) \<and>
               length (filter (\<lambda>r. r = - ENOMEM) rets) =
                 length ds - min (length ds) (unat (ctx_backlog c)) \<and>
               unat (ctx_backlog c') =
                 unat (ctx_backlog c) - min (length ds) (unat (ctx_backlog c)) \<and>
               pending_con_reqs (cm_context ci) (event_list f') =
                 pending_con_reqs (cm_context ci) (event_list f) +
                   min (length ds) (unat (ctx_backlog c)) \<and>
               pending_con_reqs (cm_context ci) (event_list f') \<le>
                 pending_con_reqs (cm_context ci) (event_list f) + unat (ctx_backlog c)))) \<and>
         (\<forall>N A steps s'.
            slots_inv (cm_context ci) N s \<and> N < 2 ^ 32 \<and> reads_succeed A steps s \<and>
            run A steps s = Some s' \<longrightarrow>
              slots_inv (cm_context ci) N s' \<and> (\<forall>fp. waiting (cm_context ci) s' fp \<le> N))"
proof (rule conjI)
  show "(ctx_backlog c = 0 \<longrightarrow> ucma_event_handler E cm ev s = Some (- ENOMEM, s)) \<and>
         (ctx_backlog c \<noteq> 0 \<longrightarrow>
            (\<exists>uevent. ucma_fill_event cm ci ev s = Some uevent \<and>
               ev_ctx uevent = cm_context ci \<and> ev_cm_id uevent = cm \<and>
               resp_event (ev_resp uevent) = RDMA_CM_EVENT_CONNECT_REQUEST \<and>
               ucma_event_handler E cm ev s =
                 Some (0, s\<lparr>ctxs := (ctxs s)(cm_context ci \<mapsto> c\<lparr>ctx_backlog := ctx_backlog c - 1\<rparr>),
                            files := (files s)(ctx_file c \<mapsto>
                              f\<lparr>event_list := event_list f @ [uevent],
                                poll_wait := poll_wait f + 1\<rparr>)\<rparr>))) \<and>
         (\<forall>ds. list_all (con_req_for (cm_context ci) s) ds \<longrightarrow>
            (\<exists>rets s' c' f'. deliver ds s = Some (rets, s') \<and>
               ctxs s' (cm_context ci) = Some c' \<and> files s' (ctx_file c) = Some f' \<and>
               length (filter (\<lambda>r. r = 0) rets) = min (length ds) (unat (ctx_backlog c)) \<and>
               length (filter (\<lambda>r. r = - ENOMEM) rets) =
                 length ds - min (length ds) (unat (ctx_backlog c)) \<and>
               unat (ctx_backlog c') =
                 unat (ctx_backlog c) - min (length ds) (unat (ctx_backlog c)) \<and>
               pending_con_reqs (cm_context ci) (event_list f') =
                 pending_con_reqs (cm_context ci) (event_list f) +
                   min (length ds) (unat (ctx_backlog c)) \<and>
               pending_con_reqs (cm_context ci) (event_list f') \<le>
                 pending_con_reqs (cm_context ci) (event_list f) + unat (ctx_backlog c)))"
    by (rule ucma_event_handler_con_req_runs [OF assms])
next
  show "\<forall>N A steps s'.
            slots_inv (cm_context ci) N s \<and> N < 2 ^ 32 \<and> reads_succeed A steps s \<and>
            run A steps s = Some s' \<longrightarrow>
              slots_inv (cm_context ci) N s' \<and> (\<forall>fp. waiting (cm_context ci) s' fp \<le> N)"
  proof (intro allI impI)
    fix N A steps s'
    assume h: "slots_inv (cm_context ci) N s \<and> N < 2 ^ 32 \<and> reads_succeed A steps s \<and>
            run A steps s = Some s'"
    then have i: "slots_inv (cm_context ci) N s'"
      using run_slots [of "cm_context ci" N s A steps s'] by blast
    then have "\<forall>fp. waiting (cm_context ci) s' fp \<le> N"
      using slots_inv_bound by blast
    then show "slots_inv (cm_context ci) N s' \<and> (\<forall>fp. waiting (cm_context ci) s' fp \<le> N)"
      using i by blast
  qed
qed

theorem ucma_event_handler_backlog_witness:
  "cm_ids state0 101 = Some \<lparr>cm_context = 10, cm_device = Some 1, cm_qp_type = IB_QPT_RC\<rparr> \<and>
   ctxs state0 10 = Some listener0 \<and>
   files state0 (ctx_file listener0) = Some (file0\<lparr>ctx_list := [10]\<rparr>) \<and>
   event con_req0 = RDMA_CM_EVENT_CONNECT_REQUEST \<and> kzalloc env0 \<noteq> None \<and>
   ctx_backlog listener0 \<noteq> 0 \<and> unat (ctx_backlog listener0) = 2 \<and>
   list_all (con_req_for 10 state0) [(env0, 101, con_req0), (env0, 101, con_req0), (env0, 101, con_req0)] \<and>
   (\<exists>rets s' c' f'.
      deliver [(env0, 101, con_req0), (env0, 101, con_req0), (env0, 101, con_req0)] state0 = Some (rets, s') \<and>
      ctxs s' 10 = Some c' \<and> files s' 1 = Some f' \<and>
      length (filter (\<lambda>r. r = 0) rets) = 2 \<and>
      length (filter (\<lambda>r. r = - ENOMEM) rets) = 1 \<and>
      unat (ctx_backlog c') = 0 \<and>
      pending_con_reqs 10 (event_list f') = 2) \<and>
   slots_inv 10 2 state0 \<and> (2::nat) < 2 ^ 32 \<and> reads_succeed abi0 steps0 state0 \<and>
   (\<exists>s'. run abi0 steps0 state0 = Some s' \<and> slots_inv 10 2 s' \<and> waiting 10 s' 1 \<le> 2)"
proof -
  let ?ci = "\<lparr>cm_context = 10, cm_device = Some 1, cm_qp_type = IB_QPT_RC\<rparr>"
  let ?ds = "[(env0, 101::nat, con_req0), (env0, 101, con_req0), (env0, 101, con_req0)]"
  have a: "cm_ids state0 101 = Some ?ci" by (simp add: state0_def)
  have b: "ctxs state0 (cm_context ?ci) = Some listener0" by (simp add: state0_def)
  have c: "files state0 (ctx_file listener0) = Some (file0\<lparr>ctx_list := [10]\<rparr>)"
    by (simp add: state0_def listener0_def)
  have d: "event con_req0 = RDMA_CM_EVENT_CONNECT_REQUEST" by (simp add: con_req0_def)
  have e: "kzalloc env0 \<noteq> None" by (simp add: env0_def)
  have f: "ctx_backlog listener0 \<noteq> 0" "unat (ctx_backlog listener0) = 2" "ctx_file listener0 = 1"
    by (simp_all add: listener0_def)
  have g: "list_all (con_req_for (cm_context ?ci) state0) ?ds"
    by (simp add: con_req_for_def state0_def env0_def con_req0_def)
  have p: "pending_con_reqs 10 (event_list (file0\<lparr>ctx_list := [10]\<rparr>)) = 0"
    by (simp add: pending_con_reqs_def file0_def)
  note th = ucma_event_handler_backlog [OF a b c d e]
  note runs = th [THEN conjunct1, THEN conjunct2, THEN conjunct2, rule_format, OF g]
  obtain rets s' c' f' where r: "deliver ?ds state0 = Some (rets, s')"
      "ctxs s' (cm_context ?ci) = Some c'" "files s' (ctx_file listener0) = Some f'"
      "length (filter (\<lambda>r. r = 0) rets) = min (length ?ds) (unat (ctx_backlog listener0))"
      "length (filter (\<lambda>r. r = - ENOMEM) rets) =
         length ?ds - min (length ?ds) (unat (ctx_backlog listener0))"
      "unat (ctx_backlog c') =
         unat (ctx_backlog listener0) - min (length ?ds) (unat (ctx_backlog listener0))"
      "pending_con_reqs (cm_context ?ci) (event_list f') =
         pending_con_reqs (cm_context ?ci) (event_list (file0\<lparr>ctx_list := [10]\<rparr>)) +
           min (length ?ds) (unat (ctx_backlog listener0))"
    using runs by blast
  have m: "min (length ?ds) (unat (ctx_backlog listener0)) = 2" using f(2) by simp
  have r': "ctxs s' 10 = Some c'" "files s' 1 = Some f'"
    "length (filter (\<lambda>r. r = 0) rets) = 2" "length (filter (\<lambda>r. r = - ENOMEM) rets) = 1"
    "unat (ctx_backlog c') = 0" "pending_con_reqs 10 (event_list f') = 2"
    using r(2-) f p unfolding m by simp_all
  have g': "list_all (con_req_for 10 state0) ?ds" using g by simp
  have b': "ctxs state0 10 = Some listener0" using b by simp
  have old: "cm_ids state0 101 = Some \<lparr>cm_context = 10, cm_device = Some 1, cm_qp_type = IB_QPT_RC\<rparr> \<and>
   ctxs state0 10 = Some listener0 \<and>
   files state0 (ctx_file listener0) = Some (file0\<lparr>ctx_list := [10]\<rparr>) \<and>
   event con_req0 = RDMA_CM_EVENT_CONNECT_REQUEST \<and> kzalloc env0 \<noteq> None \<and>
   ctx_backlog listener0 \<noteq> 0 \<and> unat (ctx_backlog listener0) = 2 \<and>
   list_all (con_req_for 10 state0) [(env0, 101, con_req0), (env0, 101, con_req0), (env0, 101, con_req0)] \<and>
   (\<exists>rets s' c' f'.
      deliver [(env0, 101, con_req0), (env0, 101, con_req0), (env0, 101, con_req0)] state0 = Some (rets, s') \<and>
      ctxs s' 10 = Some c' \<and> files s' 1 = Some f' \<and>
      length (filter (\<lambda>r. r = 0) rets) = 2 \<and>
      length (filter (\<lambda>r. r = - ENOMEM) rets) = 1 \<and>
      unat (ctx_backlog c') = 0 \<and>
      pending_con_reqs 10 (event_list f') = 2)"
    using a b' c d e f(1,2) g' r(1) r' by blast
  have i0: "slots_inv 10 2 state0" by (rule slots_inv_state0)
  have n: "(2::nat) < 2 ^ 32" by simp
  have rs: "reads_succeed abi0 steps0 state0" by (rule reads_succeed_steps0)
  obtain t where t: "run abi0 steps0 state0 = Some t" using run_steps0 by blast
  have "slots_inv (cm_context ?ci) 2 state0 \<and> (2::nat) < 2 ^ 32 \<and>
        reads_succeed abi0 steps0 state0 \<and> run abi0 steps0 state0 = Some t"
    using i0 n rs t by simp
  from th [THEN conjunct2, rule_format, OF this]
  have "slots_inv 10 2 t \<and> waiting 10 t 1 \<le> 2" by simp
  then have new: "\<exists>s'. run abi0 steps0 state0 = Some s' \<and> slots_inv 10 2 s' \<and> waiting 10 s' 1 \<le> 2"
    using t by blast
  show ?thesis using old i0 n rs new by blast
qed

text \<open>
  A listener with no connect request waiting on any file satisfies the slot invariant
  for the value of its backlog counter.
\<close>

lemma slots_inv_initial:
  assumes "ctxs s l = Some c" and "\<forall>fp. waiting l s fp = 0"
  shows "slots_inv l (unat (ctx_backlog c)) s"
  using assms by (simp add: slots_inv_def)

end
